theory Spec2Isabelle
  imports Complex_Main
begin

section \<open>OrbitUnlimitedControls: numbers, vectors, matrices\<close>

text \<open>
  The controller of \<^verbatim>\<open>src/OrbitUnlimitedControls.js\<close> computes with JavaScript
  numbers. In the main model they are the real numbers: sums, products, \<open>sqrt\<close>, \<open>sin\<close>
  and \<open>cos\<close> are exact. What holds there holds of the source in exact arithmetic. The
  section on double precision has the functions behind \<^verbatim>\<open>reset\<close> and a rotate move
  once more, with the rounding of every operation, for the statements that the rounding
  decides.

  JavaScript raises nothing on a division by zero: the quotient is \<^verbatim>\<open>Infinity\<close> or
  \<^verbatim>\<open>NaN\<close>, which is no real number. Every division of the source whose divisor can
  be zero is therefore guarded in the model, and the guard returns which divisor was zero
  (\<open>Inl\<close> of an \<open>error\<close>); the model follows the computation no further. A result
  \<open>Inr s\<close> is the state the source reaches, with finite numbers throughout.
\<close>

datatype error =
    ZeroDistance   \<comment> \<open>the camera position coincides with the target: a division by the distance\<close>
  | ZeroViewport   \<comment> \<open>\<^verbatim>\<open>clientWidth\<close> or \<^verbatim>\<open>clientHeight\<close> of the DOM element is 0\<close>
  | ZeroW          \<comment> \<open>the homogeneous coordinate in \<^verbatim>\<open>Vector3.applyMatrix4\<close> is 0\<close>
  | TanPole        \<comment> \<open>\<^verbatim>\<open>Math.tan\<close> at an odd multiple of \<open>pi / 2\<close>\<close>

text \<open>
  \<^verbatim>\<open>THREE.Vector2\<close>, \<^verbatim>\<open>THREE.Vector3\<close> and \<^verbatim>\<open>THREE.Matrix4\<close> belong to the
  three.js library. The methods the controller calls are modelled after the library:
  each definition below is the method of the same name, as a function from the receiver
  and the arguments to the value the receiver holds afterwards.
\<close>

datatype Vector2 = Vector2 (px: real) (py: real)

datatype Vector3 = Vector3 (vx: real) (vy: real) (vz: real)

definition subVectors2 :: "Vector2 \<Rightarrow> Vector2 \<Rightarrow> Vector2" where
  "subVectors2 a b = Vector2 (px a - px b) (py a - py b)"

definition multiplyScalar2 :: "Vector2 \<Rightarrow> real \<Rightarrow> Vector2" where
  "multiplyScalar2 v k = Vector2 (px v * k) (py v * k)"

definition manhattanDistanceTo :: "Vector2 \<Rightarrow> Vector2 \<Rightarrow> real" where
  "manhattanDistanceTo a b = \<bar>px a - px b\<bar> + \<bar>py a - py b\<bar>"

definition subVectors :: "Vector3 \<Rightarrow> Vector3 \<Rightarrow> Vector3" where
  "subVectors a b = Vector3 (vx a - vx b) (vy a - vy b) (vz a - vz b)"

definition addVectors :: "Vector3 \<Rightarrow> Vector3 \<Rightarrow> Vector3" where
  "addVectors a b = Vector3 (vx a + vx b) (vy a + vy b) (vz a + vz b)"

definition multiplyScalar :: "Vector3 \<Rightarrow> real \<Rightarrow> Vector3" where
  "multiplyScalar v k = Vector3 (vx v * k) (vy v * k) (vz v * k)"

definition dot :: "Vector3 \<Rightarrow> Vector3 \<Rightarrow> real" where
  "dot a b = vx a * vx b + vy a * vy b + vz a * vz b"

definition length3 :: "Vector3 \<Rightarrow> real" where
  "length3 v = sqrt (vx v * vx v + vy v * vy v + vz v * vz v)"

text \<open>
  \<^verbatim>\<open>divideScalar(s)\<close> is \<^verbatim>\<open>multiplyScalar(1 / s)\<close>. Its callers in the controller
  check \<open>s \<noteq> 0\<close> first (see \<open>error\<close>); \<^verbatim>\<open>normalize()\<close> is
  \<^verbatim>\<open>divideScalar(length() || 1)\<close>, which divides the zero vector by 1 and so leaves
  it the zero vector.
\<close>

definition divideScalar :: "Vector3 \<Rightarrow> real \<Rightarrow> Vector3" where
  "divideScalar v s = multiplyScalar v (1 / s)"

definition normalize3 :: "Vector3 \<Rightarrow> Vector3" where
  "normalize3 v = divideScalar v (if length3 v = 0 then 1 else length3 v)"

definition crossVectors :: "Vector3 \<Rightarrow> Vector3 \<Rightarrow> Vector3" where
  "crossVectors a b =
     Vector3 (vy a * vz b - vz a * vy b)
             (vz a * vx b - vx a * vz b)
             (vx a * vy b - vy a * vx b)"

text \<open>
  A \<^verbatim>\<open>Matrix4\<close> by its sixteen entries, named by row and column as in
  \<^verbatim>\<open>Matrix4.set(n11, n12, ..., n44)\<close>.
\<close>

record Matrix4 =
  n11 :: real  n12 :: real  n13 :: real  n14 :: real
  n21 :: real  n22 :: real  n23 :: real  n24 :: real
  n31 :: real  n32 :: real  n33 :: real  n34 :: real
  n41 :: real  n42 :: real  n43 :: real  n44 :: real

definition makeBasis :: "Vector3 \<Rightarrow> Vector3 \<Rightarrow> Vector3 \<Rightarrow> Matrix4" where
  "makeBasis xAxis yAxis zAxis =
     \<lparr> n11 = vx xAxis, n12 = vx yAxis, n13 = vx zAxis, n14 = 0,
       n21 = vy xAxis, n22 = vy yAxis, n23 = vy zAxis, n24 = 0,
       n31 = vz xAxis, n32 = vz yAxis, n33 = vz zAxis, n34 = 0,
       n41 = 0, n42 = 0, n43 = 0, n44 = 1 \<rparr>"

definition makeTranslation :: "real \<Rightarrow> real \<Rightarrow> real \<Rightarrow> Matrix4" where
  "makeTranslation tx ty tz =
     \<lparr> n11 = 1, n12 = 0, n13 = 0, n14 = tx,
       n21 = 0, n22 = 1, n23 = 0, n24 = ty,
       n31 = 0, n32 = 0, n33 = 1, n34 = tz,
       n41 = 0, n42 = 0, n43 = 0, n44 = 1 \<rparr>"

definition multiplyMatrices :: "Matrix4 \<Rightarrow> Matrix4 \<Rightarrow> Matrix4" where
  "multiplyMatrices a b =
     \<lparr> n11 = n11 a * n11 b + n12 a * n21 b + n13 a * n31 b + n14 a * n41 b,
       n12 = n11 a * n12 b + n12 a * n22 b + n13 a * n32 b + n14 a * n42 b,
       n13 = n11 a * n13 b + n12 a * n23 b + n13 a * n33 b + n14 a * n43 b,
       n14 = n11 a * n14 b + n12 a * n24 b + n13 a * n34 b + n14 a * n44 b,
       n21 = n21 a * n11 b + n22 a * n21 b + n23 a * n31 b + n24 a * n41 b,
       n22 = n21 a * n12 b + n22 a * n22 b + n23 a * n32 b + n24 a * n42 b,
       n23 = n21 a * n13 b + n22 a * n23 b + n23 a * n33 b + n24 a * n43 b,
       n24 = n21 a * n14 b + n22 a * n24 b + n23 a * n34 b + n24 a * n44 b,
       n31 = n31 a * n11 b + n32 a * n21 b + n33 a * n31 b + n34 a * n41 b,
       n32 = n31 a * n12 b + n32 a * n22 b + n33 a * n32 b + n34 a * n42 b,
       n33 = n31 a * n13 b + n32 a * n23 b + n33 a * n33 b + n34 a * n43 b,
       n34 = n31 a * n14 b + n32 a * n24 b + n33 a * n34 b + n34 a * n44 b,
       n41 = n41 a * n11 b + n42 a * n21 b + n43 a * n31 b + n44 a * n41 b,
       n42 = n41 a * n12 b + n42 a * n22 b + n43 a * n32 b + n44 a * n42 b,
       n43 = n41 a * n13 b + n42 a * n23 b + n43 a * n33 b + n44 a * n43 b,
       n44 = n41 a * n14 b + n42 a * n24 b + n43 a * n34 b + n44 a * n44 b \<rparr>"

text \<open>\<^verbatim>\<open>this.premultiply(m)\<close> is \<^verbatim>\<open>this.multiplyMatrices(m, this)\<close>.\<close>

definition premultiply :: "Matrix4 \<Rightarrow> Matrix4 \<Rightarrow> Matrix4" where
  "premultiply this m = multiplyMatrices m this"

text \<open>
  \<^verbatim>\<open>Vector3.applyMatrix4(m)\<close> multiplies the point \<open>(x, y, z, 1)\<close> by \<open>m\<close> and divides
  by the fourth coordinate of the product:
  \<^verbatim>\<open>w = 1 / (e[3] * x + e[7] * y + e[11] * z + e[15])\<close>.
\<close>

definition applyMatrix4 :: "Vector3 \<Rightarrow> Matrix4 \<Rightarrow> error + Vector3" where
  "applyMatrix4 v m =
     (let d = n41 m * vx v + n42 m * vy v + n43 m * vz v + n44 m in
      if d = 0 then Inl ZeroW
      else
        let w = 1 / d in
        Inr (Vector3 ((n11 m * vx v + n12 m * vy v + n13 m * vz v + n14 m) * w)
                     ((n21 m * vx v + n22 m * vy v + n23 m * vz v + n24 m) * w)
                     ((n31 m * vx v + n32 m * vy v + n33 m * vz v + n34 m) * w)))"


section \<open>The controller's state\<close>

text \<open>
  The states of the gesture state machine (the frozen object \<^verbatim>\<open>State\<close> of the source).
  The spec calls \<open>INACTIVE\<close> Idle.
\<close>

datatype State = INACTIVE | INDETERMINATE | ROTATING | DOLLYING | PANNING

definition ClickThreshold :: real where
  "ClickThreshold = 2"

text \<open>
  \<^verbatim>\<open>maxDistance\<close> is \<^verbatim>\<open>Infinity\<close> unless the caller sets it, so the field is a real
  number or \<open>Infinity\<close>.
\<close>

datatype limit = Finite real | Infinity

text \<open>
  What the controller does to its surroundings, in the order it does it: a call of
  \<^verbatim>\<open>this.object.lookAt(this.target)\<close> (which turns the camera; the entry keeps the
  position, the target and the up vector the call read), a call of \<^verbatim>\<open>this.fixUp()\<close>
  (with the up vector it wrote), and \<^verbatim>\<open>this.dispatchEvent(this.changeEvent)\<close>.
\<close>

datatype effect = LookAt Vector3 Vector3 Vector3 | FixUp Vector3 | Change

text \<open>The camera \<^verbatim>\<open>this.object\<close>: the fields the controller reads and writes.\<close>

record Camera =
  position :: Vector3
  up :: Vector3
  fov :: real

record Keys =
  LEFT :: int
  UP :: int
  RIGHT :: int
  DOWN :: int

text \<open>
  The fields of the controller. \<open>clientWidth\<close> and \<open>clientHeight\<close> are those of
  \<^verbatim>\<open>this.domElement\<close>. \<open>dragListeners\<close> says whether \<^verbatim>\<open>onMouseMove\<close> and
  \<^verbatim>\<open>onMouseUp\<close> are registered on the document. \<open>trace\<close> is the list of effects so
  far, oldest first. \<^verbatim>\<open>event.preventDefault()\<close>, the keyboard focus and the context-menu
  listener change nothing the controller reads and are left out.
\<close>

record Controls =
  object :: Camera
  clientWidth :: real
  clientHeight :: real
  keyPanSpeed :: real
  keys :: Keys
  maxDistance :: limit
  minDistance :: real
  rotateSpeed :: real
  target :: Vector3
  zoomSpeed :: real
  clicked :: bool
  usePanModAlt :: bool
  usePanModShift :: bool
  usePanModCtrl :: bool
  usePanModMeta :: bool
  state :: State
  prev :: Vector2
  radius :: real
  basisMatrix :: Matrix4
  target0 :: Vector3
  position0 :: Vector3
  dragListeners :: bool
  trace :: "effect list"

record MouseEvent =
  clientX :: real
  clientY :: real
  buttons :: nat
  shiftKey :: bool
  altKey :: bool
  ctrlKey :: bool
  metaKey :: bool

section \<open>fixUp, update, reset\<close>

definition fixUp :: "Controls \<Rightarrow> Controls" where
  "fixUp s =
     (let view = normalize3 (subVectors (target s) (position (object s)));
          side = normalize3 (crossVectors view (up (object s)));
          newUp = normalize3 (crossVectors side view)
      in s\<lparr>object := (object s)\<lparr>up := newUp\<rparr>, trace := trace s @ [FixUp newUp]\<rparr>)"

definition update :: "Controls \<Rightarrow> Controls" where
  "update s =
     (let s1 = s\<lparr>trace := trace s @ [LookAt (position (object s)) (target s) (up (object s))]\<rparr>;
          s2 = (if state s1 \<noteq> ROTATING then fixUp s1 else s1)
      in s2\<lparr>trace := trace s2 @ [Change]\<rparr>)"

definition reset :: "Controls \<Rightarrow> Controls" where
  "reset s =
     update (s\<lparr>target := target0 s, object := (object s)\<lparr>position := position0 s\<rparr>\<rparr>)"

text \<open>
  The constructor, from the camera and the size of the DOM element. \<^verbatim>\<open>this.prev\<close>,
  \<^verbatim>\<open>this.radius\<close> and \<^verbatim>\<open>this.basisMatrix\<close> are not assigned by the constructor; the
  model gives them the origin, 0 and the identity matrix. Each is assigned before it is
  read: \<open>prev\<close> by \<open>onMouseDown\<close>, \<open>onMouseWheel\<close> and \<open>onKeyDown\<close>, the
  other two when \<open>rotate\<close> enters \<open>ROTATING\<close>.
\<close>

definition constructor :: "Camera \<Rightarrow> real \<Rightarrow> real \<Rightarrow> Controls" where
  "constructor obj w h =
     update \<lparr> object = obj, clientWidth = w, clientHeight = h,
              keyPanSpeed = 7,
              keys = \<lparr> LEFT = 37, UP = 38, RIGHT = 39, DOWN = 40 \<rparr>,
              maxDistance = Infinity, minDistance = 0, rotateSpeed = 1,
              target = Vector3 0 0 0, zoomSpeed = 1,
              clicked = False,
              usePanModAlt = True, usePanModShift = False,
              usePanModCtrl = False, usePanModMeta = False,
              state = INACTIVE,
              prev = Vector2 0 0, radius = 0, basisMatrix = makeTranslation 0 0 0,
              target0 = Vector3 0 0 0, position0 = position obj,
              dragListeners = False, trace = [] \<rparr>"

section \<open>rotate (here \<open>rotateCamera\<close>: \<open>rotate\<close> is a function on lists in HOL)\<close>

text \<open>
  Lines 240 to 247: the radius and the basis matrix, captured when the drag is known to be
  a rotation. \<^verbatim>\<open>zAxis.divideScalar(this.radius)\<close> divides by the distance to the target.
\<close>

definition captureBasis :: "Controls \<Rightarrow> error + Controls" where
  "captureBasis s =
     (let zAxis = subVectors (position (object s)) (target s);
          r = length3 zAxis
      in if r = 0 then Inl ZeroDistance
         else
           let zAxis = divideScalar zAxis r;
               yAxis = up (object s);
               xAxis = normalize3 (crossVectors yAxis zAxis);
               m = makeBasis xAxis yAxis zAxis;
               tr = makeTranslation (vx (target s)) (vy (target s)) (vz (target s))
           in Inr (s\<lparr>radius := r, basisMatrix := premultiply m tr\<rparr>))"

definition eps :: real where
  "eps = 0.01"

text \<open>Lines 269 to 281: the scaled pointer delta, the azimuth and the clamped inclination.\<close>

definition rotateDelta :: "Vector2 \<Rightarrow> Controls \<Rightarrow> Vector2" where
  "rotateDelta cur s = multiplyScalar2 (subVectors2 cur (prev s)) (2.0 * rotateSpeed s)"

definition rotatePhi :: "Vector2 \<Rightarrow> Controls \<Rightarrow> real" where
  "rotatePhi cur s = - px (rotateDelta cur s) * (pi / clientWidth s)"

definition rotateTheta :: "Vector2 \<Rightarrow> Controls \<Rightarrow> real" where
  "rotateTheta cur s =
     (let theta = - py (rotateDelta cur s) * (pi / clientHeight s) + pi / 2;
          theta = max theta eps;
          theta = min theta (pi - eps)
      in theta)"

text \<open>Lines 289 to 292: the new position in the coordinates of the captured frame.\<close>

definition rotatePos :: "Vector2 \<Rightarrow> Controls \<Rightarrow> Vector3" where
  "rotatePos cur s =
     (let phi = rotatePhi cur s; theta = rotateTheta cur s
      in Vector3 (radius s * sin theta * sin phi)
                 (radius s * cos theta)
                 (radius s * sin theta * cos phi))"

text \<open>Lines 269 to 305: one move in state \<open>ROTATING\<close>. \<open>prev\<close> is not advanced.\<close>

definition rotateStep :: "Vector2 \<Rightarrow> Controls \<Rightarrow> error + Controls" where
  "rotateStep cur s =
     (if clientWidth s = 0 \<or> clientHeight s = 0 then Inl ZeroViewport
      else
        case applyMatrix4 (rotatePos cur s) (basisMatrix s) of
          Inl e \<Rightarrow> Inl e
        | Inr pos \<Rightarrow> Inr (update (s\<lparr>object := (object s)\<lparr>position := pos\<rparr>\<rparr>)))"

definition rotateCamera :: "real \<Rightarrow> real \<Rightarrow> Controls \<Rightarrow> error + Controls" where
  "rotateCamera x y s =
     (let cur = Vector2 x y in
      case (if state s = INDETERMINATE \<and> manhattanDistanceTo cur (prev s) > ClickThreshold
            then captureBasis (s\<lparr>state := ROTATING\<rparr>)
            else Inr s) of
        Inl e \<Rightarrow> Inl e
      | Inr s1 \<Rightarrow> if state s1 = ROTATING then rotateStep cur s1 else Inr s1)"


section \<open>dolly\<close>

text \<open>Lines 322 and 323: the distance from the camera to the target.\<close>

definition distToTarget :: "Controls \<Rightarrow> real" where
  "distToTarget s = length3 (subVectors (target s) (position (object s)))"

text \<open>
  Lines 327 and 328: \<^verbatim>\<open>Math.min(this.maxDistance - this.minDistance, distLimit)\<close>,
  where \<^verbatim>\<open>Infinity - minDistance\<close> is \<^verbatim>\<open>Infinity\<close>.
\<close>

definition distForFullDrag :: "Controls \<Rightarrow> real" where
  "distForFullDrag s =
     (let distLimit = 2 * distToTarget s in
      case maxDistance s of
        Infinity \<Rightarrow> distLimit
      | Finite mx \<Rightarrow> min (mx - minDistance s) distLimit)"

text \<open>
  Lines 332 to 339: the change of distance for the pointer at height \<open>y\<close>. The caller has
  checked \<open>clientHeight s \<noteq> 0\<close>.
\<close>

definition dollyDelta :: "real \<Rightarrow> Controls \<Rightarrow> real" where
  "dollyDelta y s =
     (let heightPx = clientHeight s;
          pxToWorld = distForFullDrag s / heightPx;
          speed = zoomSpeed s * pxToWorld;
          deltaY = py (prev s) - y
      in speed * deltaY)"

text \<open>Lines 343 and 344: the test that admits a step.\<close>

definition withinLimits :: "real \<Rightarrow> Controls \<Rightarrow> bool" where
  "withinLimits d s =
     (minDistance s \<le> d \<and> (case maxDistance s of Infinity \<Rightarrow> True | Finite mx \<Rightarrow> d \<le> mx))"

text \<open>
  Lines 322 to 350: one step in state \<open>DOLLYING\<close>. \<^verbatim>\<open>distForFullDrag / heightPx\<close> is
  computed before the test, \<^verbatim>\<open>delta / distToTarget\<close> only when the test has passed.
\<close>

definition dollyStep :: "Vector2 \<Rightarrow> Controls \<Rightarrow> error + Controls" where
  "dollyStep cur s =
     (let toTarget = subVectors (target s) (position (object s));
          d = distToTarget s
      in if clientHeight s = 0 then Inl ZeroViewport
         else
           let delta = dollyDelta (py cur) s in
           if withinLimits (d + delta) s then
             if d = 0 then Inl ZeroDistance
             else
               let deltaToTarget = multiplyScalar toTarget (delta / d);
                   s1 = s\<lparr>object := (object s)\<lparr>position :=
                          subVectors (position (object s)) deltaToTarget\<rparr>\<rparr>
               in Inr ((update s1)\<lparr>prev := cur\<rparr>)
           else Inr s)"

definition dolly :: "real \<Rightarrow> real \<Rightarrow> Controls \<Rightarrow> error + Controls" where
  "dolly x y s =
     (let cur = Vector2 x y;
          s1 = (if state s = INDETERMINATE \<and> manhattanDistanceTo cur (prev s) > ClickThreshold
                then s\<lparr>state := DOLLYING\<rparr> else s)
      in if state s1 = DOLLYING then dollyStep cur s1 else Inr s1)"

section \<open>pan\<close>

text \<open>
  Lines 367 to 401: one step in state \<open>PANNING\<close>. The divisions are by the distance to
  the target (line 369) and by half the height of the DOM element (line 384);
  \<^verbatim>\<open>Math.tan\<close> (line 379) has no real value where the cosine is 0.
\<close>

definition panStep :: "Vector2 \<Rightarrow> Controls \<Rightarrow> error + Controls" where
  "panStep cur s =
     (let zAxis = subVectors (target s) (position (object s));
          d = length3 zAxis
      in if d = 0 then Inl ZeroDistance
         else
           let zAxis = divideScalar zAxis d;
               yAxis = up (object s);
               xAxis = normalize3 (crossVectors yAxis zAxis);
               a = (fov (object s) / 2) * (pi / 360)
           in if cos a = 0 then Inl TanPole
              else
                let halfHeightWorld = tan a * d;
                    halfHeightPx = clientHeight s / 2
                in if halfHeightPx = 0 then Inl ZeroViewport
                   else
                     let pxToWorld = halfHeightWorld / halfHeightPx;
                         delta = subVectors2 cur (prev s);
                         deltaX = multiplyScalar xAxis (px delta * pxToWorld);
                         deltaY = multiplyScalar yAxis (py delta * pxToWorld);
                         pos = addVectors (addVectors (position (object s)) deltaX) deltaY;
                         toTarget = multiplyScalar zAxis d;
                         s1 = s\<lparr>object := (object s)\<lparr>position := pos\<rparr>,
                                 target := addVectors pos toTarget\<rparr>
                     in Inr ((update s1)\<lparr>prev := cur\<rparr>))"

definition pan :: "real \<Rightarrow> real \<Rightarrow> Controls \<Rightarrow> error + Controls" where
  "pan x y s =
     (let cur = Vector2 x y;
          s1 = (if state s = INDETERMINATE \<and> manhattanDistanceTo cur (prev s) > ClickThreshold
                then s\<lparr>state := PANNING\<rparr> else s)
      in if state s1 = PANNING then panStep cur s1 else Inr s1)"

section \<open>The event handlers\<close>

definition onMouseDown :: "MouseEvent \<Rightarrow> Controls \<Rightarrow> Controls" where
  "onMouseDown event s =
     s\<lparr>state := INDETERMINATE, prev := Vector2 (clientX event) (clientY event),
       dragListeners := True\<rparr>"

definition onMouseWheel :: "real \<Rightarrow> Controls \<Rightarrow> error + Controls" where
  "onMouseWheel deltaY s = dolly 0 (- deltaY) (s\<lparr>state := DOLLYING, prev := Vector2 0 0\<rparr>)"

definition eventHasPanModifier :: "MouseEvent \<Rightarrow> Controls \<Rightarrow> bool" where
  "eventHasPanModifier event s =
     ((shiftKey event \<and> usePanModShift s) \<or>
      (altKey event \<and> usePanModAlt s) \<or>
      (ctrlKey event \<and> usePanModCtrl s) \<or>
      (metaKey event \<and> usePanModMeta s))"

definition onMouseMove :: "MouseEvent \<Rightarrow> Controls \<Rightarrow> error + Controls" where
  "onMouseMove event s =
     (if buttons event = 1 then
        if eventHasPanModifier event s then pan (clientX event) (clientY event) s
        else rotateCamera (clientX event) (clientY event) s
      else if buttons event = 2 then pan (clientX event) (clientY event) s
      else if buttons event = 4 then dolly (clientX event) (clientY event) s
      else Inr s)"

definition onMouseUp :: "Controls \<Rightarrow> Controls" where
  "onMouseUp s =
     (let s1 = (if state s = ROTATING then fixUp s else s)
      in s1\<lparr>clicked := (state s1 = INDETERMINATE), state := INACTIVE,
            dragListeners := False\<rparr>)"

text \<open>
  \<^verbatim>\<open>onKeyDown\<close>: the \<^verbatim>\<open>switch\<close> compares the key code with \<open>UP\<close>, \<open>DOWN\<close>,
  \<open>LEFT\<close>, \<open>RIGHT\<close> in this order and takes the first that is equal.
\<close>

definition onKeyDown :: "int \<Rightarrow> Controls \<Rightarrow> error + Controls" where
  "onKeyDown keyCode s =
     (let k = keyPanSpeed s;
          xy = (if keyCode = UP (keys s) then Some (0, k)
                else if keyCode = DOWN (keys s) then Some (0, - k)
                else if keyCode = LEFT (keys s) then Some (k, 0)
                else if keyCode = RIGHT (keys s) then Some (- k, 0)
                else None)
      in case xy of
           None \<Rightarrow> Inr s
         | Some (x, y) \<Rightarrow> pan x y (s\<lparr>state := PANNING, prev := Vector2 0 0\<rparr>))"

text \<open>
  The events the page delivers. \<^verbatim>\<open>mousemove\<close> and \<^verbatim>\<open>mouseup\<close> reach the
  controller only while its listeners are registered, that is between a
  \<^verbatim>\<open>mousedown\<close> and the next \<^verbatim>\<open>mouseup\<close>.
\<close>

datatype event =
    MouseDown MouseEvent
  | MouseMove MouseEvent
  | MouseUp
  | Wheel real
  | KeyDown int

fun handleEvent :: "event \<Rightarrow> Controls \<Rightarrow> error + Controls" where
  "handleEvent (MouseDown e) s = Inr (onMouseDown e s)"
| "handleEvent (MouseMove e) s = (if dragListeners s then onMouseMove e s else Inr s)"
| "handleEvent MouseUp s = (if dragListeners s then Inr (onMouseUp s) else Inr s)"
| "handleEvent (Wheel deltaY) s = onMouseWheel deltaY s"
| "handleEvent (KeyDown keyCode) s = onKeyDown keyCode s"

fun handleEvents :: "event list \<Rightarrow> Controls \<Rightarrow> error + Controls" where
  "handleEvents [] s = Inr s"
| "handleEvents (e # es) s =
     (case handleEvent e s of Inl err \<Rightarrow> Inl err | Inr s1 \<Rightarrow> handleEvents es s1)"


section \<open>Observations\<close>

text \<open>
  Functions that only read a state or an event. The statements below are written with them;
  the controller does not call them.
\<close>

text \<open>
  Lines 411 to 415 of \<^verbatim>\<open>fixUp\<close>: the up vector it writes, from the view vector and
  the up vector it reads.
\<close>

definition stabilized :: "Vector3 \<Rightarrow> Vector3 \<Rightarrow> Vector3" where
  "stabilized view u = normalize3 (crossVectors (normalize3 (crossVectors view u)) view)"

text \<open>
  \<open>capturedAt p t u s\<close>: the radius and the basis matrix of \<open>s\<close> are those that lines
  240 to 247 compute for a camera at \<open>p\<close> with up vector \<open>u\<close> and the target \<open>t\<close>.
\<close>

definition capturedAt :: "Vector3 \<Rightarrow> Vector3 \<Rightarrow> Vector3 \<Rightarrow> Controls \<Rightarrow> bool" where
  "capturedAt p t u s \<longleftrightarrow>
     (let zAxis = divideScalar (subVectors p t) (length3 (subVectors p t));
          xAxis = normalize3 (crossVectors u zAxis)
      in radius s = length3 (subVectors p t) \<and>
         basisMatrix s = premultiply (makeBasis xAxis u zAxis)
                           (makeTranslation (vx t) (vy t) (vz t)))"

text \<open>How often \<open>fixUp\<close> has run, and how many change events have been dispatched.\<close>

definition isFixUp :: "effect \<Rightarrow> bool" where
  "isFixUp e = (case e of FixUp _ \<Rightarrow> True | _ \<Rightarrow> False)"

definition fixUpCalls :: "Controls \<Rightarrow> nat" where
  "fixUpCalls s = length (filter isFixUp (trace s))"

definition changes :: "Controls \<Rightarrow> nat" where
  "changes s = count_list (trace s) Change"

text \<open>
  The pointer position of a mouse event. \<open>promotes m press\<close>: the move \<open>m\<close> holds a
  button that \<^verbatim>\<open>onMouseMove\<close> recognizes and is further than the click threshold
  from the position \<open>press\<close>, in the distance of \<^verbatim>\<open>manhattanDistanceTo\<close>.
\<close>

definition pointer :: "MouseEvent \<Rightarrow> Vector2" where
  "pointer e = Vector2 (clientX e) (clientY e)"


text \<open>A press, the moves that follow it, and the release.\<close>

definition gesture :: "MouseEvent \<Rightarrow> MouseEvent list \<Rightarrow> event list" where
  "gesture e ms = MouseDown e # map MouseMove ms @ [MouseUp]"

section \<open>Example states and events\<close>

text \<open>
  The camera of the spec's scenario: at \<open>(0, 0, 5)\<close> with up vector \<open>(0, 1, 0)\<close> and a
  field of view of 50 degrees, the target at the origin. The DOM element is 200 by 200
  pixels here. \<open>example\<close> is the controller right after its construction, with the limits
  \<open>0\<close> and \<^verbatim>\<open>Infinity\<close>; \<open>exampleLimited\<close> has the limits 1 and 10, and
  \<open>exampleOnTarget\<close> has the camera on the target.
\<close>

definition exampleCamera :: Camera where
  "exampleCamera = \<lparr> position = Vector3 0 0 5, up = Vector3 0 1 0, fov = 50 \<rparr>"

definition example :: Controls where
  "example = constructor exampleCamera 200 200"


definition exampleOnTarget :: Controls where
  "exampleOnTarget = example\<lparr>object := (object example)\<lparr>position := Vector3 0 0 0\<rparr>\<rparr>"

text \<open>
  The example in the middle of a rotation, with an up vector that leans towards the view
  axis.
\<close>

definition exampleTilted :: Controls where
  "exampleTilted = example\<lparr>state := ROTATING, object := (object example)\<lparr>up := Vector3 0 1 1\<rparr>\<rparr>"

text \<open>
  Presses of the primary and of the middle button at the origin of the page, a move of
  the primary button within the click threshold, and two drags of the middle button.
\<close>

definition pressAtOrigin :: MouseEvent where
  "pressAtOrigin = \<lparr> clientX = 0, clientY = 0, buttons = 1, shiftKey = False,
                     altKey = False, ctrlKey = False, metaKey = False \<rparr>"

definition pressMiddle :: MouseEvent where
  "pressMiddle = \<lparr> clientX = 0, clientY = 0, buttons = 4, shiftKey = False,
                   altKey = False, ctrlKey = False, metaKey = False \<rparr>"


definition dragUp :: MouseEvent where
  "dragUp = \<lparr> clientX = 0, clientY = - 100, buttons = 4, shiftKey = False,
              altKey = False, ctrlKey = False, metaKey = False \<rparr>"


text \<open>
  A camera that looks straight down: at \<open>(0, 5, 0)\<close> with the up vector \<open>(0, 1, 0)\<close> that
  a three.js camera has by default, the target at the origin. \<open>topDown\<close> is the controller
  right after its construction, and \<open>dragRight\<close> a move of the primary button to ten
  pixels right of \<open>pressAtOrigin\<close>.
\<close>

definition topDownCamera :: Camera where
  "topDownCamera = \<lparr> position = Vector3 0 5 0, up = Vector3 0 1 0, fov = 50 \<rparr>"

definition topDown :: Controls where
  "topDown = constructor topDownCamera 200 200"

definition dragRight :: MouseEvent where
  "dragRight = \<lparr> clientX = 10, clientY = 0, buttons = 1, shiftKey = False,
                 altKey = False, ctrlKey = False, metaKey = False \<rparr>"


section \<open>Double precision\<close>

text \<open>
  A JavaScript number is an IEEE 754 binary64 value, a double, and every arithmetic
  operation returns the double nearest to the exact result, a tie going to the even
  significand. The functions above leave the rounding out: they are the arithmetic of the
  source in real numbers. This section has the functions that \<^verbatim>\<open>fixUp\<close>,
  \<^verbatim>\<open>reset\<close> and a rotate move call with every operation rounded, in the order in
  which JavaScript evaluates them. Their names end in \<open>64\<close>. They work on the same
  records; the numbers of a state are then doubles.

  A finite double is a real number \<open>k * 2 ^ e\<close> with an integer \<open>k\<close>,
  \<open>\<bar>k\<bar> < 2 ^ 53\<close>, and \<open>- 1074 \<le> e\<close>. \<open>expo x\<close> is the exponent of \<open>x\<close>:
  \<open>2 ^ expo x \<le> \<bar>x\<bar> < 2 ^ (expo x + 1)\<close>. \<open>ulp x\<close> is the distance between the doubles
  around \<open>x\<close>, \<open>2 ^ (expo x - 52)\<close> and never less than \<open>2 ^ (- 1074)\<close>, and \<open>fl x\<close> is
  the multiple of \<open>ulp x\<close> nearest to \<open>x\<close>, the even one of two that are equally near.
  The exponent has no upper bound here, so \<open>fl\<close> is the rounding of binary64 for
  \<open>\<bar>x\<bar> < 2 ^ 1024\<close>; a larger result is \<^verbatim>\<open>Infinity\<close> in JavaScript and outside the
  model. The two zeros of binary64, which JavaScript compares equal, are the one real
  number 0. A division by zero is guarded as in the functions above.
\<close>

fun bitlen :: "nat \<Rightarrow> nat" where
  "bitlen n = (if n = 0 then 0 else Suc (bitlen (n div 2)))"

declare bitlen.simps [simp del]

definition pow2 :: "int \<Rightarrow> real" where
  "pow2 e = (if 0 \<le> e then 2 ^ nat e else 1 / 2 ^ nat (- e))"

definition expo :: "real \<Rightarrow> int" where
  "expo x = (if 1 \<le> \<bar>x\<bar> then int (bitlen (nat \<lfloor>\<bar>x\<bar>\<rfloor>)) - 1
             else - int (bitlen (nat (\<lceil>1 / \<bar>x\<bar>\<rceil> - 1))))"

text \<open>The integer nearest to \<open>x\<close>, the even one of two that are equally near.\<close>

definition rne :: "real \<Rightarrow> int" where
  "rne x = (let n = \<lfloor>x\<rfloor>; r = x - of_int n in
            if r < 1 / 2 then n else if 1 / 2 < r then n + 1
            else if even n then n else n + 1)"

definition ulp :: "real \<Rightarrow> real" where
  "ulp x = pow2 (max (expo x) (- 1022) - 52)"

definition fl :: "real \<Rightarrow> real" where
  "fl x = (if x = 0 then 0 else of_int (rne (x / ulp x)) * ulp x)"

text \<open>
  \<^verbatim>\<open>Math.sqrt\<close> returns the double nearest to the exact root (the operation
  squareRoot of IEEE 754). \<^verbatim>\<open>Math.PI\<close> is the double nearest to \<open>pi\<close>. The language
  standard leaves the accuracy of \<^verbatim>\<open>Math.sin\<close> and \<^verbatim>\<open>Math.cos\<close> to the
  implementation, apart from \<open>sin 0 = 0\<close> and \<open>cos 0 = 1\<close>; here they return the double
  nearest to the exact value.
\<close>

definition Math_sqrt :: "real \<Rightarrow> real" where
  "Math_sqrt x = fl (sqrt x)"

definition Math_PI :: real where
  "Math_PI = 884279719003555 / 281474976710656"

definition Math_sin :: "real \<Rightarrow> real" where
  "Math_sin x = fl (sin x)"

definition Math_cos :: "real \<Rightarrow> real" where
  "Math_cos x = fl (cos x)"

text \<open>
  The methods of \<^verbatim>\<open>THREE.Vector2\<close>, \<^verbatim>\<open>THREE.Vector3\<close> and \<^verbatim>\<open>THREE.Matrix4\<close>.
  \<^verbatim>\<open>length()\<close> is \<^verbatim>\<open>Math.sqrt(x * x + y * y + z * z)\<close>, a sum from the left;
  \<^verbatim>\<open>crossVectors\<close> computes \<^verbatim>\<open>ay * bz - az * by\<close> and its two rotations;
  \<^verbatim>\<open>divideScalar(s)\<close> multiplies by the rounded \<^verbatim>\<open>1 / s\<close>.
\<close>

definition subVectors2_64 :: "Vector2 \<Rightarrow> Vector2 \<Rightarrow> Vector2" where
  "subVectors2_64 a b = Vector2 (fl (px a - px b)) (fl (py a - py b))"

definition multiplyScalar2_64 :: "Vector2 \<Rightarrow> real \<Rightarrow> Vector2" where
  "multiplyScalar2_64 v k = Vector2 (fl (px v * k)) (fl (py v * k))"

definition manhattanDistanceTo64 :: "Vector2 \<Rightarrow> Vector2 \<Rightarrow> real" where
  "manhattanDistanceTo64 a b = fl (\<bar>fl (px a - px b)\<bar> + \<bar>fl (py a - py b)\<bar>)"

definition subVectors64 :: "Vector3 \<Rightarrow> Vector3 \<Rightarrow> Vector3" where
  "subVectors64 a b = Vector3 (fl (vx a - vx b)) (fl (vy a - vy b)) (fl (vz a - vz b))"

definition multiplyScalar64 :: "Vector3 \<Rightarrow> real \<Rightarrow> Vector3" where
  "multiplyScalar64 v k = Vector3 (fl (vx v * k)) (fl (vy v * k)) (fl (vz v * k))"

definition length64 :: "Vector3 \<Rightarrow> real" where
  "length64 v =
     Math_sqrt (fl (fl (fl (vx v * vx v) + fl (vy v * vy v)) + fl (vz v * vz v)))"

definition divideScalar64 :: "Vector3 \<Rightarrow> real \<Rightarrow> Vector3" where
  "divideScalar64 v s = multiplyScalar64 v (fl (1 / s))"

definition normalize64 :: "Vector3 \<Rightarrow> Vector3" where
  "normalize64 v = divideScalar64 v (if length64 v = 0 then 1 else length64 v)"

definition crossVectors64 :: "Vector3 \<Rightarrow> Vector3 \<Rightarrow> Vector3" where
  "crossVectors64 a b =
     Vector3 (fl (fl (vy a * vz b) - fl (vz a * vy b)))
             (fl (fl (vz a * vx b) - fl (vx a * vz b)))
             (fl (fl (vx a * vy b) - fl (vy a * vx b)))"

text \<open>
  A sum of four terms from the left, as in the entries
  \<^verbatim>\<open>a11 * b11 + a12 * b21 + a13 * b31 + a14 * b41\<close> of a matrix product.
\<close>

definition sum4_64 :: "real \<Rightarrow> real \<Rightarrow> real \<Rightarrow> real \<Rightarrow> real" where
  "sum4_64 a b c d = fl (fl (fl (a + b) + c) + d)"

definition multiplyMatrices64 :: "Matrix4 \<Rightarrow> Matrix4 \<Rightarrow> Matrix4" where
  "multiplyMatrices64 a b =
     \<lparr> n11 = sum4_64 (fl (n11 a * n11 b)) (fl (n12 a * n21 b)) (fl (n13 a * n31 b)) (fl (n14 a * n41 b)),
       n12 = sum4_64 (fl (n11 a * n12 b)) (fl (n12 a * n22 b)) (fl (n13 a * n32 b)) (fl (n14 a * n42 b)),
       n13 = sum4_64 (fl (n11 a * n13 b)) (fl (n12 a * n23 b)) (fl (n13 a * n33 b)) (fl (n14 a * n43 b)),
       n14 = sum4_64 (fl (n11 a * n14 b)) (fl (n12 a * n24 b)) (fl (n13 a * n34 b)) (fl (n14 a * n44 b)),
       n21 = sum4_64 (fl (n21 a * n11 b)) (fl (n22 a * n21 b)) (fl (n23 a * n31 b)) (fl (n24 a * n41 b)),
       n22 = sum4_64 (fl (n21 a * n12 b)) (fl (n22 a * n22 b)) (fl (n23 a * n32 b)) (fl (n24 a * n42 b)),
       n23 = sum4_64 (fl (n21 a * n13 b)) (fl (n22 a * n23 b)) (fl (n23 a * n33 b)) (fl (n24 a * n43 b)),
       n24 = sum4_64 (fl (n21 a * n14 b)) (fl (n22 a * n24 b)) (fl (n23 a * n34 b)) (fl (n24 a * n44 b)),
       n31 = sum4_64 (fl (n31 a * n11 b)) (fl (n32 a * n21 b)) (fl (n33 a * n31 b)) (fl (n34 a * n41 b)),
       n32 = sum4_64 (fl (n31 a * n12 b)) (fl (n32 a * n22 b)) (fl (n33 a * n32 b)) (fl (n34 a * n42 b)),
       n33 = sum4_64 (fl (n31 a * n13 b)) (fl (n32 a * n23 b)) (fl (n33 a * n33 b)) (fl (n34 a * n43 b)),
       n34 = sum4_64 (fl (n31 a * n14 b)) (fl (n32 a * n24 b)) (fl (n33 a * n34 b)) (fl (n34 a * n44 b)),
       n41 = sum4_64 (fl (n41 a * n11 b)) (fl (n42 a * n21 b)) (fl (n43 a * n31 b)) (fl (n44 a * n41 b)),
       n42 = sum4_64 (fl (n41 a * n12 b)) (fl (n42 a * n22 b)) (fl (n43 a * n32 b)) (fl (n44 a * n42 b)),
       n43 = sum4_64 (fl (n41 a * n13 b)) (fl (n42 a * n23 b)) (fl (n43 a * n33 b)) (fl (n44 a * n43 b)),
       n44 = sum4_64 (fl (n41 a * n14 b)) (fl (n42 a * n24 b)) (fl (n43 a * n34 b)) (fl (n44 a * n44 b)) \<rparr>"

definition premultiply64 :: "Matrix4 \<Rightarrow> Matrix4 \<Rightarrow> Matrix4" where
  "premultiply64 this m = multiplyMatrices64 m this"

definition applyMatrix4_64 :: "Vector3 \<Rightarrow> Matrix4 \<Rightarrow> error + Vector3" where
  "applyMatrix4_64 v m =
     (let d = sum4_64 (fl (n41 m * vx v)) (fl (n42 m * vy v)) (fl (n43 m * vz v)) (n44 m) in
      if d = 0 then Inl ZeroW
      else
        let w = fl (1 / d) in
        Inr (Vector3
          (fl (sum4_64 (fl (n11 m * vx v)) (fl (n12 m * vy v)) (fl (n13 m * vz v)) (n14 m) * w))
          (fl (sum4_64 (fl (n21 m * vx v)) (fl (n22 m * vy v)) (fl (n23 m * vz v)) (n24 m) * w))
          (fl (sum4_64 (fl (n31 m * vx v)) (fl (n32 m * vy v)) (fl (n33 m * vz v)) (n34 m) * w))))"

text \<open>\<^verbatim>\<open>fixUp\<close>, \<^verbatim>\<open>update\<close>, \<^verbatim>\<open>reset\<close> and the constructor.\<close>

definition fixUp64 :: "Controls \<Rightarrow> Controls" where
  "fixUp64 s =
     (let view = normalize64 (subVectors64 (target s) (position (object s)));
          side = normalize64 (crossVectors64 view (up (object s)));
          newUp = normalize64 (crossVectors64 side view)
      in s\<lparr>object := (object s)\<lparr>up := newUp\<rparr>, trace := trace s @ [FixUp newUp]\<rparr>)"

definition update64 :: "Controls \<Rightarrow> Controls" where
  "update64 s =
     (let s1 = s\<lparr>trace := trace s @ [LookAt (position (object s)) (target s) (up (object s))]\<rparr>;
          s2 = (if state s1 \<noteq> ROTATING then fixUp64 s1 else s1)
      in s2\<lparr>trace := trace s2 @ [Change]\<rparr>)"

definition reset64 :: "Controls \<Rightarrow> Controls" where
  "reset64 s =
     update64 (s\<lparr>target := target0 s, object := (object s)\<lparr>position := position0 s\<rparr>\<rparr>)"

definition constructor64 :: "Camera \<Rightarrow> real \<Rightarrow> real \<Rightarrow> Controls" where
  "constructor64 obj w h =
     update64 \<lparr> object = obj, clientWidth = w, clientHeight = h,
                keyPanSpeed = 7,
                keys = \<lparr> LEFT = 37, UP = 38, RIGHT = 39, DOWN = 40 \<rparr>,
                maxDistance = Infinity, minDistance = 0, rotateSpeed = 1,
                target = Vector3 0 0 0, zoomSpeed = 1,
                clicked = False,
                usePanModAlt = True, usePanModShift = False,
                usePanModCtrl = False, usePanModMeta = False,
                state = INACTIVE,
                prev = Vector2 0 0, radius = 0, basisMatrix = makeTranslation 0 0 0,
                target0 = Vector3 0 0 0, position0 = position obj,
                dragListeners = False, trace = [] \<rparr>"

text \<open>\<^verbatim>\<open>rotate\<close>: lines 240 to 247, 269 to 281, 289 to 292 and the whole handler.\<close>

definition captureBasis64 :: "Controls \<Rightarrow> error + Controls" where
  "captureBasis64 s =
     (let zAxis = subVectors64 (position (object s)) (target s);
          r = length64 zAxis
      in if r = 0 then Inl ZeroDistance
         else
           let zAxis = divideScalar64 zAxis r;
               yAxis = up (object s);
               xAxis = normalize64 (crossVectors64 yAxis zAxis);
               m = makeBasis xAxis yAxis zAxis;
               tr = makeTranslation (vx (target s)) (vy (target s)) (vz (target s))
           in Inr (s\<lparr>radius := r, basisMatrix := premultiply64 m tr\<rparr>))"

text \<open>The literal \<^verbatim>\<open>0.01\<close> denotes the double nearest to one hundredth.\<close>

definition eps64 :: real where
  "eps64 = fl 0.01"

definition rotateDelta64 :: "Vector2 \<Rightarrow> Controls \<Rightarrow> Vector2" where
  "rotateDelta64 cur s =
     multiplyScalar2_64 (subVectors2_64 cur (prev s)) (fl (2.0 * rotateSpeed s))"

definition rotatePhi64 :: "Vector2 \<Rightarrow> Controls \<Rightarrow> real" where
  "rotatePhi64 cur s = fl (- px (rotateDelta64 cur s) * fl (Math_PI / clientWidth s))"

definition rotateTheta64 :: "Vector2 \<Rightarrow> Controls \<Rightarrow> real" where
  "rotateTheta64 cur s =
     (let theta = fl (fl (- py (rotateDelta64 cur s) * fl (Math_PI / clientHeight s))
                      + fl (Math_PI / 2));
          theta = max theta eps64;
          theta = min theta (fl (Math_PI - eps64))
      in theta)"

definition rotatePos64 :: "Vector2 \<Rightarrow> Controls \<Rightarrow> Vector3" where
  "rotatePos64 cur s =
     (let phi = rotatePhi64 cur s; theta = rotateTheta64 cur s
      in Vector3 (fl (fl (radius s * Math_sin theta) * Math_sin phi))
                 (fl (radius s * Math_cos theta))
                 (fl (fl (radius s * Math_sin theta) * Math_cos phi)))"

definition rotateStep64 :: "Vector2 \<Rightarrow> Controls \<Rightarrow> error + Controls" where
  "rotateStep64 cur s =
     (if clientWidth s = 0 \<or> clientHeight s = 0 then Inl ZeroViewport
      else
        case applyMatrix4_64 (rotatePos64 cur s) (basisMatrix s) of
          Inl e \<Rightarrow> Inl e
        | Inr pos \<Rightarrow> Inr (update64 (s\<lparr>object := (object s)\<lparr>position := pos\<rparr>\<rparr>)))"

definition rotateCamera64 :: "real \<Rightarrow> real \<Rightarrow> Controls \<Rightarrow> error + Controls" where
  "rotateCamera64 x y s =
     (let cur = Vector2 x y in
      case (if state s = INDETERMINATE \<and> manhattanDistanceTo64 cur (prev s) > ClickThreshold
            then captureBasis64 (s\<lparr>state := ROTATING\<rparr>)
            else Inr s) of
        Inl e \<Rightarrow> Inl e
      | Inr s1 \<Rightarrow> if state s1 = ROTATING then rotateStep64 cur s1 else Inr s1)"

text \<open>
  Two controllers in double precision, each right after its construction with a DOM
  element of 200 by 200 pixels and the target at the origin: \<open>exampleNear\<close> has the
  camera at \<open>(0, 0, 3)\<close>, \<open>exampleAskew\<close> at \<open>(1, 3, 3)\<close>, both with the up vector
  \<open>(0, 1, 0)\<close>.
\<close>

definition nearCamera :: Camera where
  "nearCamera = \<lparr> position = Vector3 0 0 3, up = Vector3 0 1 0, fov = 50 \<rparr>"

definition exampleNear :: Controls where
  "exampleNear = constructor64 nearCamera 200 200"

definition askewCamera :: Camera where
  "askewCamera = \<lparr> position = Vector3 1 3 3, up = Vector3 0 1 0, fov = 50 \<rparr>"

definition exampleAskew :: Controls where
  "exampleAskew = constructor64 askewCamera 200 200"


section \<open>Vector algebra\<close>

lemma dot_commute: "dot a b = dot b a"
  by (simp add: dot_def mult.commute)

lemma dot_cross_left [simp]: "dot (crossVectors a b) a = 0"
  by (simp add: dot_def crossVectors_def algebra_simps)

lemma dot_cross_right [simp]: "dot (crossVectors a b) b = 0"
  by (simp add: dot_def crossVectors_def algebra_simps)

lemma dot_multiplyScalar_left [simp]: "dot (multiplyScalar a k) b = k * dot a b"
  by (simp add: dot_def multiplyScalar_def algebra_simps)

lemma dot_multiplyScalar_right [simp]: "dot a (multiplyScalar b k) = k * dot a b"
  by (simp add: dot_def multiplyScalar_def algebra_simps)

lemma normalize3_scalar:
  "normalize3 v = multiplyScalar v (1 / (if length3 v = 0 then 1 else length3 v))"
  by (simp add: normalize3_def divideScalar_def)

lemma dot_normalize3_left:
  "dot (normalize3 a) b = dot a b / (if length3 a = 0 then 1 else length3 a)"
  by (simp add: normalize3_scalar)

lemma length3_sq: "(length3 v)\<^sup>2 = dot v v"
  by (simp add: length3_def dot_def)

lemma length3_nonneg [simp]: "0 \<le> length3 v"
  by (simp add: length3_def)

lemma length3_eq_0_iff: "length3 v = 0 \<longleftrightarrow> v = Vector3 0 0 0"
proof (cases v)
  case (Vector3 a b c)
  have "a * a + b * b + c * c = 0 \<longleftrightarrow> a = 0 \<and> b = 0 \<and> c = 0"
    by (smt (verit) mult_eq_0_iff zero_le_square add_nonneg_eq_0_iff add_nonneg_nonneg)
  then show ?thesis using Vector3 by (simp add: length3_def)
qed

lemma length3_multiplyScalar: "length3 (multiplyScalar v k) = \<bar>k\<bar> * length3 v"
proof -
  have "vx v * k * (vx v * k) + vy v * k * (vy v * k) + vz v * k * (vz v * k)
        = k\<^sup>2 * (vx v * vx v + vy v * vy v + vz v * vz v)"
    by (simp add: power2_eq_square algebra_simps)
  then show ?thesis
    by (simp add: length3_def multiplyScalar_def real_sqrt_mult)
qed

lemma normalize3_zero [simp]: "normalize3 (Vector3 0 0 0) = Vector3 0 0 0"
  by (simp add: normalize3_def divideScalar_def multiplyScalar_def length3_def)

lemma length3_normalize3: "length3 v \<noteq> 0 \<Longrightarrow> length3 (normalize3 v) = 1"
  by (simp add: normalize3_scalar length3_multiplyScalar)

lemma normalize3_unit: "length3 v = 1 \<Longrightarrow> normalize3 v = v"
  by (cases v) (simp add: normalize3_scalar multiplyScalar_def)

lemma lagrange:
  "dot (crossVectors a b) (crossVectors a b) = dot a a * dot b b - (dot a b)\<^sup>2"
  by (simp add: dot_def crossVectors_def power2_eq_square algebra_simps)

lemma cross_cross:
  "crossVectors v (crossVectors s v) =
     subVectors (multiplyScalar s (dot v v)) (multiplyScalar v (dot v s))"
  by (simp add: dot_def crossVectors_def subVectors_def multiplyScalar_def algebra_simps)

lemma crossVectors_zero_left [simp]: "crossVectors (Vector3 0 0 0) b = Vector3 0 0 0"
  by (simp add: crossVectors_def)

lemma crossVectors_zero_right [simp]: "crossVectors a (Vector3 0 0 0) = Vector3 0 0 0"
  by (simp add: crossVectors_def)

lemma length3_unit_dot: "length3 v = 1 \<Longrightarrow> dot v v = 1"
  using length3_sq [of v] by simp

lemma length3_cross_unit:
  assumes "length3 a = 1" "length3 b = 1" "dot a b = 0"
  shows "length3 (crossVectors a b) = 1"
proof -
  have "(length3 (crossVectors a b))\<^sup>2 = 1"
    using assms by (simp add: length3_sq lagrange length3_unit_dot)
  then show ?thesis
    using length3_nonneg [of "crossVectors a b"] by (simp add: power2_eq_1_iff)
qed

lemma normalize3_zero_or_unit:
  "normalize3 v = Vector3 0 0 0 \<or> length3 (normalize3 v) = 1"
proof (cases "length3 v = 0")
  case True
  then show ?thesis by (simp add: length3_eq_0_iff)
next
  case False
  then show ?thesis by (simp add: length3_normalize3)
qed

section \<open>The up vector that fixUp writes\<close>

lemma stabilized_idem:
  assumes v: "v = Vector3 0 0 0 \<or> length3 v = 1"
  shows "stabilized v (stabilized v u) = stabilized v u"
proof (cases "v = Vector3 0 0 0")
  case True
  then show ?thesis by (simp add: stabilized_def)
next
  case False
  with v have v1: "length3 v = 1" by simp
  show ?thesis
  proof (cases "length3 (crossVectors v u) = 0")
    case True
    then have "crossVectors v u = Vector3 0 0 0" by (simp add: length3_eq_0_iff)
    then show ?thesis by (simp add: stabilized_def)
  next
    case c: False
    define s where "s = normalize3 (crossVectors v u)"
    have s1: "length3 s = 1" using c by (simp add: s_def length3_normalize3)
    have sv: "dot s v = 0" by (simp add: s_def dot_normalize3_left)
    have w1: "length3 (crossVectors s v) = 1" using s1 v1 sv by (rule length3_cross_unit)
    have w: "stabilized v u = crossVectors s v"
      using w1 by (simp add: stabilized_def s_def [symmetric] normalize3_unit)
    have vs: "dot v s = 0" using sv by (simp add: dot_commute)
    have "crossVectors v (crossVectors s v) = s"
      using vs v1 by (cases s) (simp add: cross_cross length3_unit_dot
          subVectors_def multiplyScalar_def)
    then have "stabilized v (crossVectors s v) = normalize3 (crossVectors (normalize3 s) v)"
      by (simp add: stabilized_def)
    also have "\<dots> = crossVectors s v"
      using s1 w1 by (simp add: normalize3_unit)
    finally show ?thesis using w by simp
  qed
qed

lemma up_fixUp:
  "up (object (fixUp s)) =
     stabilized (normalize3 (subVectors (target s) (position (object s)))) (up (object s))"
  by (simp add: fixUp_def stabilized_def Let_def)

lemma fixUp_frame [simp]:
  "position (object (fixUp s)) = position (object s)"
  "target (fixUp s) = target s"
  "state (fixUp s) = state s"
  "target0 (fixUp s) = target0 s"
  "position0 (fixUp s) = position0 s"
  by (simp_all add: fixUp_def Let_def)

lemma update_frame [simp]:
  "position (object (update s)) = position (object s)"
  "target (update s) = target s"
  "state (update s) = state s"
  "target0 (update s) = target0 s"
  "position0 (update s) = position0 s"
  by (simp_all add: update_def Let_def)

lemma up_update:
  "up (object (update s)) =
     (if state s \<noteq> ROTATING
      then stabilized (normalize3 (subVectors (target s) (position (object s)))) (up (object s))
      else up (object s))"
  by (simp add: update_def Let_def up_fixUp)


section \<open>The captured frame\<close>

lemma captureBasis_Inr:
  assumes "position (object s) \<noteq> target s"
  shows "\<exists>r m. captureBasis s = Inr (s\<lparr>radius := r, basisMatrix := m\<rparr>) \<and>
           capturedAt (position (object s)) (target s) (up (object s))
             (s\<lparr>radius := r, basisMatrix := m\<rparr>)"
proof -
  have "subVectors (position (object s)) (target s) \<noteq> Vector3 0 0 0"
    using assms by (cases "position (object s)"; cases "target s") (simp add: subVectors_def)
  then have "length3 (subVectors (position (object s)) (target s)) \<noteq> 0"
    by (simp add: length3_eq_0_iff)
  then show ?thesis
    by (simp add: captureBasis_def capturedAt_def Let_def)
qed

lemma applyMatrix4_basis:
  "applyMatrix4 v (premultiply (makeBasis xA yA zA) (makeTranslation (vx t) (vy t) (vz t))) =
     Inr (addVectors t (addVectors (addVectors (multiplyScalar xA (vx v)) (multiplyScalar yA (vy v)))
                                   (multiplyScalar zA (vz v))))"
  by (simp add: applyMatrix4_def premultiply_def multiplyMatrices_def makeBasis_def
      makeTranslation_def addVectors_def multiplyScalar_def algebra_simps)

lemma subVectors_addVectors [simp]: "subVectors (addVectors t v) t = v"
  by (cases v) (simp add: subVectors_def addVectors_def)

lemma dot_lincomb:
  "dot (addVectors (addVectors (multiplyScalar xA a) (multiplyScalar yA b)) (multiplyScalar zA c))
       (addVectors (addVectors (multiplyScalar xA a) (multiplyScalar yA b)) (multiplyScalar zA c))
   = a\<^sup>2 * dot xA xA + b\<^sup>2 * dot yA yA + c\<^sup>2 * dot zA zA
     + 2 * a * b * dot xA yA + 2 * a * c * dot xA zA + 2 * b * c * dot yA zA"
  by (simp add: dot_def addVectors_def multiplyScalar_def power2_eq_square algebra_simps)

lemma spherical_sq:
  "(r * sin th * sin ph)\<^sup>2 + (r * cos th)\<^sup>2 + (r * sin th * cos ph)\<^sup>2 = r\<^sup>2"
  for r th ph :: real
proof -
  have "(r * sin th * sin ph)\<^sup>2 + (r * cos th)\<^sup>2 + (r * sin th * cos ph)\<^sup>2
        = r\<^sup>2 * ((sin th)\<^sup>2 * ((sin ph)\<^sup>2 + (cos ph)\<^sup>2) + (cos th)\<^sup>2)"
    by algebra
  also have "\<dots> = r\<^sup>2" by simp
  finally show ?thesis .
qed

lemma length3_divideScalar_self:
  "length3 v \<noteq> 0 \<Longrightarrow> length3 (divideScalar v (length3 v)) = 1"
  by (simp add: divideScalar_def length3_multiplyScalar)

lemma dot_divideScalar_right: "dot a (divideScalar b k) = dot a b / k"
  by (simp add: divideScalar_def)

lemma frame_orthonormal:
  assumes u1: "length3 u = 1" and uz: "dot u w = 0" and w: "length3 w \<noteq> 0"
    and zA_def: "zA = divideScalar w (length3 w)"
    and xA_def: "xA = normalize3 (crossVectors u zA)"
  shows "dot xA xA = 1" "dot u u = 1" "dot zA zA = 1" "dot xA u = 0" "dot xA zA = 0" "dot u zA = 0"
proof -
  have z1: "length3 zA = 1" using w by (simp add: zA_def length3_divideScalar_self)
  have uzA: "dot u zA = 0" using uz by (simp add: zA_def dot_divideScalar_right)
  have c1: "length3 (crossVectors u zA) = 1" using u1 z1 uzA by (rule length3_cross_unit)
  then have x: "xA = crossVectors u zA" by (simp add: xA_def normalize3_unit)
  show "dot xA xA = 1" using c1 x by (simp add: length3_unit_dot)
  show "dot u u = 1" using u1 by (rule length3_unit_dot)
  show "dot zA zA = 1" using z1 by (rule length3_unit_dot)
  show "dot xA u = 0" by (simp add: x)
  show "dot xA zA = 0" by (simp add: x)
  show "dot u zA = 0" by (rule uzA)
qed

lemma rotatePos_length:
  assumes cap: "capturedAt p t u s" and pt: "p \<noteq> t"
    and u1: "length3 u = 1" and uz: "dot u (subVectors p t) = 0"
  shows "\<exists>pos. applyMatrix4 (rotatePos cur s) (basisMatrix s) = Inr pos \<and>
               length3 (subVectors pos t) = radius s"
proof -
  define w where "w = subVectors p t"
  define zA where "zA = divideScalar w (length3 w)"
  define xA where "xA = normalize3 (crossVectors u zA)"
  define v where "v = rotatePos cur s"
  have "w \<noteq> Vector3 0 0 0"
    using pt by (cases p; cases t) (simp add: w_def subVectors_def)
  then have w0: "length3 w \<noteq> 0" by (simp add: length3_eq_0_iff)
  have r: "radius s = length3 w"
    and bm: "basisMatrix s = premultiply (makeBasis xA u zA) (makeTranslation (vx t) (vy t) (vz t))"
    using cap by (simp_all add: capturedAt_def Let_def w_def zA_def xA_def)
  note on = frame_orthonormal [OF u1 uz [folded w_def] w0 zA_def xA_def]
  define q where "q = addVectors (addVectors (multiplyScalar xA (vx v)) (multiplyScalar u (vy v)))
                                   (multiplyScalar zA (vz v))"
  have ap: "applyMatrix4 v (basisMatrix s) = Inr (addVectors t q)"
    by (simp add: bm applyMatrix4_basis q_def)
  have "dot q q = (vx v)\<^sup>2 + (vy v)\<^sup>2 + (vz v)\<^sup>2"
    unfolding q_def dot_lincomb by (simp add: on)
  also have "\<dots> = (radius s)\<^sup>2"
    by (simp add: v_def rotatePos_def Let_def spherical_sq)
  finally have "(length3 q)\<^sup>2 = (radius s)\<^sup>2" by (simp add: length3_sq)
  moreover have "0 \<le> radius s" by (simp add: r)
  ultimately have "length3 q = radius s"
    using length3_nonneg [of q] by simp
  then show ?thesis using ap by (simp add: v_def)
qed

section \<open>The inclination\<close>

lemma eps_pi: "eps < pi - eps"
  using pi_ge_two by (simp add: eps_def)

lemma rotateTheta_bounds: "eps \<le> rotateTheta cur s \<and> rotateTheta cur s \<le> pi - eps"
  using eps_pi by (simp add: rotateTheta_def Let_def)

lemma sin_rotateTheta_pos: "0 < sin (rotateTheta cur s)"
proof -
  have "0 < rotateTheta cur s" "rotateTheta cur s < pi"
    using rotateTheta_bounds [of cur s] by (simp_all add: eps_def)
  then show ?thesis by (rule sin_gt_zero)
qed

lemma binet_cauchy:
  "dot (crossVectors a b) (crossVectors c d) = dot a c * dot b d - dot a d * dot b c"
  by (simp add: dot_def crossVectors_def algebra_simps)

lemma crossVectors_lincomb:
  "crossVectors (addVectors (addVectors (multiplyScalar xA a) (multiplyScalar u b))
                            (multiplyScalar zA c)) u
   = addVectors (multiplyScalar (crossVectors xA u) a) (multiplyScalar (crossVectors zA u) c)"
  by (simp add: crossVectors_def addVectors_def multiplyScalar_def algebra_simps)

lemma dot_addVectors_left: "dot (addVectors a b) c = dot a c + dot b c"
  by (simp add: dot_def addVectors_def algebra_simps)

lemma dot_zero_left [simp]: "dot (Vector3 0 0 0) a = 0"
  by (simp add: dot_def)

lemma dot_self_pos: "v \<noteq> Vector3 0 0 0 \<Longrightarrow> 0 < dot v v"
  using length3_sq [of v] length3_eq_0_iff [of v] length3_nonneg [of v]
  by (metis zero_less_power2)

lemma dot_normalize3_self: "v \<noteq> Vector3 0 0 0 \<Longrightarrow> dot (normalize3 v) (normalize3 v) = 1"
  by (simp add: length3_unit_dot length3_normalize3 length3_eq_0_iff)

lemma crossVectors_divideScalar_right:
  "crossVectors a (divideScalar b k) = divideScalar (crossVectors a b) k"
  by (simp add: crossVectors_def divideScalar_def multiplyScalar_def algebra_simps)

lemma divideScalar_eq_zero_iff:
  "k \<noteq> 0 \<Longrightarrow> divideScalar v k = Vector3 0 0 0 \<longleftrightarrow> v = Vector3 0 0 0"
  by (cases v) (simp add: divideScalar_def multiplyScalar_def)

lemma circle_sq: "(k * sin ph)\<^sup>2 + (k * cos ph)\<^sup>2 = k\<^sup>2" for k ph :: real
proof -
  have "(k * sin ph)\<^sup>2 + (k * cos ph)\<^sup>2 = k\<^sup>2 * ((sin ph)\<^sup>2 + (cos ph)\<^sup>2)"
    by algebra
  also have "\<dots> = k\<^sup>2" by simp
  finally show ?thesis .
qed

lemma rotatePos_not_collinear:
  assumes cap: "capturedAt p t u s"
    and nz: "crossVectors u (subVectors p t) \<noteq> Vector3 0 0 0"
  shows "\<exists>pos. applyMatrix4 (rotatePos cur s) (basisMatrix s) = Inr pos \<and>
               crossVectors (subVectors pos t) u \<noteq> Vector3 0 0 0"
proof -
  define w where "w = subVectors p t"
  define zA where "zA = divideScalar w (length3 w)"
  define c where "c = crossVectors u zA"
  define xA where "xA = normalize3 c"
  define a where "a = vx (rotatePos cur s)"
  define b where "b = vy (rotatePos cur s)"
  define g where "g = vz (rotatePos cur s)"
  have w_nz: "w \<noteq> Vector3 0 0 0" using nz by (auto simp: w_def)
  then have w0: "length3 w \<noteq> 0" by (simp add: length3_eq_0_iff)
  have u_nz: "u \<noteq> Vector3 0 0 0" using nz by auto
  have c_nz: "c \<noteq> Vector3 0 0 0"
    using nz w0 by (simp add: c_def zA_def crossVectors_divideScalar_right
        divideScalar_eq_zero_iff w_def)
  have r: "radius s = length3 w"
    and bm: "basisMatrix s = premultiply (makeBasis xA u zA) (makeTranslation (vx t) (vy t) (vz t))"
    using cap by (simp_all add: capturedAt_def Let_def w_def zA_def xA_def c_def)
  define q where "q = addVectors (addVectors (multiplyScalar xA a) (multiplyScalar u b))
                                   (multiplyScalar zA g)"
  have ap: "applyMatrix4 (rotatePos cur s) (basisMatrix s) = Inr (addVectors t q)"
    by (simp add: bm applyMatrix4_basis q_def a_def b_def g_def)
  have xx: "dot xA xA = 1" using c_nz by (simp add: xA_def dot_normalize3_self)
  have xu: "dot xA u = 0" by (simp add: xA_def c_def dot_normalize3_left)
  have xz: "dot xA zA = 0" by (simp add: xA_def c_def dot_normalize3_left)
  have uu: "0 < dot u u" using u_nz by (rule dot_self_pos)
  have cc: "0 < dot c c" using c_nz by (rule dot_self_pos)
  define A where "A = crossVectors xA u"
  define G where "G = crossVectors zA u"
  have AA: "dot A A = dot u u" by (simp add: A_def binet_cauchy xx xu)
  have AG: "dot A G = 0"
    by (simp add: A_def G_def binet_cauchy xz xu)
  have GA: "dot G A = 0" using AG by (simp add: dot_commute)
  have GG: "dot G G = dot c c"
    by (simp add: G_def c_def binet_cauchy dot_commute [of zA u] mult.commute)
  have cr: "crossVectors q u = addVectors (multiplyScalar A a) (multiplyScalar G g)"
    by (simp add: q_def crossVectors_lincomb A_def G_def)
  have "crossVectors q u \<noteq> Vector3 0 0 0"
  proof
    assume z: "crossVectors q u = Vector3 0 0 0"
    have "dot (crossVectors q u) A = a * dot u u"
      by (simp add: cr dot_addVectors_left AA GA)
    then have a0: "a = 0" using z uu by simp
    have "dot (crossVectors q u) G = g * dot c c"
      by (simp add: cr dot_addVectors_left AG GG)
    then have g0: "g = 0" using z cc by simp
    have "a\<^sup>2 + g\<^sup>2 = (radius s * sin (rotateTheta cur s))\<^sup>2"
      unfolding a_def g_def rotatePos_def Let_def
      using circle_sq [of "radius s * sin (rotateTheta cur s)" "rotatePhi cur s"] by simp
    then have "(radius s * sin (rotateTheta cur s))\<^sup>2 = 0"
      using a0 g0 by simp
    then show False
      using w0 sin_rotateTheta_pos [of cur s] by (simp add: r)
  qed
  then show ?thesis using ap by simp
qed

section \<open>rotate: the step and the handler\<close>

lemma rotateStep_frame:
  assumes "rotateStep cur s = Inr s'" "state s = ROTATING"
  shows "state s' = ROTATING" "radius s' = radius s" "basisMatrix s' = basisMatrix s"
    "target s' = target s" "up (object s') = up (object s)" "prev s' = prev s"
  using assms
  by (auto simp: rotateStep_def update_def Let_def split: if_splits sum.splits)

lemma rotateStep_position:
  assumes "applyMatrix4 (rotatePos cur s) (basisMatrix s) = Inr pos"
    "clientWidth s \<noteq> 0" "clientHeight s \<noteq> 0"
  shows "\<exists>s'. rotateStep cur s = Inr s' \<and> position (object s') = pos \<and> target s' = target s"
  using assms by (simp add: rotateStep_def)

lemma rotateCamera_ROTATING:
  "state s = ROTATING \<Longrightarrow> rotateCamera x y s = rotateStep (Vector2 x y) s"
  by (simp add: rotateCamera_def)

lemma rotateCamera_promote:
  assumes "state s = INDETERMINATE" "ClickThreshold < manhattanDistanceTo (Vector2 x y) (prev s)"
    "position (object s) \<noteq> target s"
  shows "\<exists>s1. rotateCamera x y s = rotateStep (Vector2 x y) s1 \<and> state s1 = ROTATING \<and>
           capturedAt (position (object s)) (target s) (up (object s)) s1 \<and>
           target s1 = target s \<and> clientWidth s1 = clientWidth s \<and>
           clientHeight s1 = clientHeight s \<and> up (object s1) = up (object s)"
proof -
  obtain r m where c: "captureBasis (s\<lparr>state := ROTATING\<rparr>) =
        Inr (s\<lparr>state := ROTATING, radius := r, basisMatrix := m\<rparr>)"
    and cap: "capturedAt (position (object s)) (target s) (up (object s))
        (s\<lparr>state := ROTATING, radius := r, basisMatrix := m\<rparr>)"
    using captureBasis_Inr [of "s\<lparr>state := ROTATING\<rparr>"] assms(3) by auto
  have "rotateCamera x y s =
      rotateStep (Vector2 x y) (s\<lparr>state := ROTATING, radius := r, basisMatrix := m\<rparr>)"
    using assms(1,2) c by (simp add: rotateCamera_def)
  then show ?thesis
    using cap by (intro exI [of _ "s\<lparr>state := ROTATING, radius := r, basisMatrix := m\<rparr>"]) simp
qed

lemma cross_nonzero_distinct:
  "crossVectors u (subVectors p t) \<noteq> Vector3 0 0 0 \<Longrightarrow> p \<noteq> t"
  by (auto simp: subVectors_def)

section \<open>dolly: the step and its distance\<close>

lemma dolly_DOLLYING: "state s = DOLLYING \<Longrightarrow> dolly x y s = dollyStep (Vector2 x y) s"
  by (simp add: dolly_def)

lemma dolly_promote:
  "state s = INDETERMINATE \<Longrightarrow> ClickThreshold < manhattanDistanceTo (Vector2 x y) (prev s) \<Longrightarrow>
   dolly x y s = dollyStep (Vector2 x y) (s\<lparr>state := DOLLYING\<rparr>)"
  by (simp add: dolly_def)

lemma dolly_idle:
  "state s \<noteq> DOLLYING \<Longrightarrow>
   \<not> (state s = INDETERMINATE \<and> ClickThreshold < manhattanDistanceTo (Vector2 x y) (prev s)) \<Longrightarrow>
   dolly x y s = Inr s"
  by (auto simp: dolly_def)

lemma dist_state_update [simp]:
  "distToTarget (s\<lparr>state := st\<rparr>) = distToTarget s"
  "distToTarget (s\<lparr>prev := pv\<rparr>) = distToTarget s"
  "distForFullDrag (s\<lparr>state := st\<rparr>) = distForFullDrag s"
  "distForFullDrag (s\<lparr>prev := pv\<rparr>) = distForFullDrag s"
  "withinLimits d (s\<lparr>state := st\<rparr>) = withinLimits d s"
  "withinLimits d (s\<lparr>prev := pv\<rparr>) = withinLimits d s"
  "dollyDelta y (s\<lparr>state := st\<rparr>) = dollyDelta y s"
  by (simp_all add: distToTarget_def distForFullDrag_def withinLimits_def dollyDelta_def
      Let_def split: limit.split)

lemma dollyStep_rejected:
  "clientHeight s \<noteq> 0 \<Longrightarrow> \<not> withinLimits (distToTarget s + dollyDelta (py cur) s) s \<Longrightarrow>
   dollyStep cur s = Inr s"
  by (simp add: dollyStep_def Let_def)

lemma dollyStep_ZeroDistance_iff:
  "dollyStep cur s = Inl ZeroDistance \<longleftrightarrow>
     clientHeight s \<noteq> 0 \<and> withinLimits (distToTarget s + dollyDelta (py cur) s) s \<and>
     distToTarget s = 0"
  by (auto simp: dollyStep_def Let_def)

lemma subVectors_scaled:
  "subVectors t (subVectors p (multiplyScalar (subVectors t p) k)) =
     multiplyScalar (subVectors t p) (1 + k)"
  by (simp add: subVectors_def multiplyScalar_def algebra_simps)

lemma distToTarget_moved:
  assumes "distToTarget s \<noteq> 0"
  shows "length3 (subVectors (target s)
           (subVectors (position (object s))
              (multiplyScalar (subVectors (target s) (position (object s)))
                 (delta / distToTarget s)))) = \<bar>distToTarget s + delta\<bar>"
proof -
  have "0 \<le> distToTarget s" by (simp add: distToTarget_def)
  then have d: "0 < distToTarget s" using assms by simp
  have "\<bar>1 + delta / distToTarget s\<bar> * distToTarget s = \<bar>distToTarget s + delta\<bar>"
    using d by (simp add: abs_if field_simps)
  then show ?thesis
    by (simp add: subVectors_scaled length3_multiplyScalar distToTarget_def [symmetric])
qed

lemma update_prev [simp]: "prev (update s) = prev s"
  by (simp add: update_def fixUp_def Let_def)

lemma distToTarget_update [simp]: "distToTarget (update s) = distToTarget s"
  by (simp add: distToTarget_def)

lemma dollyStep_applied:
  assumes "clientHeight s \<noteq> 0" "withinLimits (distToTarget s + dollyDelta (py cur) s) s"
    "distToTarget s \<noteq> 0"
  shows "\<exists>s'. dollyStep cur s = Inr s' \<and>
           distToTarget s' = \<bar>distToTarget s + dollyDelta (py cur) s\<bar> \<and>
           target s' = target s \<and> prev s' = cur \<and> state s' = state s \<and>
           s' = (update (s\<lparr>object := (object s)\<lparr>position := position (object s')\<rparr>\<rparr>))\<lparr>prev := cur\<rparr>"
  using assms distToTarget_moved [OF assms(3), of "dollyDelta (py cur) s"]
  by (simp add: dollyStep_def Let_def) (simp add: distToTarget_def)

lemma onMouseWheel_distance:
  assumes "clientHeight s \<noteq> 0" and "distToTarget s \<noteq> 0"
  shows "\<exists>s'. onMouseWheel deltaY s = Inr s' \<and>
           distToTarget s' =
             (let delta = zoomSpeed s * (distForFullDrag s / clientHeight s) * deltaY
              in if withinLimits (distToTarget s + delta) s
                 then \<bar>distToTarget s + delta\<bar> else distToTarget s)"
proof -
  define s0 where "s0 = s\<lparr>state := DOLLYING, prev := Vector2 0 0\<rparr>"
  define delta where "delta = zoomSpeed s * (distForFullDrag s / clientHeight s) * deltaY"
  have w: "onMouseWheel deltaY s = dollyStep (Vector2 0 (- deltaY)) s0"
    by (simp add: onMouseWheel_def dolly_def s0_def)
  have dd: "dollyDelta (- deltaY) s0 = delta"
    by (simp add: dollyDelta_def s0_def delta_def Let_def
        distForFullDrag_def distToTarget_def split: limit.split)
  have s0: "clientHeight s0 \<noteq> 0" "distToTarget s0 = distToTarget s"
    "withinLimits d s0 = withinLimits d s" for d
    using assms by (simp_all add: s0_def distToTarget_def withinLimits_def)
  show ?thesis
  proof (cases "withinLimits (distToTarget s + delta) s")
    case True
    then show ?thesis
      using dollyStep_applied [of s0 "Vector2 0 (- deltaY)"] s0 assms(2) dd w
      by (auto simp: delta_def Let_def)
  next
    case False
    then show ?thesis
      using dollyStep_rejected [of s0 "Vector2 0 (- deltaY)"] s0 dd w
      by (auto simp: delta_def Let_def)
  qed
qed

lemma onMouseWheel_on_target:
  assumes "distToTarget s = 0" "clientHeight s \<noteq> 0" "minDistance s \<le> 0"
    "case maxDistance s of Infinity \<Rightarrow> True | Finite mx \<Rightarrow> 0 \<le> mx \<and> minDistance s \<le> mx"
  shows "onMouseWheel deltaY s = Inl ZeroDistance"
proof -
  define s0 where "s0 = s\<lparr>state := DOLLYING, prev := Vector2 0 0\<rparr>"
  have d0: "distToTarget s0 = 0" and h0: "clientHeight s0 \<noteq> 0"
    using assms(1,2) by (simp_all add: s0_def)
  have "distForFullDrag s0 = 0"
    using assms by (simp add: s0_def distForFullDrag_def split: limit.splits)
  then have dd: "dollyDelta (- deltaY) s0 = 0"
    by (simp add: dollyDelta_def)
  have "withinLimits 0 s0"
    using assms(3,4) by (simp add: s0_def withinLimits_def split: limit.splits)
  then have "dollyStep (Vector2 0 (- deltaY)) s0 = Inl ZeroDistance"
    using d0 h0 dd by (simp add: dollyStep_ZeroDistance_iff)
  then show ?thesis
    by (simp add: onMouseWheel_def dolly_def s0_def)
qed

lemma onMouseDown_dolly [simp]:
  "distForFullDrag (onMouseDown e s) = distForFullDrag s"
  "clientHeight (onMouseDown e s) = clientHeight s"
  "dollyDelta y (onMouseDown e s) =
     zoomSpeed s * (distForFullDrag s / clientHeight s) * (clientY e - y)"
  "dollyDelta y ((onMouseDown e s)\<lparr>state := st\<rparr>) =
     zoomSpeed s * (distForFullDrag s / clientHeight s) * (clientY e - y)"
  by (simp_all add: onMouseDown_def distForFullDrag_def distToTarget_def dollyDelta_def Let_def
      split: limit.split)

lemma state_update_same: "state s = st \<Longrightarrow> s\<lparr>state := st\<rparr> = s"
  by (cases s) simp

lemma dolly_succeeds:
  assumes "state s = DOLLYING \<or>
           state s = INDETERMINATE \<and> ClickThreshold < manhattanDistanceTo (Vector2 x y) (prev s)"
    "clientHeight s \<noteq> 0" "distToTarget s \<noteq> 0"
  shows "\<exists>s'. dolly x y s = Inr s'"
proof -
  have "\<exists>s'. dollyStep (Vector2 x y) (s\<lparr>state := DOLLYING\<rparr>) = Inr s'"
  proof (cases "withinLimits (distToTarget s + dollyDelta y s) s")
    case True
    then show ?thesis
      using dollyStep_applied [of "s\<lparr>state := DOLLYING\<rparr>" "Vector2 x y"] assms(2,3) by auto
  next
    case False
    then show ?thesis
      using dollyStep_rejected [of "s\<lparr>state := DOLLYING\<rparr>" "Vector2 x y"] assms(2) by auto
  qed
  moreover have "dolly x y s = dollyStep (Vector2 x y) (s\<lparr>state := DOLLYING\<rparr>)"
    using assms(1) by (auto simp: dolly_def state_update_same)
  ultimately show ?thesis by simp
qed

section \<open>What the handlers change\<close>

lemma fixUp_trace: "trace (fixUp s) = trace s @ [FixUp (up (object (fixUp s)))]"
  by (simp add: fixUp_def Let_def)

lemma update_trace:
  "trace (update s) =
     trace s @ [LookAt (position (object s)) (target s) (up (object s))] @
     (if state s \<noteq> ROTATING then [FixUp (up (object (update s)))] else []) @ [Change]"
  by (simp add: update_def fixUp_def Let_def)

lemma update_fields [simp]:
  "dragListeners (update s) = dragListeners s"
  "clicked (update s) = clicked s"
  by (simp_all add: update_def fixUp_def Let_def)

lemma fixUpCalls_update:
  "fixUpCalls (update s) = fixUpCalls s + (if state s \<noteq> ROTATING then 1 else 0)"
  by (simp add: fixUpCalls_def update_trace isFixUp_def)

lemma changes_update: "changes (update s) = changes s + 1"
  by (simp add: changes_def update_trace)

lemma counters_frame [simp]:
  "fixUpCalls (s\<lparr>object := ob\<rparr>) = fixUpCalls s"
  "fixUpCalls (s\<lparr>prev := pv\<rparr>) = fixUpCalls s"
  "fixUpCalls (s\<lparr>state := st\<rparr>) = fixUpCalls s"
  "fixUpCalls (s\<lparr>target := tg\<rparr>) = fixUpCalls s"
  "fixUpCalls (s\<lparr>radius := r\<rparr>) = fixUpCalls s"
  "fixUpCalls (s\<lparr>basisMatrix := bm\<rparr>) = fixUpCalls s"
  "fixUpCalls (s\<lparr>clicked := c\<rparr>) = fixUpCalls s"
  "fixUpCalls (s\<lparr>dragListeners := l\<rparr>) = fixUpCalls s"
  "changes (s\<lparr>object := ob\<rparr>) = changes s"
  "changes (s\<lparr>prev := pv\<rparr>) = changes s"
  "changes (s\<lparr>state := st\<rparr>) = changes s"
  "changes (s\<lparr>target := tg\<rparr>) = changes s"
  "changes (s\<lparr>radius := r\<rparr>) = changes s"
  "changes (s\<lparr>basisMatrix := bm\<rparr>) = changes s"
  "changes (s\<lparr>clicked := c\<rparr>) = changes s"
  "changes (s\<lparr>dragListeners := l\<rparr>) = changes s"
  by (simp_all add: fixUpCalls_def changes_def)

lemma rotateStep_effects:
  assumes "rotateStep cur s = Inr s'"
  shows "state s' = state s" "dragListeners s' = dragListeners s" "clicked s' = clicked s"
    "fixUpCalls s' = fixUpCalls s + (if state s \<noteq> ROTATING then 1 else 0)"
    "changes s' = changes s + 1"
  using assms
  by (auto simp: rotateStep_def fixUpCalls_update changes_update split: if_splits sum.splits)

lemma captureBasis_effects:
  assumes "captureBasis s = Inr s'"
  shows "state s' = state s" "dragListeners s' = dragListeners s" "clicked s' = clicked s"
    "fixUpCalls s' = fixUpCalls s" "changes s' = changes s"
  using assms by (auto simp: captureBasis_def Let_def split: if_splits)

lemma dollyStep_effects:
  assumes "dollyStep cur s = Inr s'"
  shows "state s' = state s" "dragListeners s' = dragListeners s" "clicked s' = clicked s"
    "fixUpCalls s' = fixUpCalls s +
       (if withinLimits (distToTarget s + dollyDelta (py cur) s) s \<and> state s \<noteq> ROTATING then 1 else 0)"
    "changes s' = changes s +
       (if withinLimits (distToTarget s + dollyDelta (py cur) s) s then 1 else 0)"
    "\<not> withinLimits (distToTarget s + dollyDelta (py cur) s) s \<Longrightarrow> s' = s"
  using assms
  by (auto simp: dollyStep_def Let_def fixUpCalls_update changes_update split: if_splits)

lemma panStep_effects:
  assumes "panStep cur s = Inr s'"
  shows "state s' = state s" "dragListeners s' = dragListeners s" "clicked s' = clicked s"
    "fixUpCalls s' = fixUpCalls s + (if state s \<noteq> ROTATING then 1 else 0)"
    "changes s' = changes s + 1"
  using assms
  by (auto simp: panStep_def Let_def fixUpCalls_update changes_update split: if_splits)

lemma rotateCamera_cases:
  assumes "rotateCamera x y s = Inr s'"
  shows "(state s = ROTATING \<and> rotateStep (Vector2 x y) s = Inr s') \<or>
         (state s = INDETERMINATE \<and> ClickThreshold < manhattanDistanceTo (Vector2 x y) (prev s) \<and>
            (\<exists>s1. captureBasis (s\<lparr>state := ROTATING\<rparr>) = Inr s1 \<and>
                  rotateStep (Vector2 x y) s1 = Inr s')) \<or>
         (state s \<noteq> ROTATING \<and>
            \<not> (state s = INDETERMINATE \<and> ClickThreshold < manhattanDistanceTo (Vector2 x y) (prev s)) \<and>
            s' = s)"
proof (cases "state s = INDETERMINATE \<and> ClickThreshold < manhattanDistanceTo (Vector2 x y) (prev s)")
  case True
  then obtain s1 where c: "captureBasis (s\<lparr>state := ROTATING\<rparr>) = Inr s1"
    using assms by (auto simp: rotateCamera_def split: sum.splits)
  then have "state s1 = ROTATING" by (simp add: captureBasis_effects(1))
  then show ?thesis using assms True c by (simp add: rotateCamera_def)
next
  case False
  then show ?thesis using assms by (auto simp: rotateCamera_def split: if_splits)
qed

lemma dolly_cases:
  assumes "dolly x y s = Inr s'"
  shows "(state s = DOLLYING \<and> dollyStep (Vector2 x y) s = Inr s') \<or>
         (state s = INDETERMINATE \<and> ClickThreshold < manhattanDistanceTo (Vector2 x y) (prev s) \<and>
            dollyStep (Vector2 x y) (s\<lparr>state := DOLLYING\<rparr>) = Inr s') \<or>
         (state s \<noteq> DOLLYING \<and>
            \<not> (state s = INDETERMINATE \<and> ClickThreshold < manhattanDistanceTo (Vector2 x y) (prev s)) \<and>
            s' = s)"
  using assms by (auto simp: dolly_def Let_def split: if_splits)

lemma pan_cases:
  assumes "pan x y s = Inr s'"
  shows "(state s = PANNING \<and> panStep (Vector2 x y) s = Inr s') \<or>
         (state s = INDETERMINATE \<and> ClickThreshold < manhattanDistanceTo (Vector2 x y) (prev s) \<and>
            panStep (Vector2 x y) (s\<lparr>state := PANNING\<rparr>) = Inr s') \<or>
         (state s \<noteq> PANNING \<and>
            \<not> (state s = INDETERMINATE \<and> ClickThreshold < manhattanDistanceTo (Vector2 x y) (prev s)) \<and>
            s' = s)"
  using assms by (auto simp: pan_def Let_def split: if_splits)

lemma rotateCamera_effects:
  assumes "rotateCamera x y s = Inr s'"
  shows "fixUpCalls s' = fixUpCalls s" "dragListeners s' = dragListeners s"
    "clicked s' = clicked s" "changes s \<le> changes s'"
    "state s \<noteq> INDETERMINATE \<Longrightarrow> state s' = state s"
    "state s = INDETERMINATE \<Longrightarrow> ClickThreshold < manhattanDistanceTo (Vector2 x y) (prev s) \<Longrightarrow>
       state s' = ROTATING \<and> changes s < changes s'"
proof -
  let ?far = "ClickThreshold < manhattanDistanceTo (Vector2 x y) (prev s)"
  let ?goal = "fixUpCalls s' = fixUpCalls s \<and> dragListeners s' = dragListeners s \<and>
    clicked s' = clicked s \<and> changes s \<le> changes s' \<and>
    (state s \<noteq> INDETERMINATE \<longrightarrow> state s' = state s) \<and>
    (state s = INDETERMINATE \<longrightarrow> ?far \<longrightarrow> state s' = ROTATING \<and> changes s < changes s')"
  consider (a) "state s = ROTATING" "rotateStep (Vector2 x y) s = Inr s'"
    | (b) s1 where "state s = INDETERMINATE" "?far"
        "captureBasis (s\<lparr>state := ROTATING\<rparr>) = Inr s1" "rotateStep (Vector2 x y) s1 = Inr s'"
    | (c) "state s \<noteq> ROTATING" "\<not> (state s = INDETERMINATE \<and> ?far)" "s' = s"
    using rotateCamera_cases [OF assms] by blast
  then have ?goal
  proof cases
    case a
    note e = rotateStep_effects [OF a(2)]
    show ?thesis using a(1) e by auto
  next
    case b
    note c = captureBasis_effects [OF b(3)]
    note e = rotateStep_effects [OF b(4)]
    have "state s1 = ROTATING" using c(1) by simp
    then show ?thesis using b(1,2) c e by auto
  next
    case c
    then show ?thesis by auto
  qed
  then show "fixUpCalls s' = fixUpCalls s" "dragListeners s' = dragListeners s"
    "clicked s' = clicked s" "changes s \<le> changes s'"
    "state s \<noteq> INDETERMINATE \<Longrightarrow> state s' = state s"
    "state s = INDETERMINATE \<Longrightarrow> ClickThreshold < manhattanDistanceTo (Vector2 x y) (prev s) \<Longrightarrow>
       state s' = ROTATING \<and> changes s < changes s'"
    by simp_all
qed

lemma dolly_effects:
  assumes "dolly x y s = Inr s'"
  defines "applied \<equiv> (state s = DOLLYING \<or>
              state s = INDETERMINATE \<and> ClickThreshold < manhattanDistanceTo (Vector2 x y) (prev s)) \<and>
             withinLimits (distToTarget s + dollyDelta y s) s"
  shows "fixUpCalls s' = fixUpCalls s + (if applied then 1 else 0)"
    "changes s' = changes s + (if applied then 1 else 0)"
    "dragListeners s' = dragListeners s" "clicked s' = clicked s"
    "state s \<noteq> INDETERMINATE \<Longrightarrow> state s' = state s"
    "state s = INDETERMINATE \<Longrightarrow> ClickThreshold < manhattanDistanceTo (Vector2 x y) (prev s) \<Longrightarrow>
       state s' = DOLLYING"
    "\<not> applied \<Longrightarrow> object s' = object s \<and> target s' = target s \<and> trace s' = trace s"
proof -
  let ?far = "ClickThreshold < manhattanDistanceTo (Vector2 x y) (prev s)"
  let ?goal = "fixUpCalls s' = fixUpCalls s + (if applied then 1 else 0) \<and>
    changes s' = changes s + (if applied then 1 else 0) \<and>
    dragListeners s' = dragListeners s \<and> clicked s' = clicked s \<and>
    (state s \<noteq> INDETERMINATE \<longrightarrow> state s' = state s) \<and>
    (state s = INDETERMINATE \<longrightarrow> ?far \<longrightarrow> state s' = DOLLYING) \<and>
    (\<not> applied \<longrightarrow> object s' = object s \<and> target s' = target s \<and> trace s' = trace s)"
  consider (a) "state s = DOLLYING" "dollyStep (Vector2 x y) s = Inr s'"
    | (b) "state s = INDETERMINATE" "?far" "dollyStep (Vector2 x y) (s\<lparr>state := DOLLYING\<rparr>) = Inr s'"
    | (c) "state s \<noteq> DOLLYING" "\<not> (state s = INDETERMINATE \<and> ?far)" "s' = s"
    using dolly_cases [OF assms(1)] by blast
  then have ?goal
  proof cases
    case a
    note e = dollyStep_effects [OF a(2)]
    show ?thesis
      using a(1) e(1-5) e(6) unfolding applied_def by auto
  next
    case b
    note e = dollyStep_effects [OF b(3)]
    have "\<not> withinLimits (distToTarget s + dollyDelta y s) s \<Longrightarrow> s' = s\<lparr>state := DOLLYING\<rparr>"
      using e(6) by simp
    then show ?thesis
      using b(1,2) e(1-5) unfolding applied_def by auto
  next
    case c
    then show ?thesis unfolding applied_def by auto
  qed
  then show "fixUpCalls s' = fixUpCalls s + (if applied then 1 else 0)"
    "changes s' = changes s + (if applied then 1 else 0)"
    "dragListeners s' = dragListeners s" "clicked s' = clicked s"
    "state s \<noteq> INDETERMINATE \<Longrightarrow> state s' = state s"
    "state s = INDETERMINATE \<Longrightarrow> ClickThreshold < manhattanDistanceTo (Vector2 x y) (prev s) \<Longrightarrow>
       state s' = DOLLYING"
    "\<not> applied \<Longrightarrow> object s' = object s \<and> target s' = target s \<and> trace s' = trace s"
    by simp_all
qed

lemma pan_effects:
  assumes "pan x y s = Inr s'"
  defines "applied \<equiv> state s = PANNING \<or>
             state s = INDETERMINATE \<and> ClickThreshold < manhattanDistanceTo (Vector2 x y) (prev s)"
  shows "fixUpCalls s' = fixUpCalls s + (if applied then 1 else 0)"
    "changes s' = changes s + (if applied then 1 else 0)"
    "dragListeners s' = dragListeners s" "clicked s' = clicked s"
    "state s \<noteq> INDETERMINATE \<Longrightarrow> state s' = state s"
    "state s = INDETERMINATE \<Longrightarrow> ClickThreshold < manhattanDistanceTo (Vector2 x y) (prev s) \<Longrightarrow>
       state s' = PANNING"
proof -
  let ?far = "ClickThreshold < manhattanDistanceTo (Vector2 x y) (prev s)"
  let ?goal = "fixUpCalls s' = fixUpCalls s + (if applied then 1 else 0) \<and>
    changes s' = changes s + (if applied then 1 else 0) \<and>
    dragListeners s' = dragListeners s \<and> clicked s' = clicked s \<and>
    (state s \<noteq> INDETERMINATE \<longrightarrow> state s' = state s) \<and>
    (state s = INDETERMINATE \<longrightarrow> ?far \<longrightarrow> state s' = PANNING)"
  consider (a) "state s = PANNING" "panStep (Vector2 x y) s = Inr s'"
    | (b) "state s = INDETERMINATE" "?far" "panStep (Vector2 x y) (s\<lparr>state := PANNING\<rparr>) = Inr s'"
    | (c) "state s \<noteq> PANNING" "\<not> (state s = INDETERMINATE \<and> ?far)" "s' = s"
    using pan_cases [OF assms(1)] by blast
  then have ?goal
  proof cases
    case a
    note e = panStep_effects [OF a(2)]
    show ?thesis using a(1) e unfolding applied_def by auto
  next
    case b
    note e = panStep_effects [OF b(3)]
    show ?thesis using b(1,2) e unfolding applied_def by auto
  next
    case c
    then show ?thesis unfolding applied_def by auto
  qed
  then show "fixUpCalls s' = fixUpCalls s + (if applied then 1 else 0)"
    "changes s' = changes s + (if applied then 1 else 0)"
    "dragListeners s' = dragListeners s" "clicked s' = clicked s"
    "state s \<noteq> INDETERMINATE \<Longrightarrow> state s' = state s"
    "state s = INDETERMINATE \<Longrightarrow> ClickThreshold < manhattanDistanceTo (Vector2 x y) (prev s) \<Longrightarrow>
       state s' = PANNING"
    by simp_all
qed


lemma onMouseMove_routes:
  "onMouseMove m s = rotateCamera (clientX m) (clientY m) s \<or>
   onMouseMove m s = pan (clientX m) (clientY m) s \<or>
   onMouseMove m s = dolly (clientX m) (clientY m) s \<and> buttons m = 4 \<or>
   onMouseMove m s = Inr s \<and> buttons m \<noteq> 1 \<and> buttons m \<noteq> 2 \<and> buttons m \<noteq> 4"
  by (simp add: onMouseMove_def)

lemma onMouseMove_effects:
  assumes "onMouseMove m s = Inr s'"
  shows "dragListeners s' = dragListeners s" "clicked s' = clicked s" "changes s \<le> changes s'"
    "state s \<noteq> INDETERMINATE \<Longrightarrow> state s' = state s"
proof -
  have "dragListeners s' = dragListeners s \<and> clicked s' = clicked s \<and>
      changes s \<le> changes s' \<and> (state s \<noteq> INDETERMINATE \<longrightarrow> state s' = state s)"
    using onMouseMove_routes [of m s]
  proof (elim disjE conjE)
    assume "onMouseMove m s = rotateCamera (clientX m) (clientY m) s"
    then have r: "rotateCamera (clientX m) (clientY m) s = Inr s'" using assms by simp
    show ?thesis using rotateCamera_effects [OF r] by simp
  next
    assume "onMouseMove m s = pan (clientX m) (clientY m) s"
    then have p: "pan (clientX m) (clientY m) s = Inr s'" using assms by simp
    show ?thesis using pan_effects [OF p] by simp
  next
    assume "onMouseMove m s = dolly (clientX m) (clientY m) s"
    then have d: "dolly (clientX m) (clientY m) s = Inr s'" using assms by simp
    show ?thesis using dolly_effects(1-6) [OF d] by simp
  next
    assume "onMouseMove m s = Inr s"
    then have "s' = s" using assms by simp
    then show ?thesis by simp
  qed
  then show "dragListeners s' = dragListeners s" "clicked s' = clicked s" "changes s \<le> changes s'"
    "state s \<noteq> INDETERMINATE \<Longrightarrow> state s' = state s"
    by simp_all
qed


lemma onKeyDown_cases:
  "onKeyDown k s =
     (if k = UP (keys s) then pan 0 (keyPanSpeed s) (s\<lparr>state := PANNING, prev := Vector2 0 0\<rparr>)
      else if k = DOWN (keys s) then pan 0 (- keyPanSpeed s) (s\<lparr>state := PANNING, prev := Vector2 0 0\<rparr>)
      else if k = LEFT (keys s) then pan (keyPanSpeed s) 0 (s\<lparr>state := PANNING, prev := Vector2 0 0\<rparr>)
      else if k = RIGHT (keys s) then pan (- keyPanSpeed s) 0 (s\<lparr>state := PANNING, prev := Vector2 0 0\<rparr>)
      else Inr s)"
  by (simp add: onKeyDown_def Let_def)

lemma pan_succeeds:
  assumes "state s = PANNING" "distToTarget s \<noteq> 0" "clientHeight s \<noteq> 0"
    "cos ((fov (object s) / 2) * (pi / 360)) \<noteq> 0"
  shows "\<exists>s'. pan x y s = Inr s'"
  using assms by (simp add: pan_def panStep_def Let_def distToTarget_def)

section \<open>Sequences of events\<close>

lemma handleEvents_append:
  "handleEvents (xs @ ys) s =
     (case handleEvents xs s of Inl e \<Rightarrow> Inl e | Inr s1 \<Rightarrow> handleEvents ys s1)"
  by (induction xs arbitrary: s) (auto split: sum.splits)



lemma moves_listeners:
  assumes "handleEvents (map MouseMove ms) s = Inr s'"
  shows "dragListeners s' = dragListeners s"
  using assms
proof (induction ms arbitrary: s)
  case Nil
  then show ?case by simp
next
  case (Cons m ms)
  show ?case
  proof (cases "dragListeners s")
    case False
    then show ?thesis using Cons by simp
  next
    case True
    then obtain s1 where s1: "onMouseMove m s = Inr s1"
      and rest: "handleEvents (map MouseMove ms) s1 = Inr s'"
      using Cons.prems(1) by (auto split: sum.splits)
    show ?thesis
      using Cons.IH [OF rest] onMouseMove_effects(1) [OF s1] by simp
  qed
qed

lemma onMouseDown_fields [simp]:
  "state (onMouseDown e s) = INDETERMINATE" "prev (onMouseDown e s) = pointer e"
  "dragListeners (onMouseDown e s)" "object (onMouseDown e s) = object s"
  "target (onMouseDown e s) = target s" "trace (onMouseDown e s) = trace s"
  "changes (onMouseDown e s) = changes s" "fixUpCalls (onMouseDown e s) = fixUpCalls s"
  "distToTarget (onMouseDown e s) = distToTarget s"
  "withinLimits d (onMouseDown e s) = withinLimits d s"
  "clientWidth (onMouseDown e s) = clientWidth s"
  by (simp_all add: onMouseDown_def pointer_def changes_def fixUpCalls_def distToTarget_def
      withinLimits_def)

lemma onMouseUp_fields:
  "state (onMouseUp s) = INACTIVE" "clicked (onMouseUp s) \<longleftrightarrow> state s = INDETERMINATE"
  "changes (onMouseUp s) = changes s"
  "fixUpCalls (onMouseUp s) = fixUpCalls s + (if state s = ROTATING then 1 else 0)"
  "state s \<noteq> ROTATING \<Longrightarrow> object (onMouseUp s) = object s \<and> target (onMouseUp s) = target s \<and>
     trace (onMouseUp s) = trace s"
  by (auto simp: onMouseUp_def Let_def changes_def fixUpCalls_def fixUp_trace isFixUp_def)

lemma gesture_run:
  "handleEvents (gesture e ms) s =
     (case handleEvents (map MouseMove ms) (onMouseDown e s) of
        Inl err \<Rightarrow> Inl err
      | Inr s1 \<Rightarrow> Inr (onMouseUp s1))"
proof (cases "handleEvents (map MouseMove ms) (onMouseDown e s)")
  case (Inl err)
  then show ?thesis by (simp add: gesture_def handleEvents_append)
next
  case (Inr s1)
  then have "dragListeners s1" using moves_listeners [OF Inr] by simp
  then show ?thesis using Inr by (simp add: gesture_def handleEvents_append)
qed



lemma handleEvents_last [simp]:
  "(case r of Inl err \<Rightarrow> Inl err | Inr s1 \<Rightarrow> handleEvents [] s1) = r"
  by (cases r) simp_all

section \<open>The example, evaluated\<close>

lemma length3_z_axis [simp]: "length3 (Vector3 0 0 c) = \<bar>c\<bar>"
  by (simp add: length3_def)

lemma length3_y_axis [simp]: "length3 (Vector3 0 c 0) = \<bar>c\<bar>"
  by (simp add: length3_def)

lemma length3_x_axis [simp]: "length3 (Vector3 c 0 0) = \<bar>c\<bar>"
  by (simp add: length3_def)

lemma example_object: "object example = exampleCamera"
  by (simp add: example_def constructor_def update_def fixUp_def Let_def exampleCamera_def
      normalize3_def divideScalar_def multiplyScalar_def subVectors_def crossVectors_def)

lemma example_fields:
  "target example = Vector3 0 0 0" "state example = INACTIVE"
  "clientWidth example = 200" "clientHeight example = 200"
  "minDistance example = 0" "maxDistance example = Infinity" "zoomSpeed example = 1"
  "rotateSpeed example = 1" "prev example = Vector2 0 0" "dragListeners example = False"
  "clicked example = False"
  by (simp_all add: example_def constructor_def update_def fixUp_def Let_def)

lemma example_trace:
  "trace example = [LookAt (Vector3 0 0 5) (Vector3 0 0 0) (Vector3 0 1 0), FixUp (Vector3 0 1 0), Change]"
  by (simp add: example_def constructor_def update_def fixUp_def Let_def exampleCamera_def
      normalize3_def divideScalar_def multiplyScalar_def subVectors_def crossVectors_def)

lemma example_dist:
  "distToTarget example = 5" "distForFullDrag example = 10"
  "withinLimits d example \<longleftrightarrow> 0 \<le> d"
  by (simp_all add: distToTarget_def distForFullDrag_def withinLimits_def example_object
      example_fields exampleCamera_def subVectors_def)



lemma exampleOnTarget_fields:
  "distToTarget exampleOnTarget = 0" "clientHeight exampleOnTarget = 200"
  "withinLimits d exampleOnTarget \<longleftrightarrow> 0 \<le> d" "distForFullDrag exampleOnTarget = 0"
  "state exampleOnTarget = INACTIVE"
  by (simp_all add: exampleOnTarget_def distToTarget_def distForFullDrag_def withinLimits_def
      example_fields subVectors_def)

lemma wheel_to_target:
  "\<exists>s'. onMouseWheel (- 100) example = Inr s' \<and> distToTarget s' = 0 \<and>
        clientHeight s' = 200 \<and> minDistance s' = 0 \<and> maxDistance s' = Infinity"
proof -
  define s0 where "s0 = example\<lparr>state := DOLLYING, prev := Vector2 0 0\<rparr>"
  have w: "onMouseWheel (- 100) example = dollyStep (Vector2 0 100) s0"
    by (simp add: onMouseWheel_def dolly_def s0_def)
  have dd: "dollyDelta 100 s0 = - 5"
    by (simp add: dollyDelta_def s0_def example_dist example_fields)
  have "clientHeight s0 \<noteq> 0" "distToTarget s0 \<noteq> 0" "withinLimits (distToTarget s0 + dollyDelta 100 s0) s0"
    unfolding dd by (simp_all add: s0_def example_dist example_fields)
  then obtain s' where s': "dollyStep (Vector2 0 100) s0 = Inr s'"
    "distToTarget s' = \<bar>distToTarget s0 + dollyDelta (py (Vector2 0 100)) s0\<bar>"
    "s' = (update (s0\<lparr>object := (object s0)\<lparr>position := position (object s')\<rparr>\<rparr>))\<lparr>prev := Vector2 0 100\<rparr>"
    using dollyStep_applied [of s0 "Vector2 0 100"] by auto
  have "distToTarget s' = 0" using s'(2) dd by (simp add: s0_def example_dist)
  moreover have "clientHeight s' = 200 \<and> minDistance s' = 0 \<and> maxDistance s' = Infinity"
    by (subst s'(3), simp add: update_def fixUp_def Let_def s0_def example_fields)+
  ultimately show ?thesis using w s'(1) by simp
qed

lemma example_counters: "fixUpCalls example = 1" "changes example = 1"
  by (simp_all add: fixUpCalls_def changes_def example_trace isFixUp_def)

lemma far_from_press:
  "ClickThreshold < manhattanDistanceTo (Vector2 50 y) (pointer pressAtOrigin)"
  by (simp add: pointer_def pressAtOrigin_def manhattanDistanceTo_def ClickThreshold_def)


lemma drag_example_runs:
  "\<exists>s'. handleEvents [MouseDown pressMiddle, MouseMove dragUp] example = Inr s'"
proof -
  let ?s0 = "onMouseDown pressMiddle example"
  have "\<exists>s'. dolly 0 (- 100) ?s0 = Inr s'"
    by (rule dolly_succeeds)
      (simp_all add: example_fields example_dist pointer_def pressMiddle_def
        manhattanDistanceTo_def ClickThreshold_def)
  then show ?thesis
    by (auto simp: onMouseMove_def dragUp_def)
qed

lemma drag_example:
  assumes "handleEvents [MouseDown pressMiddle, MouseMove dragUp] example = Inr s'"
  shows "state s' = DOLLYING" "fixUpCalls s' = 2" "changes s' = 2"
proof -
  let ?s0 = "onMouseDown pressMiddle example"
  have d: "dolly 0 (- 100) ?s0 = Inr s'"
    using assms by (simp add: onMouseMove_def dragUp_def)
  have far: "ClickThreshold < manhattanDistanceTo (Vector2 0 (- 100)) (prev ?s0)"
    by (simp add: pointer_def pressMiddle_def manhattanDistanceTo_def ClickThreshold_def)
  have dd: "dollyDelta (- 100) ?s0 = 5"
    by (simp add: pressMiddle_def example_fields example_dist)
  have w: "withinLimits (distToTarget ?s0 + dollyDelta (- 100) ?s0) ?s0"
    unfolding dd by (simp add: example_dist)
  show "state s' = DOLLYING" using dolly_effects(6) [OF d _ far] by simp
  show "fixUpCalls s' = 2" using dolly_effects(1) [OF d] far w by (simp add: example_counters)
  show "changes s' = 2" using dolly_effects(2) [OF d] far w by (simp add: example_counters)
qed

lemma wheel_example_state:
  "map_sum id state (handleEvents [Wheel 100] example) = Inr DOLLYING"
proof -
  obtain s' where w: "onMouseWheel 100 example = Inr s'"
    using onMouseWheel_distance [of example 100] by (auto simp: example_dist example_fields)
  then have "dolly 0 (- 100) (example\<lparr>state := DOLLYING, prev := Vector2 0 0\<rparr>) = Inr s'"
    by (simp add: onMouseWheel_def)
  from dolly_effects(5) [OF this] have "state s' = DOLLYING" by simp
  then show ?thesis using w by simp
qed



lemma rotate_example_runs:
  "\<exists>s'. rotateCamera 50 0 (onMouseDown pressAtOrigin example) = Inr s'"
proof -
  let ?s0 = "onMouseDown pressAtOrigin example"
  have h: "state ?s0 = INDETERMINATE" by simp
  have far: "ClickThreshold < manhattanDistanceTo (Vector2 50 0) (prev ?s0)"
    by (simp add: far_from_press)
  have ne: "position (object ?s0) \<noteq> target ?s0"
    by (simp add: example_object example_fields exampleCamera_def)
  obtain s1 where run: "rotateCamera 50 0 ?s0 = rotateStep (Vector2 50 0) s1"
    and cap: "capturedAt (position (object ?s0)) (target ?s0) (up (object ?s0)) s1"
    and vp: "clientWidth s1 = clientWidth ?s0" "clientHeight s1 = clientHeight ?s0"
    using rotateCamera_promote [OF h far ne] by blast
  have "\<exists>pos. applyMatrix4 (rotatePos (Vector2 50 0) s1) (basisMatrix s1) = Inr pos"
    using cap by (simp add: capturedAt_def Let_def applyMatrix4_basis)
  then obtain s' where "rotateStep (Vector2 50 0) s1 = Inr s'"
    using rotateStep_position [of "Vector2 50 0" s1] vp
    by (auto simp: example_fields)
  then show ?thesis using run by simp
qed

lemma example_fov_cos: "cos ((fov (object example) / 2) * (pi / 360)) \<noteq> 0"
proof -
  have "0 < cos (25 * (pi / 360))"
    by (rule cos_gt_zero) (simp_all add: field_simps)
  then show ?thesis by (simp add: example_object exampleCamera_def)
qed

lemma example_keys: "LEFT (keys example) = 37" "UP (keys example) = 38"
  "RIGHT (keys example) = 39" "DOWN (keys example) = 40" "keyPanSpeed example = 7"
  by (simp_all add: example_def constructor_def update_def fixUp_def Let_def)

lemma key_example_runs: "\<exists>s'. onKeyDown 37 example = Inr s'"
proof -
  let ?s = "example\<lparr>state := PANNING, prev := Vector2 0 0\<rparr>"
  have "\<exists>s'. pan 7 0 ?s = Inr s'"
    using example_fov_cos by (intro pan_succeeds) (simp_all add: example_dist example_fields)
  then show ?thesis by (simp add: onKeyDown_cases example_keys)
qed

section \<open>Rounding to the nearest double\<close>

text \<open>
  \<open>expo\<close> is the exponent, and \<open>fl x\<close> is a multiple of \<open>ulp x\<close> at most half of
  \<open>ulp x\<close> away from \<open>x\<close>. \<open>fl_near\<close> and \<open>fl_sqrt\<close> find the double nearest to a
  number that is known by bounds only.
\<close>

lemmas fl_eval = fl_def ulp_def expo_def rne_def pow2_def bitlen.simps Let_def

lemma bitlen_Suc: "0 < n \<Longrightarrow> bitlen n = Suc (bitlen (n div 2))"
  by (subst bitlen.simps) simp

lemma bitlen_bounds: "0 < n \<Longrightarrow> 2 ^ (bitlen n - 1) \<le> n \<and> n < 2 ^ bitlen n"
proof (induction n rule: bitlen.induct)
  case (1 n)
  note b = bitlen_Suc [OF 1(2)]
  show ?case
  proof (cases "n div 2 = 0")
    case True
    then have "n = 1" using 1(2) by (simp add: div_eq_0_iff)
    then show ?thesis by (simp add: bitlen.simps)
  next
    case False
    then have ih: "2 ^ (bitlen (n div 2) - 1) \<le> n div 2" "n div 2 < 2 ^ bitlen (n div 2)"
      using 1 by simp_all
    have bp: "bitlen (n div 2) = Suc (bitlen (n div 2) - 1)"
      using False by (simp add: bitlen_Suc)
    have "(2::nat) ^ bitlen (n div 2) = 2 * 2 ^ (bitlen (n div 2) - 1)"
      by (subst bp) simp
    then have lo: "2 ^ bitlen (n div 2) \<le> n" using ih(1) by linarith
    have hi: "n < 2 * 2 ^ bitlen (n div 2)" using ih(2) by linarith
    show ?thesis using lo hi by (simp add: b)
  qed
qed

lemma pow2_powr: "pow2 e = 2 powr (real_of_int e)"
proof (cases "0 \<le> e")
  case True
  then have "real_of_int e = real (nat e)" by simp
  then show ?thesis using True by (simp add: pow2_def powr_realpow del: of_nat_nat)
next
  case False
  then have "real_of_int e = - real (nat (- e))" by simp
  then show ?thesis using False
    by (simp add: pow2_def powr_minus_divide powr_realpow del: of_nat_nat)
qed

lemma pow2_pos [simp]: "0 < pow2 e"
  by (simp add: pow2_powr)

lemma pow2_nonneg [simp]: "0 \<le> pow2 e"
  by (simp add: pow2_powr)

lemma pow2_add: "pow2 (a + b) = pow2 a * pow2 b"
  by (simp add: pow2_powr powr_add)

lemma pow2_le_iff: "pow2 a \<le> pow2 b \<longleftrightarrow> a \<le> b"
  by (simp add: pow2_powr)

lemma pow2_less_iff: "pow2 a < pow2 b \<longleftrightarrow> a < b"
  by (simp add: pow2_powr)

lemma pow2_nat: "pow2 (int n) = 2 ^ n"
  by (simp add: pow2_def)

lemma pow2_neg_nat: "pow2 (- int n) = 1 / 2 ^ n"
  by (cases "n = 0") (simp_all add: pow2_def)

lemma expo_bounds:
  assumes "x \<noteq> 0"
  shows "pow2 (expo x) \<le> \<bar>x\<bar> \<and> \<bar>x\<bar> < pow2 (expo x + 1)"
proof (cases "1 \<le> \<bar>x\<bar>")
  case True
  define n where "n = nat \<lfloor>\<bar>x\<bar>\<rfloor>"
  have n1: "0 < n" using True by (simp add: n_def)
  have nx: "real n \<le> \<bar>x\<bar>" "\<bar>x\<bar> < real n + 1"
    unfolding n_def by (simp_all add: of_nat_nat) 
  note bb = bitlen_bounds [OF n1]
  have bp: "bitlen n = Suc (bitlen n - 1)" using n1 by (simp add: bitlen_Suc)
  have e: "expo x = int (bitlen n - 1)" using True bp by (simp add: expo_def n_def)
  have "real (2 ^ (bitlen n - 1)) \<le> real n" using bb by (simp only: of_nat_le_iff)
  then have "(2::real) ^ (bitlen n - 1) \<le> real n" by simp
  moreover have "pow2 (expo x) = 2 ^ (bitlen n - 1)" by (simp add: e pow2_nat)
  ultimately have lo: "pow2 (expo x) \<le> \<bar>x\<bar>" using nx(1) by linarith
  have "real n + 1 \<le> real (2 ^ bitlen n)" using bb
    by (metis Suc_leI of_nat_Suc of_nat_le_iff add.commute)
  then have "\<bar>x\<bar> < 2 ^ bitlen n" using nx(2) by simp
  moreover have "expo x + 1 = int (bitlen n)" using e bp by simp
  ultimately have hi: "\<bar>x\<bar> < pow2 (expo x + 1)" by (simp add: pow2_nat)
  show ?thesis using lo hi by simp
next
  case False
  define y where "y = 1 / \<bar>x\<bar>"
  have y1: "1 < y" using False assms by (simp add: y_def)
  define m where "m = nat (\<lceil>y\<rceil> - 1)"
  have "2 \<le> \<lceil>y\<rceil>" using y1 by linarith
  then have m1: "0 < m" by (simp add: m_def)
  have my: "real m < y" "y \<le> real m + 1"
    unfolding m_def using \<open>2 \<le> \<lceil>y\<rceil>\<close> by (simp_all add: of_nat_nat) linarith+
  note bb = bitlen_bounds [OF m1]
  have bp: "bitlen m = Suc (bitlen m - 1)" using m1 by (simp add: bitlen_Suc)
  have e: "expo x = - int (bitlen m)" using False by (simp add: expo_def m_def y_def)
  have xy: "\<bar>x\<bar> = 1 / y" using assms by (simp add: y_def)
  have "real m + 1 \<le> real (2 ^ bitlen m)" using bb
    by (metis Suc_leI of_nat_Suc of_nat_le_iff add.commute)
  then have "y \<le> 2 ^ bitlen m" using my(2) by simp
  then have "1 / 2 ^ bitlen m \<le> 1 / y" using y1 by (simp add: frac_le)
  then have lo: "pow2 (expo x) \<le> \<bar>x\<bar>" by (simp add: e xy pow2_neg_nat)
  have "real (2 ^ (bitlen m - 1)) \<le> real m" using bb by (simp only: of_nat_le_iff)
  then have "(2::real) ^ (bitlen m - 1) \<le> real m" by simp
  then have "2 ^ (bitlen m - 1) < y" using my(1) by linarith
  then have "1 / y < 1 / 2 ^ (bitlen m - 1)" by (simp add: frac_less2)
  moreover have "expo x + 1 = - int (bitlen m - 1)" using e bp by simp
  ultimately have hi: "\<bar>x\<bar> < pow2 (expo x + 1)"
    by (simp add: xy pow2_neg_nat)
  show ?thesis using lo hi by simp
qed

lemma expo_unique:
  assumes "pow2 e \<le> \<bar>x\<bar>" "\<bar>x\<bar> < pow2 (e + 1)"
  shows "expo x = e"
proof -
  have "0 < \<bar>x\<bar>" using assms(1) pow2_pos [of e] by linarith
  then have "x \<noteq> 0" by simp
  note b = expo_bounds [OF this]
  have "pow2 e < pow2 (expo x + 1)" using assms(1) b by linarith
  then have 1: "e \<le> expo x" by (simp add: pow2_less_iff)
  have "pow2 (expo x) < pow2 (e + 1)" using assms(2) b by linarith
  then have 2: "expo x \<le> e" by (simp add: pow2_less_iff)
  show ?thesis using 1 2 by simp
qed

lemma rne_near:
  assumes "real_of_int k - 1 / 2 < w" "w < real_of_int k + 1 / 2"
  shows "rne w = k"
proof (cases "real_of_int k \<le> w")
  case True
  then have "\<lfloor>w\<rfloor> = k" using assms by linarith
  then show ?thesis using assms by (simp add: rne_def Let_def)
next
  case False
  then have f: "\<lfloor>w\<rfloor> = k - 1" using assms by linarith
  have "\<not> w - real_of_int (k - 1) < 1 / 2" "1 / 2 < w - real_of_int (k - 1)"
    using assms by simp_all
  then show ?thesis unfolding rne_def Let_def f by simp
qed

lemma fl_near:
  assumes e: "- 1074 \<le> e" and k: "2 ^ 52 < k" "k < 2 ^ 53"
    and lo: "(real_of_int k - 1 / 2) * pow2 e < z"
    and hi: "z < (real_of_int k + 1 / 2) * pow2 e"
  shows "fl z = real_of_int k * pow2 e"
proof -
  have "2 ^ 52 + 1 \<le> k" "k + 1 \<le> 2 ^ 53" using k by simp_all
  then have "real_of_int (2 ^ 52 + 1) \<le> real_of_int k" "real_of_int (k + 1) \<le> real_of_int (2 ^ 53)"
    by (simp_all only: of_int_le_iff)
  then have k': "2 ^ 52 + 1 \<le> real_of_int k" "real_of_int k + 1 \<le> 2 ^ 53"
    by simp_all
  have "pow2 52 = 2 ^ 52" "pow2 53 = 2 ^ 53" by (simp_all add: pow2_def)
  then have p52: "pow2 (e + 52) = 2 ^ 52 * pow2 e" and p53: "pow2 (e + 52 + 1) = 2 ^ 53 * pow2 e"
    using pow2_add [of e 52] pow2_add [of e 53] by (simp_all add: add.assoc)
  have "2 ^ 52 * pow2 e \<le> (real_of_int k - 1 / 2) * pow2 e"
    using k' by (intro mult_right_mono) simp_all
  then have zlo: "pow2 (e + 52) \<le> z" using lo p52 by linarith
  have "(real_of_int k + 1 / 2) * pow2 e \<le> 2 ^ 53 * pow2 e"
    using k' by (intro mult_right_mono) simp_all
  then have zhi: "z < pow2 (e + 52 + 1)" using hi p53 by linarith
  have zp: "0 < z" using zlo pow2_pos [of "e + 52"] by linarith
  have "expo z = e + 52" using zlo zhi zp by (intro expo_unique) simp_all
  moreover have "max (e + 52) (- 1022) - 52 = e" using e by simp
  ultimately have u: "ulp z = pow2 e" by (simp add: ulp_def)
  have "real_of_int k - 1 / 2 < z / pow2 e" "z / pow2 e < real_of_int k + 1 / 2"
    using lo hi by (simp_all add: pos_less_divide_eq pos_divide_less_eq)
  then have "rne (z / pow2 e) = k" by (rule rne_near)
  then show ?thesis using zp by (simp add: fl_def u)
qed

lemma fl_sqrt:
  assumes e: "- 1074 \<le> e" and k: "2 ^ 52 < k" "k < 2 ^ 53"
    and lo: "((real_of_int k - 1 / 2) * pow2 e)\<^sup>2 < x"
    and hi: "x < ((real_of_int k + 1 / 2) * pow2 e)\<^sup>2"
  shows "fl (sqrt x) = real_of_int k * pow2 e"
proof (rule fl_near [OF e k])
  have "1 \<le> k" using k by simp
  then have "real_of_int 1 \<le> real_of_int k" by (simp only: of_int_le_iff)
  then have k': "1 / 2 \<le> real_of_int k" by simp
  have a: "0 \<le> (real_of_int k - 1 / 2) * pow2 e"
    using k' by (intro mult_nonneg_nonneg) simp_all
  show "(real_of_int k - 1 / 2) * pow2 e < sqrt x"
    using lo a by (intro real_less_rsqrt) simp
  have b: "0 \<le> (real_of_int k + 1 / 2) * pow2 e"
    using k' by (intro mult_nonneg_nonneg) simp_all
  show "sqrt x < (real_of_int k + 1 / 2) * pow2 e"
    using hi b by (intro real_less_lsqrt) simp_all
qed

lemma rne_error: "\<bar>real_of_int (rne w) - w\<bar> \<le> 1 / 2"
proof -
  have "real_of_int \<lfloor>w\<rfloor> \<le> w" "w < real_of_int \<lfloor>w\<rfloor> + 1" by linarith+
  then show ?thesis by (auto simp: rne_def Let_def)
qed

lemma ulp_pos [simp]: "0 < ulp x"
  by (simp add: ulp_def)

lemma ulp_abs [simp]: "\<bar>ulp x\<bar> = ulp x"
  using ulp_pos [of x] by (simp del: ulp_pos)

lemma ulp_nonzero [simp]: "ulp x \<noteq> 0"
  using ulp_pos [of x] by (simp del: ulp_pos)

lemma fl_error: "\<bar>fl x - x\<bar> \<le> ulp x / 2"
proof (cases "x = 0")
  case True
  then show ?thesis using ulp_pos [of 0] by (simp add: fl_def del: ulp_pos)
next
  case False
  have "fl x - x = (real_of_int (rne (x / ulp x)) - x / ulp x) * ulp x"
    using False by (simp add: fl_def algebra_simps)
  then have "\<bar>fl x - x\<bar> = \<bar>real_of_int (rne (x / ulp x)) - x / ulp x\<bar> * ulp x"
    by (simp add: abs_mult)
  also have "\<dots> \<le> 1 / 2 * ulp x"
    by (intro mult_right_mono rne_error less_imp_le ulp_pos)
  finally show ?thesis by simp
qed

lemma fl_0 [simp]: "fl 0 = 0"
  by (simp add: fl_def)

lemma fl_1 [simp]: "fl 1 = 1"
  by (simp add: fl_eval)

lemma fl_tenth: "fl (1 / 10) = 3602879701896397 / 36028797018963968"
  by (simp add: fl_eval)

lemma fl_tenth_sum: "fl (fl (1 / 10) + fl (2 / 10)) = fl (3 / 10) + pow2 (- 54)"
  by (simp add: fl_eval)


section \<open>The sine and the cosine of 0.01\<close>

text \<open>
  The partial sums of the sine and cosine series with the bounds of their remainders, and
  from them \<^verbatim>\<open>Math.sin(0.01)\<close> and \<^verbatim>\<open>Math.cos(0.01)\<close>.
\<close>

lemma sin_coeffs:
  "sin_coeff (Suc 0) = 1" "sin_coeff 2 = 0" "sin_coeff 3 = - (1 / 6)" "sin_coeff 4 = 0"
  "sin_coeff 5 = 1 / 120" "sin_coeff 6 = 0" "sin_coeff 7 = - (1 / 5040)" "sin_coeff 8 = 0"
  by (simp_all add: sin_coeff_def fact_numeral)

lemma cos_coeffs:
  "cos_coeff (Suc 0) = 0" "cos_coeff 2 = - (1 / 2)" "cos_coeff 3 = 0" "cos_coeff 4 = 1 / 24"
  "cos_coeff 5 = 0" "cos_coeff 6 = - (1 / 720)" "cos_coeff 7 = 0"
  by (simp_all add: cos_coeff_def fact_numeral)

lemma below9: "{..<9::nat} = {0, 1, 2, 3, 4, 5, 6, 7, 8}"
  by auto

lemma below8: "{..<8::nat} = {0, 1, 2, 3, 4, 5, 6, 7}"
  by auto

lemma sin_sum9: "(\<Sum>m<9. sin_coeff m * x ^ m) = x - x ^ 3 / 6 + x ^ 5 / 120 - x ^ 7 / 5040"
  for x :: real
  unfolding below9 by (simp add: sin_coeffs)

lemma cos_sum8: "(\<Sum>m<8. cos_coeff m * x ^ m) = 1 - x ^ 2 / 2 + x ^ 4 / 24 - x ^ 6 / 720"
  for x :: real
  unfolding below8 by (simp add: cos_coeffs)

lemma sin_bound9: "\<bar>sin x - (x - x ^ 3 / 6 + x ^ 5 / 120 - x ^ 7 / 5040)\<bar> \<le> \<bar>x\<bar> ^ 9 / 362880"
  for x :: real
proof -
  have "inverse (fact 9) * \<bar>x\<bar> ^ 9 = \<bar>x\<bar> ^ 9 / 362880"
    by (simp add: fact_numeral)
  then show ?thesis
    using Maclaurin_sin_bound [of x 9] by (simp only: sin_sum9)
qed

lemma cos_bound8: "\<bar>cos x - (1 - x ^ 2 / 2 + x ^ 4 / 24 - x ^ 6 / 720)\<bar> \<le> \<bar>x\<bar> ^ 8 / 40320"
  for x :: real
proof -
  obtain t where c: "cos x = (\<Sum>m<8. cos_coeff m * x ^ m) + (cos (t + 1 / 2 * real 8 * pi) / fact 8) * x ^ 8"
    using Maclaurin_cos_expansion [of x 8] by blast
  have "\<bar>cos x - (1 - x ^ 2 / 2 + x ^ 4 / 24 - x ^ 6 / 720)\<bar>
      = \<bar>cos (t + 1 / 2 * real 8 * pi)\<bar> * (\<bar>x\<bar> ^ 8 / 40320)"
    unfolding c cos_sum8 by (simp add: fact_numeral abs_mult power_abs)
  also have "\<dots> \<le> 1 * (\<bar>x\<bar> ^ 8 / 40320)"
    by (intro mult_right_mono) simp_all
  finally show ?thesis by simp
qed


lemma Math_sin_0: "Math_sin 0 = 0"
  by (simp add: Math_sin_def)

lemma Math_cos_0: "Math_cos 0 = 1"
  by (simp add: Math_cos_def)

lemma eps64_value: "eps64 = 5764607523034235 / 576460752303423488"
  by (simp add: eps64_def fl_eval)

lemma Math_sin_eps64:
  "Math_sin (5764607523034235 / 576460752303423488) = 5764511446722567 / 576460752303423488"
proof -
  let ?x = "5764607523034235 / 576460752303423488 :: real"
  let ?p = "?x - ?x ^ 3 / 6 + ?x ^ 5 / 120 - ?x ^ 7 / 5040"
  let ?r = "\<bar>?x\<bar> ^ 9 / 362880"
  have b: "?p - ?r \<le> sin ?x" "sin ?x \<le> ?p + ?r"
    using sin_bound9 [of ?x] by (simp_all only: abs_le_iff) linarith+
  have lo: "(real_of_int 5764511446722567 - 1 / 2) * pow2 (- 59) < ?p - ?r"
    by (simp add: pow2_def power_divide)
  have hi: "?p + ?r < (real_of_int 5764511446722567 + 1 / 2) * pow2 (- 59)"
    by (simp add: pow2_def power_divide)
  have l: "(real_of_int 5764511446722567 - 1 / 2) * pow2 (- 59) < sin ?x"
    using lo b(1) by (rule less_le_trans)
  have h: "sin ?x < (real_of_int 5764511446722567 + 1 / 2) * pow2 (- 59)"
    using b(2) hi by (rule le_less_trans)
  have "fl (sin ?x) = real_of_int 5764511446722567 * pow2 (- 59)"
    by (rule fl_near [OF _ _ _ l h]) simp_all
  then show ?thesis by (simp add: Math_sin_def pow2_def)
qed

lemma Math_cos_eps64:
  "Math_cos (5764607523034235 / 576460752303423488) = 4503374449265621 / 4503599627370496"
proof -
  let ?x = "5764607523034235 / 576460752303423488 :: real"
  let ?p = "1 - ?x ^ 2 / 2 + ?x ^ 4 / 24 - ?x ^ 6 / 720"
  let ?r = "\<bar>?x\<bar> ^ 8 / 40320"
  have b: "?p - ?r \<le> cos ?x" "cos ?x \<le> ?p + ?r"
    using cos_bound8 [of ?x] by (simp_all only: abs_le_iff) linarith+
  have lo: "(real_of_int 9006748898531242 - 1 / 2) * pow2 (- 53) < ?p - ?r"
    by (simp add: pow2_def power_divide)
  have hi: "?p + ?r < (real_of_int 9006748898531242 + 1 / 2) * pow2 (- 53)"
    by (simp add: pow2_def power_divide)
  have l: "(real_of_int 9006748898531242 - 1 / 2) * pow2 (- 53) < cos ?x"
    using lo b(1) by (rule less_le_trans)
  have h: "cos ?x < (real_of_int 9006748898531242 + 1 / 2) * pow2 (- 53)"
    using b(2) hi by (rule le_less_trans)
  have "fl (cos ?x) = real_of_int 9006748898531242 * pow2 (- 53)"
    by (rule fl_near [OF _ _ _ l h]) simp_all
  then show ?thesis by (simp add: Math_cos_def pow2_def)
qed

section \<open>update and reset in double precision\<close>

lemma update64_fields:
  "position (object (update64 s)) = position (object s)" "target (update64 s) = target s"
  "position0 (update64 s) = position0 s" "target0 (update64 s) = target0 s"
  "state (update64 s) = state s" "radius (update64 s) = radius s"
  "basisMatrix (update64 s) = basisMatrix s"
  by (simp_all add: update64_def fixUp64_def Let_def)

lemma update64_up:
  "up (object (update64 s)) =
     (if state s \<noteq> ROTATING
      then normalize64 (crossVectors64
             (normalize64 (crossVectors64
                (normalize64 (subVectors64 (target s) (position (object s)))) (up (object s))))
             (normalize64 (subVectors64 (target s) (position (object s)))))
      else up (object s))"
  by (simp add: update64_def fixUp64_def Let_def)

lemma reset64_fields:
  "position (object (reset64 s)) = position0 s" "target (reset64 s) = target0 s"
  "position0 (reset64 s) = position0 s" "target0 (reset64 s) = target0 s"
  "state (reset64 s) = state s"
  by (simp_all add: reset64_def update64_fields)

lemma reset64_up:
  "state s \<noteq> ROTATING \<Longrightarrow>
   up (object (reset64 s)) =
     normalize64 (crossVectors64
       (normalize64 (crossVectors64
          (normalize64 (subVectors64 (target0 s) (position0 s))) (up (object s))))
       (normalize64 (subVectors64 (target0 s) (position0 s))))"
  by (simp add: reset64_def update64_up)

lemma update64_ROTATING:
  "state s = ROTATING \<Longrightarrow>
     update64 s = s\<lparr>trace := trace s @ [LookAt (position (object s)) (target s) (up (object s)), Change]\<rparr>"
  by (simp add: update64_def Let_def)

text \<open>
  The camera at \<open>(1, 3, 3)\<close>: the view vector, and the side and up vectors that the first
  three calls of \<open>fixUp64\<close> compute, each from the up vector of the call before.
\<close>

lemma sqrt_askew_view:
  "Math_sqrt 19 = 4907683914468857 / 1125899906842624"
  using fl_sqrt [of "- 50" 4907683914468857 "19"]
  by (simp add: Math_sqrt_def pow2_def power2_eq_square)

lemma askew_view:
  "normalize64
     (subVectors64 (Vector3 0 0 0) (Vector3 1 3 3))
   = Vector3 (- (4132786454289563 / 18014398509481984))
             (- (774897460179293 / 1125899906842624))
             (- (774897460179293 / 1125899906842624))"
  by (simp add: normalize64_def divideScalar64_def multiplyScalar64_def length64_def
      crossVectors64_def subVectors64_def sqrt_askew_view fl_eval)

lemma sqrt_askew_side1:
  "Math_sqrt (4740631186705783 / 9007199254740992) = 6534509139323185 / 9007199254740992"
  using fl_sqrt [of "- 53" 6534509139323185 "4740631186705783 / 9007199254740992"]
  by (simp add: Math_sqrt_def pow2_def power2_eq_square)

lemma askew_side1:
  "normalize64
     (crossVectors64
       (Vector3 (- (4132786454289563 / 18014398509481984))
                (- (774897460179293 / 1125899906842624))
                (- (774897460179293 / 1125899906842624)))
       (Vector3 0 1 0))
   = Vector3 (8544979495185815 / 9007199254740992) 0 (- (356040812299409 / 1125899906842624))"
  by (simp add: normalize64_def divideScalar64_def multiplyScalar64_def length64_def
      crossVectors64_def subVectors64_def sqrt_askew_side1 fl_eval)

lemma sqrt_askew_up1:
  "Math_sqrt (4503599627370495 / 4503599627370496) = 9007199254740991 / 9007199254740992"
  using fl_sqrt [of "- 53" 9007199254740991 "4503599627370495 / 4503599627370496"]
  by (simp add: Math_sqrt_def pow2_def power2_eq_square)

lemma askew_up1:
  "normalize64
     (crossVectors64
       (Vector3 (8544979495185815 / 9007199254740992) 0 (- (356040812299409 / 1125899906842624)))
       (Vector3 (- (4132786454289563 / 18014398509481984))
                (- (774897460179293 / 1125899906842624))
                (- (774897460179293 / 1125899906842624))))
   = Vector3 (- (3920705483593913 / 18014398509481984))
             (6534509139323187 / 9007199254740992)
             (- (1470264556347717 / 2251799813685248))"
  by (simp add: normalize64_def divideScalar64_def multiplyScalar64_def length64_def
      crossVectors64_def subVectors64_def sqrt_askew_up1 fl_eval)

lemma sqrt_askew_side2:
  "Math_sqrt (9007199254740989 / 9007199254740992) = 4503599627370495 / 4503599627370496"
  using fl_sqrt [of "- 53" 9007199254740990 "9007199254740989 / 9007199254740992"]
  by (simp add: Math_sqrt_def pow2_def power2_eq_square)

lemma askew_side2:
  "normalize64
     (crossVectors64
       (Vector3 (- (4132786454289563 / 18014398509481984))
                (- (774897460179293 / 1125899906842624))
                (- (774897460179293 / 1125899906842624)))
       (Vector3 (- (3920705483593913 / 18014398509481984))
                (6534509139323187 / 9007199254740992)
                (- (1470264556347717 / 2251799813685248))))
   = Vector3 (8544979495185815 / 9007199254740992)
             (4503599627370497 / 162259276829213363391578010288128)
             (- (356040812299409 / 1125899906842624))"
  by (simp add: normalize64_def divideScalar64_def multiplyScalar64_def length64_def
      crossVectors64_def subVectors64_def sqrt_askew_side2 fl_eval)

lemma sqrt_askew_up2:
  "Math_sqrt (4503599627370495 / 4503599627370496) = 9007199254740991 / 9007199254740992"
  using fl_sqrt [of "- 53" 9007199254740991 "4503599627370495 / 4503599627370496"]
  by (simp add: Math_sqrt_def pow2_def power2_eq_square)

lemma askew_up2:
  "normalize64
     (crossVectors64
       (Vector3 (8544979495185815 / 9007199254740992)
                (4503599627370497 / 162259276829213363391578010288128)
                (- (356040812299409 / 1125899906842624)))
       (Vector3 (- (4132786454289563 / 18014398509481984))
                (- (774897460179293 / 1125899906842624))
                (- (774897460179293 / 1125899906842624))))
   = Vector3 (- (7841410967187827 / 36028797018963968))
             (6534509139323187 / 9007199254740992)
             (- (1470264556347717 / 2251799813685248))"
  by (simp add: normalize64_def divideScalar64_def multiplyScalar64_def length64_def
      crossVectors64_def subVectors64_def sqrt_askew_up2 fl_eval)

lemma sqrt_askew_side3:
  "Math_sqrt (4503599627370495 / 4503599627370496) = 9007199254740991 / 9007199254740992"
  using fl_sqrt [of "- 53" 9007199254740991 "4503599627370495 / 4503599627370496"]
  by (simp add: Math_sqrt_def pow2_def power2_eq_square)

lemma askew_side3:
  "normalize64
     (crossVectors64
       (Vector3 (- (4132786454289563 / 18014398509481984))
                (- (774897460179293 / 1125899906842624))
                (- (774897460179293 / 1125899906842624)))
       (Vector3 (- (7841410967187827 / 36028797018963968))
                (6534509139323187 / 9007199254740992)
                (- (1470264556347717 / 2251799813685248))))
   = Vector3 (8544979495185815 / 9007199254740992)
             (4503599627370497 / 81129638414606681695789005144064)
             (- (5696652996790545 / 18014398509481984))"
  by (simp add: normalize64_def divideScalar64_def multiplyScalar64_def length64_def
      crossVectors64_def subVectors64_def sqrt_askew_side3 fl_eval)

lemma sqrt_askew_up3:
  "Math_sqrt (4503599627370495 / 4503599627370496) = 9007199254740991 / 9007199254740992"
  using fl_sqrt [of "- 53" 9007199254740991 "4503599627370495 / 4503599627370496"]
  by (simp add: Math_sqrt_def pow2_def power2_eq_square)

lemma askew_up3:
  "normalize64
     (crossVectors64
       (Vector3 (8544979495185815 / 9007199254740992)
                (4503599627370497 / 81129638414606681695789005144064)
                (- (5696652996790545 / 18014398509481984)))
       (Vector3 (- (4132786454289563 / 18014398509481984))
                (- (774897460179293 / 1125899906842624))
                (- (774897460179293 / 1125899906842624))))
   = Vector3 (- (7841410967187829 / 36028797018963968))
             (6534509139323187 / 9007199254740992)
             (- (1470264556347717 / 2251799813685248))"
  by (simp add: normalize64_def divideScalar64_def multiplyScalar64_def length64_def
      crossVectors64_def subVectors64_def sqrt_askew_up3 fl_eval)

lemma exampleAskew_fields:
  "position0 exampleAskew = Vector3 1 3 3" "target0 exampleAskew = Vector3 0 0 0"
  "state exampleAskew = INACTIVE"
  by (simp_all add: exampleAskew_def constructor64_def update64_fields askewCamera_def)

lemma exampleAskew_up:
  "up (object exampleAskew)
   = Vector3 (- (3920705483593913 / 18014398509481984))
             (6534509139323187 / 9007199254740992)
             (- (1470264556347717 / 2251799813685248))"
  by (simp add: exampleAskew_def constructor64_def update64_up askewCamera_def
      askew_view askew_side1 askew_up1)

lemma reset64_askew:
  "up (object (reset64 exampleAskew))
   = Vector3 (- (7841410967187827 / 36028797018963968))
             (6534509139323187 / 9007199254740992)
             (- (1470264556347717 / 2251799813685248))"
  by (simp add: reset64_up exampleAskew_fields exampleAskew_up askew_view askew_side2 askew_up2)

lemma reset64_reset64_askew:
  "up (object (reset64 (reset64 exampleAskew)))
   = Vector3 (- (7841410967187829 / 36028797018963968))
             (6534509139323187 / 9007199254740992)
             (- (1470264556347717 / 2251799813685248))"
  by (simp add: reset64_up reset64_fields exampleAskew_fields reset64_askew askew_view
      askew_side3 askew_up3)

section \<open>A rotate move in double precision\<close>

text \<open>
  The camera at \<open>(0, 0, 3)\<close>: the construction, the frame that a move of the primary
  button from the origin of the page to \<open>(0, 60)\<close> captures, which is the identity, and
  the position the move computes. The inclination of the move is below \<open>eps64\<close> and is
  clamped to it.
\<close>

lemma Math_sqrt_1: "Math_sqrt 1 = 1"
  by (simp add: Math_sqrt_def)

lemma Math_sqrt_9: "Math_sqrt 9 = 3"
  using fl_sqrt [of "- 51" 6755399441055744 9]
  by (simp add: Math_sqrt_def pow2_def power2_eq_square)

lemma near_view: "normalize64 (subVectors64 (Vector3 0 0 0) (Vector3 0 0 3)) = Vector3 0 0 (- 1)"
  by (simp add: normalize64_def divideScalar64_def multiplyScalar64_def length64_def
      subVectors64_def Math_sqrt_9 fl_eval)

lemma near_side: "normalize64 (crossVectors64 (Vector3 0 0 (- 1)) (Vector3 0 1 0)) = Vector3 1 0 0"
  by (simp add: normalize64_def divideScalar64_def multiplyScalar64_def length64_def
      crossVectors64_def Math_sqrt_1 fl_eval)

lemma near_up: "normalize64 (crossVectors64 (Vector3 1 0 0) (Vector3 0 0 (- 1))) = Vector3 0 1 0"
  by (simp add: normalize64_def divideScalar64_def multiplyScalar64_def length64_def
      crossVectors64_def Math_sqrt_1 fl_eval)

lemma exampleNear_object: "object exampleNear = nearCamera"
  by (simp add: exampleNear_def constructor64_def update64_def fixUp64_def Let_def nearCamera_def
      near_view near_side near_up)

lemma exampleNear_fields:
  "target exampleNear = Vector3 0 0 0" "state exampleNear = INACTIVE"
  "clientWidth exampleNear = 200" "clientHeight exampleNear = 200"
  "rotateSpeed exampleNear = 1"
  by (simp_all add: exampleNear_def constructor64_def update64_def fixUp64_def Let_def)

lemma identity64:
  "premultiply64 (makeBasis (Vector3 1 0 0) (Vector3 0 1 0) (Vector3 0 0 1)) (makeTranslation 0 0 0)
     = makeTranslation 0 0 0"
  by (simp add: premultiply64_def multiplyMatrices64_def makeBasis_def makeTranslation_def
      sum4_64_def)

lemma near_zAxis: "divideScalar64 (Vector3 0 0 3) 3 = Vector3 0 0 1"
  by (simp add: divideScalar64_def multiplyScalar64_def fl_eval)

lemma near_length: "length64 (Vector3 0 0 3) = 3"
  by (simp add: length64_def Math_sqrt_9 fl_eval)

lemma near_xAxis: "normalize64 (crossVectors64 (Vector3 0 1 0) (Vector3 0 0 1)) = Vector3 1 0 0"
  by (simp add: normalize64_def divideScalar64_def multiplyScalar64_def length64_def
      crossVectors64_def Math_sqrt_1 fl_eval)

lemma near_capture:
  assumes "object s = nearCamera" "target s = Vector3 0 0 0"
  shows "captureBasis64 s = Inr (s\<lparr>radius := 3, basisMatrix := makeTranslation 0 0 0\<rparr>)"
  using assms
  by (simp add: captureBasis64_def nearCamera_def subVectors64_def near_length near_zAxis
      near_xAxis identity64 fl_eval)

lemma near_angles:
  assumes "prev s = Vector2 0 0" "rotateSpeed s = 1" "clientWidth s = 200" "clientHeight s = 200"
  shows "rotatePhi64 (Vector2 0 60) s = 0"
    and "rotateTheta64 (Vector2 0 60) s = 5764607523034235 / 576460752303423488"
  using assms
  by (simp_all add: rotatePhi64_def rotateTheta64_def rotateDelta64_def multiplyScalar2_64_def
      subVectors2_64_def Math_PI_def eps64_value Let_def fl_eval)

lemma near_pos:
  assumes "prev s = Vector2 0 0" "rotateSpeed s = 1" "clientWidth s = 200" "clientHeight s = 200"
    and "radius s = 3"
  shows "rotatePos64 (Vector2 0 60) s =
    Vector3 0 (105547838654663 / 35184372088832) (4323383585041925 / 144115188075855872)"
  using assms(5)
  by (simp add: rotatePos64_def near_angles [OF assms(1-4)] Math_sin_eps64 Math_cos_eps64
      Math_sin_0 Math_cos_0 Let_def fl_eval)

lemma near_apply:
  "applyMatrix4_64 (Vector3 0 (105547838654663 / 35184372088832) (4323383585041925 / 144115188075855872))
     (makeTranslation 0 0 0)
   = Inr (Vector3 0 (105547838654663 / 35184372088832) (4323383585041925 / 144115188075855872))"
  by (simp add: applyMatrix4_64_def makeTranslation_def sum4_64_def Let_def fl_eval)

lemma far_from_press64:
  "ClickThreshold < manhattanDistanceTo64 (Vector2 0 60) (pointer pressAtOrigin)"
  by (simp add: manhattanDistanceTo64_def pointer_def pressAtOrigin_def ClickThreshold_def fl_eval)

lemma rotate_near:
  "\<exists>s'. rotateCamera64 0 60 (onMouseDown pressAtOrigin exampleNear) = Inr s' \<and>
     state s' = ROTATING \<and> radius s' = 3 \<and> target s' = Vector3 0 0 0 \<and>
     basisMatrix s' = makeTranslation 0 0 0 \<and>
     position (object s') = Vector3 0 (105547838654663 / 35184372088832) (4323383585041925 / 144115188075855872)"
proof -
  let ?s0 = "onMouseDown pressAtOrigin exampleNear"
  let ?s1 = "?s0\<lparr>state := ROTATING\<rparr>"
  let ?s2 = "?s1\<lparr>radius := 3, basisMatrix := makeTranslation 0 0 0\<rparr>"
  let ?p = "Vector3 0 (105547838654663 / 35184372088832) (4323383585041925 / 144115188075855872)"
  let ?s3 = "?s2\<lparr>object := (object ?s2)\<lparr>position := ?p\<rparr>\<rparr>"
  have cap: "captureBasis64 ?s1 = Inr ?s2"
    by (rule near_capture) (simp_all add: exampleNear_object exampleNear_fields)
  have pos: "rotatePos64 (Vector2 0 60) ?s2 = ?p"
    by (rule near_pos)
      (simp_all add: pointer_def pressAtOrigin_def exampleNear_fields onMouseDown_def)
  have step: "rotateStep64 (Vector2 0 60) ?s2 = Inr (update64 ?s3)"
    by (simp add: rotateStep64_def pos near_apply exampleNear_fields)
  have run: "rotateCamera64 0 60 ?s0 = Inr (update64 ?s3)"
    by (simp add: rotateCamera64_def far_from_press64 cap step)
  show ?thesis
    unfolding run by (simp add: update64_fields exampleNear_fields)
qed

lemma near_moved_sqrt:
  "Math_sqrt (5066549580791809 / 562949953421312) = 6755399441055745 / 2251799813685248"
  using fl_sqrt [of "- 51" 6755399441055745 "5066549580791809 / 562949953421312"]
  by (simp add: Math_sqrt_def pow2_def power2_eq_square)

lemma near_moved_length64:
  "length64 (subVectors64 (Vector3 0 (105547838654663 / 35184372088832) (4323383585041925 / 144115188075855872))
                          (Vector3 0 0 0))
   = 6755399441055745 / 2251799813685248"
  by (simp add: length64_def subVectors64_def near_moved_sqrt fl_eval)

lemma near_moved_length3:
  "length3 (subVectors (Vector3 0 (105547838654663 / 35184372088832) (4323383585041925 / 144115188075855872))
                       (Vector3 0 0 0)) \<noteq> 3"
proof
  let ?y = "105547838654663 / 35184372088832 :: real"
  let ?z = "4323383585041925 / 144115188075855872 :: real"
  assume "length3 (subVectors (Vector3 0 ?y ?z) (Vector3 0 0 0)) = 3"
  then have "(sqrt (?y * ?y + ?z * ?z))\<^sup>2 = 3\<^sup>2"
    by (simp add: length3_def subVectors_def)
  then show False by simp
qed

text \<open>
  The distance differs from 3 also if \<^verbatim>\<open>Math.sin(0.01)\<close> or \<^verbatim>\<open>Math.cos(0.01)\<close>
  is a neighbour of the nearest double: the vector is the one of lines 289 to 292 for the
  radius 3, the sine \<open>st\<close> and the cosine \<open>ct\<close> of the inclination, and the azimuth 0.
\<close>

lemma near_other_sqrt:
  "Math_sqrt (5066549580791807 / 562949953421312) = 6755399441055743 / 2251799813685248"
  using fl_sqrt [of "- 51" 6755399441055743 "5066549580791807 / 562949953421312"]
  by (simp add: Math_sqrt_def pow2_def power2_eq_square)

lemma near_distance_1_1:
  "length64 (Vector3 (fl (fl (3 * (2882255723361283 / 288230376151711744)) * 0))
                     (fl (3 * (9006748898531241 / 9007199254740992)))
                     (fl (fl (3 * (2882255723361283 / 288230376151711744)) * 1))) \<noteq> 3"
  by (simp add: length64_def near_other_sqrt fl_eval)

lemma near_distance_1_2:
  "length64 (Vector3 (fl (fl (3 * (2882255723361283 / 288230376151711744)) * 0))
                     (fl (3 * (4503374449265621 / 4503599627370496)))
                     (fl (fl (3 * (2882255723361283 / 288230376151711744)) * 1))) \<noteq> 3"
  by (simp add: length64_def near_moved_sqrt fl_eval)

lemma near_distance_1_3:
  "length64 (Vector3 (fl (fl (3 * (2882255723361283 / 288230376151711744)) * 0))
                     (fl (3 * (9006748898531243 / 9007199254740992)))
                     (fl (fl (3 * (2882255723361283 / 288230376151711744)) * 1))) \<noteq> 3"
  by (simp add: length64_def near_moved_sqrt fl_eval)

lemma near_distance_2_1:
  "length64 (Vector3 (fl (fl (3 * (5764511446722567 / 576460752303423488)) * 0))
                     (fl (3 * (9006748898531241 / 9007199254740992)))
                     (fl (fl (3 * (5764511446722567 / 576460752303423488)) * 1))) \<noteq> 3"
  by (simp add: length64_def near_other_sqrt fl_eval)

lemma near_distance_2_2:
  "length64 (Vector3 (fl (fl (3 * (5764511446722567 / 576460752303423488)) * 0))
                     (fl (3 * (4503374449265621 / 4503599627370496)))
                     (fl (fl (3 * (5764511446722567 / 576460752303423488)) * 1))) \<noteq> 3"
  by (simp add: length64_def near_moved_sqrt fl_eval)

lemma near_distance_2_3:
  "length64 (Vector3 (fl (fl (3 * (5764511446722567 / 576460752303423488)) * 0))
                     (fl (3 * (9006748898531243 / 9007199254740992)))
                     (fl (fl (3 * (5764511446722567 / 576460752303423488)) * 1))) \<noteq> 3"
  by (simp add: length64_def near_moved_sqrt fl_eval)

lemma near_distance_3_1:
  "length64 (Vector3 (fl (fl (3 * (720563930840321 / 72057594037927936)) * 0))
                     (fl (3 * (9006748898531241 / 9007199254740992)))
                     (fl (fl (3 * (720563930840321 / 72057594037927936)) * 1))) \<noteq> 3"
  by (simp add: length64_def near_other_sqrt fl_eval)

lemma near_distance_3_2:
  "length64 (Vector3 (fl (fl (3 * (720563930840321 / 72057594037927936)) * 0))
                     (fl (3 * (4503374449265621 / 4503599627370496)))
                     (fl (fl (3 * (720563930840321 / 72057594037927936)) * 1))) \<noteq> 3"
  by (simp add: length64_def near_moved_sqrt fl_eval)

lemma near_distance_3_3:
  "length64 (Vector3 (fl (fl (3 * (720563930840321 / 72057594037927936)) * 0))
                     (fl (3 * (9006748898531243 / 9007199254740992)))
                     (fl (fl (3 * (720563930840321 / 72057594037927936)) * 1))) \<noteq> 3"
  by (simp add: length64_def near_moved_sqrt fl_eval)

lemma near_distance_any_sin_cos:
  "\<forall>st \<in> {2882255723361283 / 288230376151711744,
           5764511446722567 / 576460752303423488,
           720563930840321 / 72057594037927936}.
   \<forall>ct \<in> {9006748898531241 / 9007199254740992,
           4503374449265621 / 4503599627370496,
           9006748898531243 / 9007199254740992}.
     length64 (Vector3 (fl (fl (3 * st) * 0)) (fl (3 * ct)) (fl (fl (3 * st) * 1))) \<noteq> 3"
  using near_distance_1_1 near_distance_1_2 near_distance_1_3
    near_distance_2_1 near_distance_2_2 near_distance_2_3
    near_distance_3_1 near_distance_3_2 near_distance_3_3
  by blast

section \<open>The new position and the up axis of the frame\<close>

text \<open>
  For a move processed as a rotation, whatever the pointer position, the inclination
  \<open>rotateTheta\<close> lies in \<open>[eps, pi - eps]\<close>. If the up vector \<open>u\<close> at capture is not
  parallel to the view axis \<open>p - t\<close>, the new camera position, seen from the target, is
  not collinear with \<open>u\<close>: their cross product is not the zero vector.
\<close>

lemma rotateCamera_avoids_poles:
  assumes mv: "state s = ROTATING \<and> capturedAt p t u s \<and> target s = t \<or>
               state s = INDETERMINATE \<and> ClickThreshold < manhattanDistanceTo (Vector2 x y) (prev s) \<and>
                 p = position (object s) \<and> t = target s \<and> u = up (object s)"
    and nz: "crossVectors u (subVectors p t) \<noteq> Vector3 0 0 0"
    and vp: "clientWidth s \<noteq> 0" "clientHeight s \<noteq> 0"
  shows "eps \<le> rotateTheta (Vector2 x y) s \<and> rotateTheta (Vector2 x y) s \<le> pi - eps \<and>
         (\<exists>s'. rotateCamera x y s = Inr s' \<and>
               crossVectors (subVectors (position (object s')) (target s')) u \<noteq> Vector3 0 0 0)"
proof -
  have pt: "p \<noteq> t" using nz by (rule cross_nonzero_distinct)
  obtain s1 where run: "rotateCamera x y s = rotateStep (Vector2 x y) s1"
    and st: "state s1 = ROTATING" and cap: "capturedAt p t u s1" and tg: "target s1 = t"
    and vp1: "clientWidth s1 \<noteq> 0" "clientHeight s1 \<noteq> 0"
    using mv
  proof
    assume "state s = ROTATING \<and> capturedAt p t u s \<and> target s = t"
    then show ?thesis using that [of s] vp by (simp add: rotateCamera_ROTATING)
  next
    assume a: "state s = INDETERMINATE \<and> ClickThreshold < manhattanDistanceTo (Vector2 x y) (prev s) \<and>
                 p = position (object s) \<and> t = target s \<and> u = up (object s)"
    then show ?thesis
      using rotateCamera_promote [of s x y] pt vp that by auto
  qed
  obtain pos where ap: "applyMatrix4 (rotatePos (Vector2 x y) s1) (basisMatrix s1) = Inr pos"
    and nc: "crossVectors (subVectors pos t) u \<noteq> Vector3 0 0 0"
    using rotatePos_not_collinear [OF cap nz, where cur = "Vector2 x y"] by blast
  obtain s' where r: "rotateStep (Vector2 x y) s1 = Inr s'" and p': "position (object s') = pos"
    using rotateStep_position [OF ap vp1] by blast
  note fr = rotateStep_frame [OF r st]
  have "crossVectors (subVectors (position (object s')) (target s')) u \<noteq> Vector3 0 0 0"
    using nc p' fr(4) tg by simp
  then show ?thesis
    using run r rotateTheta_bounds [of "Vector2 x y" s] by auto
qed

lemma rotateCamera_avoids_poles_example:
  "eps \<le> rotateTheta (Vector2 50 3000) (onMouseDown pressAtOrigin example) \<and>
   rotateTheta (Vector2 50 3000) (onMouseDown pressAtOrigin example) \<le> pi - eps \<and>
   (\<exists>s'. rotateCamera 50 3000 (onMouseDown pressAtOrigin example) = Inr s' \<and>
         crossVectors (subVectors (position (object s')) (target s')) (Vector3 0 1 0) \<noteq> Vector3 0 0 0)"
  by (rule rotateCamera_avoids_poles [of _ "Vector3 0 0 5" "Vector3 0 0 0"])
    (simp_all add: far_from_press example_object example_fields exampleCamera_def
      subVectors_def crossVectors_def)

text \<open>
  If the up vector at capture is parallel to the view axis, or the zero vector, the
  \<open>xAxis\<close> of the frame is the zero vector, and every position that a rotate move
  computes lies on the line through the target and the camera position at capture.
\<close>

lemma cross_parallel:
  assumes "crossVectors u w = Vector3 0 0 0"
  shows "crossVectors (addVectors (multiplyScalar u b) (multiplyScalar (divideScalar w k) c)) w
           = Vector3 0 0 0"
proof -
  obtain u1 u2 u3 where u: "u = Vector3 u1 u2 u3" by (cases u)
  obtain w1 w2 w3 where w: "w = Vector3 w1 w2 w3" by (cases w)
  have e: "u2 * w3 = u3 * w2" "u3 * w1 = u1 * w3" "u1 * w2 = u2 * w1"
    using assms by (simp_all add: u w crossVectors_def)
  have "b * u2 * w3 = b * u3 * w2" "b * u3 * w1 = b * u1 * w3" "b * u1 * w2 = b * u2 * w1"
    using e by simp_all
  then show ?thesis
    by (simp add: u w crossVectors_def addVectors_def multiplyScalar_def divideScalar_def
        algebra_simps)
qed

lemma rotatePos_collinear:
  assumes cap: "capturedAt p t u s"
    and par: "crossVectors u (subVectors p t) = Vector3 0 0 0"
  shows "\<exists>pos. applyMatrix4 (rotatePos cur s) (basisMatrix s) = Inr pos \<and>
               crossVectors (subVectors pos t) (subVectors p t) = Vector3 0 0 0"
proof -
  define w where "w = subVectors p t"
  define zA where "zA = divideScalar w (length3 w)"
  define v where "v = rotatePos cur s"
  have "crossVectors u zA = Vector3 0 0 0"
    using par by (cases u; cases w)
      (simp add: zA_def w_def [symmetric] crossVectors_def divideScalar_def multiplyScalar_def
         algebra_simps)
  then have xA: "normalize3 (crossVectors u zA) = Vector3 0 0 0"
    by (simp add: normalize3_def divideScalar_def multiplyScalar_def length3_def)
  have bm: "basisMatrix s =
      premultiply (makeBasis (Vector3 0 0 0) u zA) (makeTranslation (vx t) (vy t) (vz t))"
    using cap by (simp add: capturedAt_def Let_def w_def zA_def xA [unfolded zA_def w_def])
  define q where "q = addVectors (multiplyScalar u (vy v)) (multiplyScalar zA (vz v))"
  have "addVectors (addVectors (multiplyScalar (Vector3 0 0 0) (vx v)) (multiplyScalar u (vy v)))
          (multiplyScalar zA (vz v)) = q"
    by (cases u; cases zA) (simp add: q_def addVectors_def multiplyScalar_def)
  then have ap: "applyMatrix4 v (basisMatrix s) = Inr (addVectors t q)"
    by (simp add: bm applyMatrix4_basis)
  have "crossVectors q w = Vector3 0 0 0"
    unfolding q_def zA_def using par [folded w_def] by (rule cross_parallel)
  then show ?thesis using ap by (simp add: v_def w_def)
qed

lemma rotateCamera_collinear:
  assumes mv: "state s = ROTATING \<and> capturedAt p t u s \<and> target s = t \<or>
               state s = INDETERMINATE \<and> ClickThreshold < manhattanDistanceTo (Vector2 x y) (prev s) \<and>
                 p = position (object s) \<and> t = target s \<and> u = up (object s)"
    and pt: "p \<noteq> t"
    and par: "crossVectors u (subVectors p t) = Vector3 0 0 0"
    and vp: "clientWidth s \<noteq> 0" "clientHeight s \<noteq> 0"
  shows "\<exists>s'. rotateCamera x y s = Inr s' \<and>
               crossVectors (subVectors (position (object s')) (target s')) (subVectors p t)
                 = Vector3 0 0 0"
proof -
  obtain s1 where run: "rotateCamera x y s = rotateStep (Vector2 x y) s1"
    and cap: "capturedAt p t u s1" and tg: "target s1 = t"
    and vp1: "clientWidth s1 \<noteq> 0" "clientHeight s1 \<noteq> 0"
    using mv
  proof
    assume "state s = ROTATING \<and> capturedAt p t u s \<and> target s = t"
    then show ?thesis using that [of s] vp by (simp add: rotateCamera_ROTATING)
  next
    assume a: "state s = INDETERMINATE \<and> ClickThreshold < manhattanDistanceTo (Vector2 x y) (prev s) \<and>
                 p = position (object s) \<and> t = target s \<and> u = up (object s)"
    then show ?thesis
      using rotateCamera_promote [of s x y] pt vp that by auto
  qed
  obtain pos where ap: "applyMatrix4 (rotatePos (Vector2 x y) s1) (basisMatrix s1) = Inr pos"
    and c: "crossVectors (subVectors pos t) (subVectors p t) = Vector3 0 0 0"
    using rotatePos_collinear [OF cap par, where cur = "Vector2 x y"] by blast
  obtain s' where r: "rotateStep (Vector2 x y) s1 = Inr s'" and p': "position (object s') = pos"
    and t': "target s' = target s1"
    using rotateStep_position [OF ap vp1] by blast
  show ?thesis using run r c p' t' tg by simp
qed

lemma topDown_object: "object topDown = topDownCamera\<lparr>up := Vector3 0 0 0\<rparr>"
  by (simp add: topDown_def constructor_def update_def fixUp_def Let_def topDownCamera_def
      normalize3_def divideScalar_def multiplyScalar_def subVectors_def crossVectors_def
      length3_def)

lemma topDown_fields:
  "target topDown = Vector3 0 0 0" "state topDown = INACTIVE"
  "clientWidth topDown = 200" "clientHeight topDown = 200"
  "rotateSpeed topDown = 1" "usePanModAlt topDown" "\<not> usePanModShift topDown"
  "\<not> usePanModCtrl topDown" "\<not> usePanModMeta topDown"
  by (simp_all add: topDown_def constructor_def update_def fixUp_def Let_def)

lemma topDown_angles:
  assumes "prev s = Vector2 0 0" "rotateSpeed s = 1" "clientWidth s = 200" "clientHeight s = 200"
  shows "rotatePhi (Vector2 10 0) s = - (pi / 10)" "rotateTheta (Vector2 10 0) s = pi / 2"
  using assms pi_ge_two
  by (simp_all add: rotatePhi_def rotateTheta_def rotateDelta_def multiplyScalar2_def
      subVectors2_def eps_def Let_def max_def min_def)

lemma topDown_drag:
  "handleEvents [MouseDown pressAtOrigin, MouseMove dragRight] topDown =
     Inr (update ((onMouseDown pressAtOrigin topDown)
       \<lparr>state := ROTATING, radius := 5,
         basisMatrix := premultiply
           (makeBasis (Vector3 0 0 0) (Vector3 0 0 0) (Vector3 0 1 0)) (makeTranslation 0 0 0),
         object := (object topDown)\<lparr>position := Vector3 0 (5 * cos (pi / 10)) 0\<rparr>\<rparr>))"
proof -
  let ?s0 = "onMouseDown pressAtOrigin topDown"
  let ?m = "premultiply
           (makeBasis (Vector3 0 0 0) (Vector3 0 0 0) (Vector3 0 1 0)) (makeTranslation 0 0 0)"
  let ?s2 = "?s0\<lparr>state := ROTATING, radius := 5, basisMatrix := ?m\<rparr>"
  have far: "ClickThreshold < manhattanDistanceTo (Vector2 10 0) (pointer pressAtOrigin)"
    by (simp add: pointer_def pressAtOrigin_def manhattanDistanceTo_def ClickThreshold_def)
  have cap: "captureBasis (?s0\<lparr>state := ROTATING\<rparr>) = Inr ?s2"
    by (simp add: captureBasis_def topDown_object topDown_fields topDownCamera_def Let_def
        subVectors_def length3_def divideScalar_def multiplyScalar_def crossVectors_def
        normalize3_def)
  have ph: "rotatePhi (Vector2 10 0) ?s2 = - (pi / 10)"
    by (rule topDown_angles)
      (simp_all add: pointer_def pressAtOrigin_def topDown_fields onMouseDown_def)
  have th: "rotateTheta (Vector2 10 0) ?s2 = pi / 2"
    by (rule topDown_angles)
      (simp_all add: pointer_def pressAtOrigin_def topDown_fields onMouseDown_def)
  have pos: "rotatePos (Vector2 10 0) ?s2 = Vector3 (- (5 * sin (pi / 10))) 0 (5 * cos (pi / 10))"
    by (simp add: rotatePos_def Let_def ph th)
  have ap: "applyMatrix4 (Vector3 (- (5 * sin (pi / 10))) 0 (5 * cos (pi / 10))) ?m
      = Inr (Vector3 0 (5 * cos (pi / 10)) 0)"
    by (simp add: applyMatrix4_def premultiply_def multiplyMatrices_def makeBasis_def
        makeTranslation_def)
  have step: "rotateStep (Vector2 10 0) ?s2 =
      Inr (update (?s2\<lparr>object := (object ?s2)\<lparr>position := Vector3 0 (5 * cos (pi / 10)) 0\<rparr>\<rparr>))"
    by (simp add: rotateStep_def pos ap topDown_fields)
  have "rotateCamera 10 0 ?s0 =
      Inr (update (?s2\<lparr>object := (object ?s2)\<lparr>position := Vector3 0 (5 * cos (pi / 10)) 0\<rparr>\<rparr>))"
    using far by (simp add: rotateCamera_def cap step)
  then show ?thesis
    by (simp add: onMouseMove_def eventHasPanModifier_def dragRight_def pressAtOrigin_def
        topDown_fields)
qed

section \<open>C1: the up vector after a rotation\<close>

text \<open>
  C1. A release received in state \<open>ROTATING\<close> calls \<open>fixUp\<close> once, which writes
  \<open>normalize3 (crossVectors side view)\<close> with \<open>view\<close> the normalized vector from the
  position to the target and \<open>side = normalize3 (crossVectors view up)\<close>. In exact
  arithmetic the up vector of the camera is then orthogonal to that view vector: their
  dot product is 0.
\<close>

theorem onMouseUp_rotating_up_orthogonal:
  assumes "state s = ROTATING"
  shows "dot (up (object (onMouseUp s)))
             (normalize3 (subVectors (target (onMouseUp s)) (position (object (onMouseUp s))))) = 0 \<and>
         up (object (onMouseUp s)) =
           stabilized (normalize3 (subVectors (target s) (position (object s)))) (up (object s)) \<and>
         fixUpCalls (onMouseUp s) = fixUpCalls s + 1"
  using assms
  by (simp add: onMouseUp_def fixUp_def Let_def dot_normalize3_left stabilized_def
      fixUpCalls_def isFixUp_def)

theorem onMouseUp_rotating_up_orthogonal_witness:
  "state exampleTilted = ROTATING \<and>
   up (object exampleTilted) = Vector3 0 1 1 \<and>
   up (object (onMouseUp exampleTilted)) = Vector3 0 1 0 \<and>
   dot (up (object (onMouseUp exampleTilted)))
       (normalize3 (subVectors (target (onMouseUp exampleTilted))
                               (position (object (onMouseUp exampleTilted))))) = 0"
proof -
  have st: "state exampleTilted = ROTATING" and u: "up (object exampleTilted) = Vector3 0 1 1"
    by (simp_all add: exampleTilted_def)
  have "up (object (onMouseUp exampleTilted)) = Vector3 0 1 0"
    by (simp add: exampleTilted_def onMouseUp_def fixUp_def Let_def example_object
        example_fields exampleCamera_def normalize3_def divideScalar_def multiplyScalar_def
        subVectors_def crossVectors_def)
  moreover have "dot (up (object (onMouseUp exampleTilted)))
       (normalize3 (subVectors (target (onMouseUp exampleTilted))
                               (position (object (onMouseUp exampleTilted))))) = 0"
    using onMouseUp_rotating_up_orthogonal [OF st] by (rule conjunct1)
  ultimately show ?thesis using st u by (intro conjI)
qed

section \<open>C2: the distance limits\<close>

text \<open>
  What the test of lines 343 and 344 achieves. A dolly step that fails it changes nothing.
  A step that passes it from a distance other than 0 ends within the limits when
  \<open>minDistance\<close> is not negative. With a positive \<open>minDistance\<close> the distance 0 is
  outside the limits, so a sequence of wheel events that starts within the limits never
  divides by zero and stays within them.
\<close>

lemma dolly_rejected_unchanged:
  assumes "state s = DOLLYING" "clientHeight s \<noteq> 0"
    "\<not> withinLimits (distToTarget s + dollyDelta y s) s"
  shows "dolly x y s = Inr s"
  using assms by (simp add: dolly_DOLLYING dollyStep_rejected)

lemma dolly_applied_within:
  assumes "state s = DOLLYING" "clientHeight s \<noteq> 0" "distToTarget s \<noteq> 0"
    "0 \<le> minDistance s" "withinLimits (distToTarget s + dollyDelta y s) s"
  shows "\<exists>s'. dolly x y s = Inr s' \<and> distToTarget s' = distToTarget s + dollyDelta y s \<and>
           withinLimits (distToTarget s') s"
proof -
  have "0 \<le> distToTarget s + dollyDelta y s"
    using assms(4,5) by (simp add: withinLimits_def)
  then show ?thesis
    using dollyStep_applied [of s "Vector2 x y"] assms by (auto simp: dolly_DOLLYING)
qed

lemma update_config [simp]:
  "minDistance (update s) = minDistance s" "maxDistance (update s) = maxDistance s"
  "clientHeight (update s) = clientHeight s" "zoomSpeed (update s) = zoomSpeed s"
  by (simp_all add: update_def fixUp_def Let_def)

lemma dollyStep_config:
  assumes "dollyStep cur s = Inr s'"
  shows "minDistance s' = minDistance s" "maxDistance s' = maxDistance s"
    "clientHeight s' = clientHeight s"
  using assms by (auto simp: dollyStep_def Let_def split: if_splits)

lemma onMouseWheel_within:
  assumes "0 < minDistance s" "clientHeight s \<noteq> 0" "withinLimits (distToTarget s) s"
  shows "\<exists>s'. onMouseWheel deltaY s = Inr s' \<and> withinLimits (distToTarget s') s' \<and>
           minDistance s' = minDistance s \<and> maxDistance s' = maxDistance s \<and>
           clientHeight s' = clientHeight s"
proof -
  have d: "distToTarget s \<noteq> 0" using assms(1,3) by (auto simp: withinLimits_def)
  obtain s' where w: "onMouseWheel deltaY s = Inr s'"
    and dist: "distToTarget s' =
             (let delta = zoomSpeed s * (distForFullDrag s / clientHeight s) * deltaY
              in if withinLimits (distToTarget s + delta) s
                 then \<bar>distToTarget s + delta\<bar> else distToTarget s)"
    using onMouseWheel_distance [OF assms(2) d] by blast
  have "dollyStep (Vector2 0 (- deltaY)) (s\<lparr>state := DOLLYING, prev := Vector2 0 0\<rparr>) = Inr s'"
    using w by (simp add: onMouseWheel_def dolly_def)
  note c = dollyStep_config [OF this]
  have cfg: "minDistance s' = minDistance s" "maxDistance s' = maxDistance s"
    "clientHeight s' = clientHeight s"
    using c by simp_all
  have "withinLimits (distToTarget s') s"
    using dist assms(1,3) by (auto simp: Let_def withinLimits_def split: limit.splits)
  then have "withinLimits (distToTarget s') s'"
    using cfg by (simp add: withinLimits_def)
  then show ?thesis using w cfg by simp
qed

lemma wheels_within:
  assumes "0 < minDistance s" "clientHeight s \<noteq> 0" "withinLimits (distToTarget s) s"
  shows "\<exists>s'. handleEvents (map Wheel ds) s = Inr s' \<and> withinLimits (distToTarget s') s'"
  using assms
proof (induction ds arbitrary: s)
  case Nil
  then show ?case by simp
next
  case (Cons dy ds)
  obtain s1 where w: "onMouseWheel dy s = Inr s1" and in1: "withinLimits (distToTarget s1) s1"
    and cfg: "minDistance s1 = minDistance s" "clientHeight s1 = clientHeight s"
    using onMouseWheel_within [OF Cons.prems, of dy] by blast
  have "\<exists>s'. handleEvents (map Wheel ds) s1 = Inr s' \<and> withinLimits (distToTarget s') s'"
    using Cons.IH [of s1] Cons.prems cfg in1 by simp
  then show ?case using w by simp
qed

text \<open>
  C2. The claim: a dolly step is applied only if the distance it leads to lies within
  \<open>[minDistance, maxDistance]\<close>, and so the distance stays within the limits along every
  sequence of dolly steps that starts within them. The code misses the distance 0, which
  the default limits \<open>0\<close> and \<^verbatim>\<open>Infinity\<close> admit: there the step computes the change 0,
  passes the test and divides by the distance. In the example a wheel event with
  \<^verbatim>\<open>deltaY = -100\<close> moves the camera from distance 5 onto the target, and the next
  wheel event divides 0 by 0: the position is \<^verbatim>\<open>NaN\<close> from then on.
\<close>

theorem wheel_twice_ZeroDistance:
  "handleEvents [Wheel (- 100), Wheel 100] example = Inl ZeroDistance"
proof -
  obtain s' where "onMouseWheel (- 100) example = Inr s'" "distToTarget s' = 0"
    "clientHeight s' = 200" "minDistance s' = 0" "maxDistance s' = Infinity"
    using wheel_to_target by blast
  then show ?thesis
    using onMouseWheel_on_target [of s' 100] by simp
qed

section \<open>C3: rotation keeps the distance to the target\<close>

text \<open>
  C3, as amended. In exact arithmetic: a move is processed as a rotation either in state
  \<open>ROTATING\<close>, with the radius and basis matrix captured for a camera at \<open>p\<close>, up vector
  \<open>u\<close> and target \<open>t\<close>, or in state \<open>INDETERMINATE\<close> when the pointer is further than
  the click threshold from the press: then the frame is captured from the current camera.
  If \<open>u\<close> is a unit vector orthogonal to the view axis \<open>p - t\<close> (the captured frame is
  orthonormal), the camera does not sit on the target and the DOM element has a width and
  a height, the move succeeds and the distance from the new camera position to the target
  is the captured radius, the distance from \<open>p\<close> to \<open>t\<close>. The frame stays captured, so
  the same holds for the next move.
\<close>

theorem rotateCamera_keeps_radius:
  assumes mv: "state s = ROTATING \<and> capturedAt p t u s \<and> target s = t \<or>
               state s = INDETERMINATE \<and> ClickThreshold < manhattanDistanceTo (Vector2 x y) (prev s) \<and>
                 p = position (object s) \<and> t = target s \<and> u = up (object s)"
    and pt: "p \<noteq> t"
    and u1: "length3 u = 1" and uz: "dot u (subVectors p t) = 0"
    and vp: "clientWidth s \<noteq> 0" "clientHeight s \<noteq> 0"
  shows "\<exists>s'. rotateCamera x y s = Inr s' \<and> state s' = ROTATING \<and>
              length3 (subVectors (position (object s')) (target s')) = radius s' \<and>
              radius s' = length3 (subVectors p t) \<and>
              capturedAt p t u s' \<and> target s' = t"
proof -
  obtain s1 where run: "rotateCamera x y s = rotateStep (Vector2 x y) s1"
    and st: "state s1 = ROTATING" and cap: "capturedAt p t u s1" and tg: "target s1 = t"
    and vp1: "clientWidth s1 \<noteq> 0" "clientHeight s1 \<noteq> 0"
    using mv
  proof
    assume "state s = ROTATING \<and> capturedAt p t u s \<and> target s = t"
    then show ?thesis using that [of s] vp by (simp add: rotateCamera_ROTATING)
  next
    assume a: "state s = INDETERMINATE \<and> ClickThreshold < manhattanDistanceTo (Vector2 x y) (prev s) \<and>
                 p = position (object s) \<and> t = target s \<and> u = up (object s)"
    then show ?thesis
      using rotateCamera_promote [of s x y] pt vp that by auto
  qed
  obtain pos where ap: "applyMatrix4 (rotatePos (Vector2 x y) s1) (basisMatrix s1) = Inr pos"
    and len: "length3 (subVectors pos t) = radius s1"
    using rotatePos_length [OF cap pt u1 uz, where cur = "Vector2 x y"] by blast
  obtain s' where r: "rotateStep (Vector2 x y) s1 = Inr s'" and p': "position (object s') = pos"
    using rotateStep_position [OF ap vp1] by blast
  note fr = rotateStep_frame [OF r st]
  have c': "capturedAt p t u s'" using cap fr(2,3) by (simp add: capturedAt_def)
  have rd: "radius s' = length3 (subVectors p t)"
    using cap fr(2) by (simp add: capturedAt_def Let_def)
  have tg': "target s' = t" using fr(4) tg by simp
  have "length3 (subVectors (position (object s')) (target s')) = radius s'"
    unfolding p' tg' fr(2) by (rule len)
  then show ?thesis
    using run r fr(1) rd c' tg' by (intro exI [of _ s']) simp
qed

theorem rotateCamera_keeps_radius_witness:
  "\<exists>s'. rotateCamera 50 0 (onMouseDown pressAtOrigin example) = Inr s' \<and> state s' = ROTATING \<and>
        length3 (subVectors (position (object s')) (target s')) = radius s' \<and>
        radius s' = 5"
proof -
  have "length3 (subVectors (Vector3 0 0 5) (Vector3 0 0 0)) = 5"
    by (simp add: subVectors_def)
  moreover have "\<exists>s'. rotateCamera 50 0 (onMouseDown pressAtOrigin example) = Inr s' \<and>
      state s' = ROTATING \<and>
      length3 (subVectors (position (object s')) (target s')) = radius s' \<and>
      radius s' = length3 (subVectors (Vector3 0 0 5) (Vector3 0 0 0)) \<and>
      capturedAt (Vector3 0 0 5) (Vector3 0 0 0) (Vector3 0 1 0) s' \<and> target s' = Vector3 0 0 0"
    by (rule rotateCamera_keeps_radius [of _ _ _ "Vector3 0 1 0"])
      (simp_all add: far_from_press example_object example_fields exampleCamera_def
        subVectors_def dot_def)
  ultimately show ?thesis by auto
qed

text \<open>
  In double precision the distance is the radius up to rounding only. The camera of
  \<open>exampleNear\<close> is at \<open>(0, 0, 3)\<close> with the up vector \<open>(0, 1, 0)\<close>, so the captured
  frame is the identity and the radius is 3. A drag of the primary button from the origin
  to \<open>(0, 60)\<close> puts the camera at \<open>(0, 2.999850001249996, 0.02999950000249999)\<close>. The
  distance from there to the target is not 3, and \<^verbatim>\<open>length()\<close> of the difference
  returns \<open>3.0000000000000004\<close>, the double after 3.
\<close>

theorem rotateCamera64_radius_counterexample:
  "position (object exampleNear) = Vector3 0 0 3 \<and> up (object exampleNear) = Vector3 0 1 0 \<and>
   target exampleNear = Vector3 0 0 0 \<and>
   map_sum id state (rotateCamera64 0 60 (onMouseDown pressAtOrigin exampleNear)) = Inr ROTATING \<and>
   map_sum id basisMatrix (rotateCamera64 0 60 (onMouseDown pressAtOrigin exampleNear))
     = Inr (makeTranslation 0 0 0) \<and>
   map_sum id radius (rotateCamera64 0 60 (onMouseDown pressAtOrigin exampleNear)) = Inr 3 \<and>
   map_sum id target (rotateCamera64 0 60 (onMouseDown pressAtOrigin exampleNear))
     = Inr (Vector3 0 0 0) \<and>
   map_sum id (position \<circ> object) (rotateCamera64 0 60 (onMouseDown pressAtOrigin exampleNear))
     = Inr (Vector3 0 (105547838654663 / 35184372088832) (4323383585041925 / 144115188075855872)) \<and>
   length64 (subVectors64 (Vector3 0 (105547838654663 / 35184372088832) (4323383585041925 / 144115188075855872))
                          (Vector3 0 0 0))
     = 6755399441055745 / 2251799813685248 \<and>
   length3 (subVectors (Vector3 0 (105547838654663 / 35184372088832) (4323383585041925 / 144115188075855872))
                       (Vector3 0 0 0)) \<noteq> 3"
proof -
  obtain s' where r: "rotateCamera64 0 60 (onMouseDown pressAtOrigin exampleNear) = Inr s'"
    and f: "state s' = ROTATING" "radius s' = 3" "target s' = Vector3 0 0 0"
      "basisMatrix s' = makeTranslation 0 0 0"
      "position (object s') = Vector3 0 (105547838654663 / 35184372088832) (4323383585041925 / 144115188075855872)"
    using rotate_near by blast
  show ?thesis
    unfolding r using f near_moved_length3
    by (simp add: near_moved_length64 exampleNear_object exampleNear_fields nearCamera_def)
qed

section \<open>C4: when fixUp runs\<close>

text \<open>
  C4, as amended. No move of a rotation calls \<open>fixUp\<close>, and a release calls it once if
  the state is \<open>ROTATING\<close> and not at all otherwise. It does not run at the end of a
  gesture only: every dolly step that passes the distance test and every pan step calls
  it once, through \<open>update\<close>. A dolly step that fails the test and a move that the
  handler ignores do not call it.
\<close>

theorem fixUp_calls:
  "(rotateCamera x y s = Inr s1 \<longrightarrow> fixUpCalls s1 = fixUpCalls s) \<and>
   fixUpCalls (onMouseUp s) = fixUpCalls s + (if state s = ROTATING then 1 else 0) \<and>
   (dolly x y s = Inr s2 \<longrightarrow>
      fixUpCalls s2 = fixUpCalls s +
        (if (state s = DOLLYING \<or>
             state s = INDETERMINATE \<and> ClickThreshold < manhattanDistanceTo (Vector2 x y) (prev s)) \<and>
            withinLimits (distToTarget s + dollyDelta y s) s
         then 1 else 0)) \<and>
   (pan x y s = Inr s3 \<longrightarrow>
      fixUpCalls s3 = fixUpCalls s +
        (if state s = PANNING \<or>
            state s = INDETERMINATE \<and> ClickThreshold < manhattanDistanceTo (Vector2 x y) (prev s)
         then 1 else 0))"
  using rotateCamera_effects(1) [of x y s s1] dolly_effects(1) [of x y s s2]
    pan_effects(1) [of x y s s3]
  by (simp add: onMouseUp_fields)

theorem fixUp_calls_witness:
  "fixUpCalls (onMouseUp (example\<lparr>state := ROTATING\<rparr>)) = 2 \<and>
   fixUpCalls (onMouseUp example) = 1 \<and>
   (\<exists>s1. rotateCamera 50 0 (onMouseDown pressAtOrigin example) = Inr s1 \<and> fixUpCalls s1 = 1) \<and>
   (\<exists>s2. dolly 0 (- 100) (onMouseDown pressMiddle example) = Inr s2 \<and> fixUpCalls s2 = 2) \<and>
   (\<exists>s3. pan 7 0 (example\<lparr>state := PANNING, prev := Vector2 0 0\<rparr>) = Inr s3 \<and> fixUpCalls s3 = 2)"
proof -
  obtain s1 where r1: "rotateCamera 50 0 (onMouseDown pressAtOrigin example) = Inr s1"
    using rotate_example_runs by blast
  obtain s2 where r2: "dolly 0 (- 100) (onMouseDown pressMiddle example) = Inr s2"
    using drag_example_runs by (auto simp: onMouseMove_def dragUp_def)
  obtain s3 where r3: "pan 7 0 (example\<lparr>state := PANNING, prev := Vector2 0 0\<rparr>) = Inr s3"
    using pan_succeeds [of "example\<lparr>state := PANNING, prev := Vector2 0 0\<rparr>" 7 0] example_fov_cos
    by (auto simp: example_dist example_fields)
  have "fixUpCalls (onMouseUp (example\<lparr>state := ROTATING\<rparr>)) = 2"
    using fixUp_calls [of 0 0 "example\<lparr>state := ROTATING\<rparr>"] by (simp add: example_counters)
  moreover have "fixUpCalls (onMouseUp example) = 1"
    using fixUp_calls [of 0 0 example] by (simp add: example_counters example_fields)
  moreover have "fixUpCalls s1 = 1"
    using fixUp_calls [of 50 0 "onMouseDown pressAtOrigin example" s1] r1
    by (simp add: example_counters)
  moreover have "fixUpCalls s2 = 2"
    using fixUp_calls [of 0 "- 100" "onMouseDown pressMiddle example" _ s2] r2
    by (simp add: example_counters example_dist example_fields pressMiddle_def pointer_def
        manhattanDistanceTo_def ClickThreshold_def)
  moreover have "fixUpCalls s3 = 2"
    using fixUp_calls [of 7 0 "example\<lparr>state := PANNING, prev := Vector2 0 0\<rparr>" _ _ s3] r3
    by (simp add: example_counters)
  ultimately show ?thesis using r1 r2 r3 by simp
qed

text \<open>
  The claim as stated, that \<open>fixUp\<close> never runs while a move of a dolly gesture is
  handled, fails in the example: after a press of the middle button and a drag of 100
  pixels the gesture is still active (state \<open>DOLLYING\<close>) and \<open>fixUp\<close> has run a second
  time.
\<close>

theorem fixUp_in_dolly_counterexample:
  "fixUpCalls example = 1 \<and>
   map_sum id state (handleEvents [MouseDown pressMiddle, MouseMove dragUp] example) = Inr DOLLYING \<and>
   map_sum id fixUpCalls (handleEvents [MouseDown pressMiddle, MouseMove dragUp] example) = Inr 2"
proof -
  obtain s' where r: "handleEvents [MouseDown pressMiddle, MouseMove dragUp] example = Inr s'"
    using drag_example_runs by blast
  show ?thesis
    unfolding r using drag_example [OF r] by (simp add: example_counters)
qed

section \<open>C5: the wheel\<close>




section \<open>C6: the state after a gesture\<close>

text \<open>
  C6, as amended. A press sets the state to \<open>INDETERMINATE\<close> and a release sets it to
  \<open>INACTIVE\<close>, so a press, its moves and the release end in \<open>INACTIVE\<close>. A wheel event ends in \<open>DOLLYING\<close> and a key event for
  one of the four pan keys in \<open>PANNING\<close>: no handler resets the state after them. Any
  other key leaves the state as it is.
\<close>

theorem state_after_gesture:
  "state (onMouseDown e s) = INDETERMINATE \<and>
   state (onMouseUp s) = INACTIVE \<and>
   (handleEvents (gesture e ms) s = Inr s1 \<longrightarrow> state s1 = INACTIVE) \<and>
   (onMouseWheel deltaY s = Inr s2 \<longrightarrow> state s2 = DOLLYING) \<and>
   (onKeyDown k s = Inr s3 \<longrightarrow>
      state s3 = (if k = UP (keys s) \<or> k = DOWN (keys s) \<or> k = LEFT (keys s) \<or> k = RIGHT (keys s)
                  then PANNING else state s))"
proof (intro conjI impI)
  show "state (onMouseDown e s) = INDETERMINATE" by simp
next
  show "state (onMouseUp s) = INACTIVE" by (simp add: onMouseUp_fields)
next
  assume "handleEvents (gesture e ms) s = Inr s1"
  then show "state s1 = INACTIVE"
    by (auto simp: gesture_run onMouseUp_fields split: sum.splits)
next
  assume "onMouseWheel deltaY s = Inr s2"
  then have "dolly 0 (- deltaY) (s\<lparr>state := DOLLYING, prev := Vector2 0 0\<rparr>) = Inr s2"
    by (simp add: onMouseWheel_def)
  from dolly_effects(5) [OF this] show "state s2 = DOLLYING" by simp
next
  assume k: "onKeyDown k s = Inr s3"
  show "state s3 = (if k = UP (keys s) \<or> k = DOWN (keys s) \<or> k = LEFT (keys s) \<or> k = RIGHT (keys s)
                  then PANNING else state s)"
  proof (cases "k = UP (keys s) \<or> k = DOWN (keys s) \<or> k = LEFT (keys s) \<or> k = RIGHT (keys s)")
    case True
    then obtain x y where "pan x y (s\<lparr>state := PANNING, prev := Vector2 0 0\<rparr>) = Inr s3"
      using k unfolding onKeyDown_cases by (auto split: if_splits)
    from pan_effects(5) [OF this] show ?thesis using True by simp
  next
    case False
    then show ?thesis using k by (simp add: onKeyDown_cases)
  qed
qed

theorem state_after_gesture_witness:
  "state (onMouseUp example) = INACTIVE \<and>
   (\<exists>s1. handleEvents (gesture pressMiddle [dragUp]) example = Inr s1 \<and> state s1 = INACTIVE) \<and>
   (\<exists>s2. onMouseWheel 100 example = Inr s2 \<and> state s2 = DOLLYING) \<and>
   (\<exists>s3. onKeyDown 37 example = Inr s3 \<and> state s3 = PANNING)"
proof -
  obtain s0 where "handleEvents [MouseDown pressMiddle, MouseMove dragUp] example = Inr s0"
    using drag_example_runs by blast
  then have "handleEvents (map MouseMove [dragUp]) (onMouseDown pressMiddle example) = Inr s0"
    by simp
  then have r1: "handleEvents (gesture pressMiddle [dragUp]) example = Inr (onMouseUp s0)"
    by (simp only: gesture_run sum.case)
  obtain s2 where r2: "onMouseWheel 100 example = Inr s2"
    using onMouseWheel_distance [of example 100] by (auto simp: example_dist example_fields)
  obtain s3 where r3: "onKeyDown 37 example = Inr s3"
    using key_example_runs by blast
  note t = state_after_gesture [of pressMiddle example "[dragUp]" "onMouseUp s0" 100 s2 37 s3]
  have "state (onMouseUp s0) = INACTIVE" using t r1 by simp
  moreover have "state s2 = DOLLYING" using t r2 by simp
  moreover have "state s3 = PANNING" using t r3 by (simp add: example_keys)
  moreover have "state (onMouseUp example) = INACTIVE" using t by simp
  ultimately show ?thesis using r1 r2 r3 by simp
qed

text \<open>
  The claim as stated, that the machine is back in Idle after a wheel tick, fails in the
  example.
\<close>

theorem wheel_leaves_DOLLYING_counterexample:
  "map_sum id state (handleEvents [Wheel 100] example) = Inr DOLLYING \<and> DOLLYING \<noteq> INACTIVE"
  using wheel_example_state by simp

section \<open>C7: click or drag\<close>




section \<open>C8: pole avoidance\<close>

text \<open>
  C8. The inclination of every rotate move lies in \<open>[eps, pi - eps]\<close>
  (\<open>rotateTheta_bounds\<close>), and the new position is off the up axis of the captured frame
  if that axis is not parallel to the view axis (\<open>rotateCamera_avoids_poles\<close>). The
  controller itself produces a frame where it is: \<open>topDown\<close> is constructed for a camera
  at \<open>(0, 5, 0)\<close> that looks at the origin along its up vector \<open>(0, 1, 0)\<close>. The
  constructor calls \<open>update\<close> and so \<open>fixUp\<close>, where the cross product of the view
  vector and the up vector is the zero vector, which \<open>normalize3\<close> leaves as it is: the
  up vector of the camera becomes \<open>(0, 0, 0)\<close>. A drag of the primary button by ten
  pixels then captures a frame with the axes \<open>(0, 0, 0)\<close>, \<open>(0, 0, 0)\<close> and
  \<open>(0, 1, 0)\<close>, and the move, with the inclination \<open>pi / 2\<close>, puts the camera at
  \<open>(0, 5 * cos (pi / 10), 0)\<close>: on the line through the target along the up axis the
  camera was constructed with.
\<close>

theorem topDown_rotate_on_axis:
  "up (object topDown) = Vector3 0 0 0 \<and>
   rotateTheta (pointer dragRight) (onMouseDown pressAtOrigin topDown) = pi / 2 \<and>
   map_sum id state (handleEvents [MouseDown pressAtOrigin, MouseMove dragRight] topDown)
     = Inr ROTATING \<and>
   map_sum id (position \<circ> object)
       (handleEvents [MouseDown pressAtOrigin, MouseMove dragRight] topDown)
     = Inr (Vector3 0 (5 * cos (pi / 10)) 0) \<and>
   map_sum id (up \<circ> object)
       (handleEvents [MouseDown pressAtOrigin, MouseMove dragRight] topDown)
     = Inr (Vector3 0 0 0) \<and>
   crossVectors (subVectors (Vector3 0 (5 * cos (pi / 10)) 0) (target topDown)) (up topDownCamera)
     = Vector3 0 0 0"
proof -
  have "rotateTheta (Vector2 10 0) (onMouseDown pressAtOrigin topDown) = pi / 2"
    by (rule topDown_angles)
      (simp_all add: pointer_def pressAtOrigin_def topDown_fields onMouseDown_def)
  then have th: "rotateTheta (pointer dragRight) (onMouseDown pressAtOrigin topDown) = pi / 2"
    by (simp add: pointer_def dragRight_def)
  show ?thesis
    unfolding topDown_drag using th
    by (simp add: update_def Let_def topDown_object topDown_fields topDownCamera_def
        crossVectors_def subVectors_def)
qed

section \<open>C9: reset\<close>

text \<open>
  C9, as amended. Calling \<open>reset\<close> twice leaves the same camera position and target as
  calling it once, in exact arithmetic and in double precision: both are copies of the
  stored position and target. The up vector is the same in exact arithmetic, for every
  state, also when the stored position and target coincide (\<open>normalize3\<close> leaves the
  zero vector as it is).
\<close>

theorem reset_twice_same:
  "position (object (reset (reset s))) = position (object (reset s)) \<and>
   up (object (reset (reset s))) = up (object (reset s)) \<and>
   target (reset (reset s)) = target (reset s) \<and>
   position (object (reset64 (reset64 s))) = position (object (reset64 s)) \<and>
   target (reset64 (reset64 s)) = target (reset64 s)"
proof -
  have p: "position (object (reset s)) = position0 s" and t: "target (reset s) = target0 s"
    and p0: "position0 (reset s) = position0 s" and t0: "target0 (reset s) = target0 s"
    and st: "state (reset s) = state s"
    by (simp_all add: reset_def)
  have pp: "position (object (reset (reset s))) = position0 s"
    and tt: "target (reset (reset s)) = target0 s"
    by (simp_all add: reset_def)
  define v where "v = normalize3 (subVectors (target0 s) (position0 s))"
  have u1: "up (object (reset s)) = (if state s \<noteq> ROTATING then stabilized v (up (object s)) else up (object s))"
    by (simp add: reset_def up_update v_def)
  have u2: "up (object (reset (reset s))) =
      (if state s \<noteq> ROTATING then stabilized v (up (object (reset s))) else up (object (reset s)))"
    unfolding reset_def [of "reset s"] by (simp add: up_update v_def p0 t0 st)
  have "v = Vector3 0 0 0 \<or> length3 v = 1"
    unfolding v_def by (rule normalize3_zero_or_unit)
  then have "stabilized v (stabilized v (up (object s))) = stabilized v (up (object s))"
    by (rule stabilized_idem)
  then have "up (object (reset (reset s))) = up (object (reset s))"
    using u1 u2 by simp
  then show ?thesis using p t pp tt by (simp add: reset64_fields)
qed

text \<open>
  In double precision the second call can change the up vector. For the camera at
  \<open>(1, 3, 3)\<close> the first component of the up vector is \<open>-0.21764287503300359\<close> after
  one call of \<open>reset64\<close> and \<open>-0.21764287503300364\<close> after two: the vectors that
  \<open>fixUp64\<close> normalizes have the length 1 up to rounding only, so the second call does
  not reproduce the first.
\<close>

theorem reset64_twice_counterexample:
  "position0 exampleAskew \<noteq> target0 exampleAskew \<and>
   vx (up (object (reset64 exampleAskew))) = - (7841410967187827 / 36028797018963968) \<and>
   vx (up (object (reset64 (reset64 exampleAskew)))) = - (7841410967187829 / 36028797018963968) \<and>
   up (object (reset64 (reset64 exampleAskew))) \<noteq> up (object (reset64 exampleAskew))"
  by (simp add: reset64_askew reset64_reset64_askew exampleAskew_fields)

section \<open>C10: the division by the distance\<close>

text \<open>
  C10. \<open>dolly\<close> divides the change of distance by the distance to the target without a
  test. The division is by zero exactly when the step reaches the branch that applies it
  (the state is \<open>DOLLYING\<close>, or the move promotes the gesture to it; the DOM element has
  a height; the distance test passes) with the camera on the target. So with a positive
  distance to the target the division never fails, and the step returns a state if the
  DOM element has a height.
\<close>

theorem dolly_ZeroDistance_iff:
  "(0 < distToTarget s \<longrightarrow> dolly x y s \<noteq> Inl ZeroDistance) \<and>
   (0 < distToTarget s \<and> clientHeight s \<noteq> 0 \<longrightarrow> (\<exists>s'. dolly x y s = Inr s')) \<and>
   (dolly x y s = Inl ZeroDistance \<longleftrightarrow>
      (state s = DOLLYING \<or>
       state s = INDETERMINATE \<and> ClickThreshold < manhattanDistanceTo (Vector2 x y) (prev s)) \<and>
      clientHeight s \<noteq> 0 \<and>
      withinLimits (distToTarget s + dollyDelta y s) s \<and>
      distToTarget s = 0)"
proof -
  let ?applies = "state s = DOLLYING \<or>
       state s = INDETERMINATE \<and> ClickThreshold < manhattanDistanceTo (Vector2 x y) (prev s)"
  have idle: "dolly x y s = Inr s" if "\<not> ?applies"
    using that by (simp add: dolly_idle)
  have iff: "dolly x y s = Inl ZeroDistance \<longleftrightarrow>
      ?applies \<and> clientHeight s \<noteq> 0 \<and>
      withinLimits (distToTarget s + dollyDelta y s) s \<and> distToTarget s = 0"
  proof (cases "state s = DOLLYING")
    case True
    then show ?thesis by (simp add: dolly_DOLLYING dollyStep_ZeroDistance_iff)
  next
    case nd: False
    show ?thesis
    proof (cases "state s = INDETERMINATE \<and>
        ClickThreshold < manhattanDistanceTo (Vector2 x y) (prev s)")
      case True
      then show ?thesis by (simp add: dolly_promote dollyStep_ZeroDistance_iff)
    next
      case False
      then show ?thesis using nd idle by auto
    qed
  qed
  have runs: "\<exists>s'. dolly x y s = Inr s'" if "0 < distToTarget s" "clientHeight s \<noteq> 0"
  proof (cases ?applies)
    case True
    then show ?thesis using dolly_succeeds [of s x y] that by simp
  next
    case False
    then show ?thesis using idle by simp
  qed
  show ?thesis using iff runs by auto
qed

theorem dolly_ZeroDistance_iff_witness:
  "dolly 0 (- 100) (exampleOnTarget\<lparr>state := DOLLYING\<rparr>) = Inl ZeroDistance \<and>
   dolly 0 (- 100) (example\<lparr>state := DOLLYING\<rparr>) \<noteq> Inl ZeroDistance \<and>
   (\<exists>s'. dolly 0 (- 100) (example\<lparr>state := DOLLYING\<rparr>) = Inr s')"
  using dolly_ZeroDistance_iff [of "exampleOnTarget\<lparr>state := DOLLYING\<rparr>" 0 "- 100"]
    dolly_ZeroDistance_iff [of "example\<lparr>state := DOLLYING\<rparr>" 0 "- 100"]
  by (simp add: exampleOnTarget_fields example_dist example_fields dollyDelta_def)

end
